(* ===== verification/Prelude.thy ===== *)
theory Prelude
  imports Main "HOL-Library.Sublist"
begin

text \<open>
  Shared vocabulary of the development: the exceptions the Python sources raise,
  the character classes of Python's \<open>re\<close> module and of \<open>str.strip\<close>, string
  helpers (\<open>str.startswith\<close>, \<open>str.split\<close>, \<open>str.strip\<close>), and the result type
  \<open>error + 'a\<close> in which every raise of the sources is an \<open>Inl\<close> value.

  Characters are HOL \<open>char\<close>s read as the Unicode code points U+0000 to U+00FF
  (the Latin-1 block); the character classes below are Python's classes restricted to
  that block.
\<close>

named_theorems charclass_simps "evaluation rules of the character classes"
named_theorems result_simps "rules for the error + 'a result type"
named_theorems fs_frame "how a filesystem call leaves the entries it does not target"

section \<open>Exceptions\<close>

text \<open>
  One constructor per exception class the modelled code raises or lets escape.
  The payload is the message or the offending value, as in the source.
\<close>

text \<open>
  The lines of a \<open>MalformedSpecfile\<close> message, one per diagnostic, with the fields
  its format string prints: a RELAX NG error (file base name, line, column, message),
  a format error (\<open>tag/@attribute\<close>, line, value, and the position of the violated
  rule in the \<open>specification\<close> table, standing for the regular expression the line
  prints), or the text of an XML syntax or XInclude error.
\<close>

datatype diag =
    RngDiag string nat nat string
  | FmtDiag string nat string nat
  | ParseDiag string

datatype error =
    InvocationError string            \<comment> \<open>\<open>boltlinux.error.InvocationError\<close>\<close>
  | MalformedSpecfile "diag list"      \<comment> \<open>\<open>boltlinux.error.MalformedSpecfile\<close>\<close>
  | RuntimeError string                \<comment> \<open>Python \<open>RuntimeError\<close>\<close>
  | GeneratorError string              \<comment> \<open>\<open>ImageGenerator.Error\<close>\<close>
  | IndexError                         \<comment> \<open>\<open>[0]\<close> on an empty XPath result\<close>
  | KeyError string                    \<comment> \<open>missing dictionary key\<close>
  | AttributeError string              \<comment> \<open>method call on \<open>None\<close>\<close>
  | OSError string "string list"       \<comment> \<open>errno name and the path\<close>
  | DirectiveError string              \<comment> \<open>raised by a directive's \<open>apply\<close>\<close>
  | SubprocessError string             \<comment> \<open>failure of an external command\<close>

type_synonym 'a result = "error + 'a"

text \<open>Sequencing of two fallible steps: the first exception propagates.\<close>

definition rbind :: "'a result \<Rightarrow> ('a \<Rightarrow> 'b result) \<Rightarrow> 'b result" where
  "rbind m f = (case m of Inl e \<Rightarrow> Inl e | Inr x \<Rightarrow> f x)"

lemma rbind_Inl [simp, result_simps]: "rbind (Inl e) f = Inl e"
  by (simp add: rbind_def)

lemma rbind_Inr [simp, result_simps]: "rbind (Inr x) f = f x"
  by (simp add: rbind_def)

lemma rbind_eq_Inr [result_simps]:
  "rbind m f = Inr y \<longleftrightarrow> (\<exists>x. m = Inr x \<and> f x = Inr y)"
  by (cases m) simp_all

lemma rbind_InrE [elim]:
  assumes "rbind m f = Inr y"
  obtains x where "m = Inr x" and "f x = Inr y"
  using assms by (cases m) auto

lemma rbind_eq_Inl [result_simps]:
  "rbind m f = Inl e \<longleftrightarrow> m = Inl e \<or> (\<exists>x. m = Inr x \<and> f x = Inl e)"
  by (cases m) simp_all

section \<open>Character classes\<close>

definition code :: "char \<Rightarrow> nat" where
  "code c = of_char c"

definition in_range :: "char \<Rightarrow> char \<Rightarrow> char \<Rightarrow> bool" where
  "in_range lo hi c \<longleftrightarrow> code lo \<le> code c \<and> code c \<le> code hi"

text \<open>\<open>\d\<close>: the Unicode decimal digits, which in U+0000..U+00FF are the ASCII ones.\<close>

definition is_digit :: "char \<Rightarrow> bool" where
  "is_digit c \<longleftrightarrow> in_range CHR ''0'' CHR ''9'' c"

definition is_lower :: "char \<Rightarrow> bool" where
  "is_lower c \<longleftrightarrow> in_range CHR ''a'' CHR ''z'' c"

definition is_upper :: "char \<Rightarrow> bool" where
  "is_upper c \<longleftrightarrow> in_range CHR ''A'' CHR ''Z'' c"

text \<open>\<open>[a-zA-Z0-9]\<close>: ASCII letters and digits (a bracket class, not \<open>\w\<close>).\<close>

definition is_alnum :: "char \<Rightarrow> bool" where
  "is_alnum c \<longleftrightarrow> is_lower c \<or> is_upper c \<or> is_digit c"

definition is_alpha :: "char \<Rightarrow> bool" where
  "is_alpha c \<longleftrightarrow> is_lower c \<or> is_upper c"

text \<open>
  \<open>\s\<close> of \<open>re\<close> on \<open>str\<close> patterns, and the characters \<open>str.strip()\<close>
  removes: \<open>str.isspace\<close>, which in U+0000..U+00FF is TAB, LF, VT, FF, CR,
  the four separators U+001C..U+001F, SPACE, NEL (U+0085) and NBSP (U+00A0).
\<close>

definition is_space :: "char \<Rightarrow> bool" where
  "is_space c \<longleftrightarrow> code c \<in> {9, 10, 11, 12, 13, 28, 29, 30, 31, 32, 133, 160}"

lemmas [charclass_simps] = is_digit_def is_lower_def is_upper_def is_alnum_def is_alpha_def
  is_space_def in_range_def code_def

lemma is_alnum_not_space [simp]: "is_alnum c \<Longrightarrow> \<not> is_space c"
  by (auto simp: charclass_simps)

section \<open>String helpers\<close>

text \<open>\<open>str.startswith\<close>.\<close>

abbreviation startswith :: "string \<Rightarrow> string \<Rightarrow> bool" where
  "startswith s p \<equiv> prefix p s"

text \<open>\<open>str.lower()\<close> on U+0000..U+00FF: A--Z and the Latin-1 capitals U+00C0..U+00DE
  except U+00D7 move up by 32.\<close>

definition py_lower_char :: "char \<Rightarrow> char" where
  "py_lower_char c =
     (if is_upper c \<or> (192 \<le> code c \<and> code c \<le> 222 \<and> code c \<noteq> 215)
      then char_of (code c + 32) else c)"

text \<open>\<open>str.strip()\<close> with no argument: whitespace is removed at both ends.\<close>

definition strip :: "string \<Rightarrow> string" where
  "strip s = rev (dropWhile is_space (rev (dropWhile is_space s)))"

text \<open>
  \<open>str.split(sep, 1)\<close> for a one-character separator: \<open>None\<close> when the
  separator does not occur (Python returns the one-element list \<open>[s]\<close>, which the
  callers' two-target unpacking rejects with \<open>ValueError\<close>).
\<close>

definition split_once :: "char \<Rightarrow> string \<Rightarrow> (string \<times> string) option" where
  "split_once sep s =
     (if sep \<in> set s then Some (takeWhile (\<lambda>c. c \<noteq> sep) s, tl (dropWhile (\<lambda>c. c \<noteq> sep) s))
      else None)"

text \<open>\<open>sep.join(xs)\<close>.\<close>

fun join :: "string \<Rightarrow> string list \<Rightarrow> string" where
  "join sep [] = []"
| "join sep [x] = x"
| "join sep (x # y # zs) = x @ sep @ join sep (y # zs)"

text \<open>A text file's content as its lines, each terminated by a newline.\<close>

definition unlines :: "string list \<Rightarrow> string" where
  "unlines ls = concat (map (\<lambda>l. l @ ''\<newline>'') ls)"

lemma strip_no_space [simp]: "\<forall>c \<in> set s. \<not> is_space c \<Longrightarrow> strip s = s"
proof -
  assume a: "\<forall>c \<in> set s. \<not> is_space c"
  then have "dropWhile is_space s = s" by (cases s) auto
  moreover from a have "dropWhile is_space (rev s) = rev s" by (cases "rev s") auto
  ultimately show "strip s = s" by (simp add: strip_def)
qed

lemma split_once_Some:
  "split_once sep s = Some (a, b) \<Longrightarrow> s = a @ sep # b \<and> sep \<notin> set a"
proof -
  assume h: "split_once sep s = Some (a, b)"
  then have in_s: "sep \<in> set s" and a: "a = takeWhile (\<lambda>c. c \<noteq> sep) s"
    and b: "b = tl (dropWhile (\<lambda>c. c \<noteq> sep) s)"
    by (auto simp: split_once_def split: if_splits)
  from in_s have "dropWhile (\<lambda>c. c \<noteq> sep) s = sep # b"
    unfolding b by (induction s) auto
  then have "s = a @ sep # b"
    unfolding a by (metis takeWhile_dropWhile_id)
  moreover have "sep \<notin> set a"
    unfolding a by (metis (mono_tags) set_takeWhileD)
  ultimately show ?thesis ..
qed

lemma split_once_append [simp]:
  "sep \<notin> set a \<Longrightarrow> split_once sep (a @ sep # b) = Some (a, b)"
  by (induction a) (auto simp: split_once_def)

lemma concat_map_if_single [simp]:
  "concat (map (\<lambda>x. if P x then [] else [f x]) xs) = map f (filter (\<lambda>x. \<not> P x) xs)"
  by (induction xs) auto

lemma concat_map_if_single_prod [simp]:
  "concat (map (\<lambda>(x, y). if P y then [] else [f x y]) xs) = map (\<lambda>(x, y). f x y) (filter (\<lambda>(x, y). \<not> P y) xs)"
  by (induction xs) auto

end
