(* ===== verification/Regex.thy ===== *)
theory Regex
  imports Prelude
begin

text \<open>
  The regular expressions of \<open>Specfile.validate_format\<close>
  (\<open>src/package/lib/boltlinux/package/boltpack/specfile.py\<close>, lines 98--109) are
  tested with Python's \<open>re.match(regexp, attr)\<close>, and only its truth value is used.
  This theory gives the regular expressions a syntax (\<open>rx\<close>), a language
  (\<open>lang\<close>), an executable matcher by derivatives (\<open>rmatch\<close>) proved equal to
  the language, and the meaning of \<open>re.match\<close> on a pattern anchored by \<open>^\<close>
  and \<open>$\<close> (\<open>py_re_match\<close>), where Python's \<open>$\<close> also matches right before
  a newline that ends the string. Lazy quantifiers (\<open>+?\<close>) and capturing groups
  change which groups are reported, not whether the pattern matches, so for the truth
  value of \<open>re.match\<close> they are the plain quantifiers and groups.
\<close>

section \<open>Syntax\<close>

text \<open>A bracket class is a list of character ranges \<open>[lo-hi]\<close>.\<close>

type_synonym cls = "(char \<times> char) list"

definition in_cls :: "cls \<Rightarrow> char \<Rightarrow> bool" where
  "in_cls rs c \<longleftrightarrow> (\<exists>(lo, hi) \<in> set rs. in_range lo hi c)"

datatype rx =
    Nothing
  | Eps
  | Cls cls
  | Seq rx rx
  | Alt rx rx
  | Star rx

section \<open>Languages\<close>

type_synonym lang = "string set"

definition conc :: "lang \<Rightarrow> lang \<Rightarrow> lang" where
  "conc A B = {u @ v |u v. u \<in> A \<and> v \<in> B}"

inductive_set star :: "lang \<Rightarrow> lang" for A :: lang where
  star_nil: "[] \<in> star A"
| star_app: "u \<in> A \<Longrightarrow> v \<in> star A \<Longrightarrow> u @ v \<in> star A"

primrec lang :: "rx \<Rightarrow> lang" where
  "lang Nothing = {}"
| "lang Eps = {[]}"
| "lang (Cls rs) = {[c] |c. in_cls rs c}"
| "lang (Seq r s) = conc (lang r) (lang s)"
| "lang (Alt r s) = lang r \<union> lang s"
| "lang (Star r) = star (lang r)"

lemma conc_iff: "w \<in> conc A B \<longleftrightarrow> (\<exists>u v. w = u @ v \<and> u \<in> A \<and> v \<in> B)"
  by (auto simp: conc_def)

lemma concI [intro]: "u \<in> A \<Longrightarrow> v \<in> B \<Longrightarrow> u @ v \<in> conc A B"
  by (auto simp: conc_def)

lemma conc_units [simp]:
  "conc {} A = {}" "conc A {} = {}" "conc {[]} A = A" "conc A {[]} = A"
  by (auto simp: conc_def)

lemma Nil_in_conc [simp]: "[] \<in> conc A B \<longleftrightarrow> [] \<in> A \<and> [] \<in> B"
  by (auto simp: conc_def)

lemma concE [elim]:
  assumes "w \<in> conc A B"
  obtains u v where "w = u @ v" "u \<in> A" "v \<in> B"
  using assms by (auto simp: conc_def)

lemma star_single: "u \<in> A \<Longrightarrow> u \<in> star A"
  using star_app [OF _ star_nil, of u A] by simp

lemma star_append: "u \<in> star A \<Longrightarrow> v \<in> star A \<Longrightarrow> u @ v \<in> star A"
  by (induction rule: star.induct) (auto intro: star.intros)

text \<open>The left quotient of a starred language: the first non-empty factor is cut.\<close>

lemma Cons_in_star:
  "c # w \<in> star A \<longleftrightarrow> (\<exists>u v. w = u @ v \<and> c # u \<in> A \<and> v \<in> star A)"
proof
  assume "c # w \<in> star A"
  then show "\<exists>u v. w = u @ v \<and> c # u \<in> A \<and> v \<in> star A"
  proof (induction "c # w" arbitrary: w rule: star.induct)
    case (star_app u v)
    show ?case
    proof (cases u)
      case Nil
      with star_app show ?thesis by simp
    next
      case (Cons x u')
      with star_app.hyps show ?thesis by auto
    qed
  qed
next
  assume "\<exists>u v. w = u @ v \<and> c # u \<in> A \<and> v \<in> star A"
  then show "c # w \<in> star A" by (auto dest: star_app)
qed

section \<open>Derivatives\<close>

primrec nullable :: "rx \<Rightarrow> bool" where
  "nullable Nothing = False"
| "nullable Eps = True"
| "nullable (Cls rs) = False"
| "nullable (Seq r s) = (nullable r \<and> nullable s)"
| "nullable (Alt r s) = (nullable r \<or> nullable s)"
| "nullable (Star r) = True"

text \<open>Smart constructors keep derivatives small: they drop \<open>Nothing\<close> and \<open>Eps\<close>
  units and merge equal alternatives.\<close>

fun seq :: "rx \<Rightarrow> rx \<Rightarrow> rx" where
  "seq Nothing s = Nothing"
| "seq r Nothing = Nothing"
| "seq Eps s = s"
| "seq r Eps = r"
| "seq r s = Seq r s"

fun alt :: "rx \<Rightarrow> rx \<Rightarrow> rx" where
  "alt Nothing s = s"
| "alt r Nothing = r"
| "alt r s = (if r = s then r else Alt r s)"

primrec deriv :: "char \<Rightarrow> rx \<Rightarrow> rx" where
  "deriv c Nothing = Nothing"
| "deriv c Eps = Nothing"
| "deriv c (Cls rs) = (if in_cls rs c then Eps else Nothing)"
| "deriv c (Seq r s) =
     (if nullable r then alt (seq (deriv c r) s) (deriv c s) else seq (deriv c r) s)"
| "deriv c (Alt r s) = alt (deriv c r) (deriv c s)"
| "deriv c (Star r) = seq (deriv c r) (Star r)"

definition rmatch :: "rx \<Rightarrow> string \<Rightarrow> bool" where
  "rmatch r s = nullable (fold deriv s r)"

lemma nullable_lang: "nullable r \<longleftrightarrow> [] \<in> lang r"
  by (induction r) (auto intro: star.intros)

lemma lang_seq [simp]: "lang (seq r s) = conc (lang r) (lang s)"
  by (induction r s rule: seq.induct) auto

lemma lang_alt [simp]: "lang (alt r s) = lang r \<union> lang s"
  by (induction r s rule: alt.induct) auto

lemma Cons_in_conc:
  "c # w \<in> conc A B \<longleftrightarrow>
     (\<exists>u v. w = u @ v \<and> c # u \<in> A \<and> v \<in> B) \<or> ([] \<in> A \<and> c # w \<in> B)"
proof
  assume "c # w \<in> conc A B"
  then obtain u v where uv: "c # w = u @ v" "u \<in> A" "v \<in> B" by auto
  show "(\<exists>u v. w = u @ v \<and> c # u \<in> A \<and> v \<in> B) \<or> ([] \<in> A \<and> c # w \<in> B)"
  proof (cases u)
    case Nil
    with uv show ?thesis by simp
  next
    case (Cons x u')
    with uv show ?thesis by auto
  qed
next
  assume "(\<exists>u v. w = u @ v \<and> c # u \<in> A \<and> v \<in> B) \<or> ([] \<in> A \<and> c # w \<in> B)"
  then show "c # w \<in> conc A B"
    by (metis append_Cons append_Nil concI)
qed

lemma lang_deriv: "lang (deriv c r) = {w. c # w \<in> lang r}"
proof (induction r)
  case (Seq r s)
  show ?case
  proof (intro set_eqI)
    fix w
    have "c # w \<in> lang (Seq r s) \<longleftrightarrow>
        (\<exists>u v. w = u @ v \<and> c # u \<in> lang r \<and> v \<in> lang s) \<or> (nullable r \<and> c # w \<in> lang s)"
      by (simp add: Cons_in_conc nullable_lang)
    moreover have "w \<in> lang (deriv c (Seq r s)) \<longleftrightarrow>
        (\<exists>u v. w = u @ v \<and> c # u \<in> lang r \<and> v \<in> lang s) \<or> (nullable r \<and> c # w \<in> lang s)"
      by (auto simp: Seq.IH conc_iff)
    ultimately show "w \<in> lang (deriv c (Seq r s)) \<longleftrightarrow> w \<in> {w. c # w \<in> lang (Seq r s)}"
      by simp
  qed
next
  case (Star r)
  then show ?case by (auto simp: Cons_in_star conc_iff)
qed auto

theorem rmatch_lang: "rmatch r s \<longleftrightarrow> s \<in> lang r"
proof (induction s arbitrary: r)
  case Nil
  then show ?case by (simp add: rmatch_def nullable_lang)
next
  case (Cons c s)
  have "rmatch r (c # s) \<longleftrightarrow> rmatch (deriv c r) s"
    by (simp add: rmatch_def)
  also have "\<dots> \<longleftrightarrow> s \<in> lang (deriv c r)"
    by (rule Cons.IH)
  finally show ?case by (simp add: lang_deriv)
qed

section \<open>Python's re.match on an anchored pattern\<close>

text \<open>
  \<open>re.match('^' + R + '$', s)\<close> succeeds iff \<open>R\<close> matches a prefix of \<open>s\<close> that
  ends where \<open>$\<close> matches: at the end of \<open>s\<close>, or right before a final newline.
\<close>

definition py_re_match :: "rx \<Rightarrow> string \<Rightarrow> bool" where
  "py_re_match r s \<longleftrightarrow>
     rmatch r s \<or> (s \<noteq> [] \<and> last s = CHR 0x0A \<and> rmatch r (butlast s))"

lemma py_re_match_lang:
  "py_re_match r s \<longleftrightarrow> s \<in> lang r \<or> (\<exists>t \<in> lang r. s = t @ ''\<newline>'')"
  by (cases s rule: rev_cases) (auto simp: py_re_match_def rmatch_lang)

lemma py_re_match_no_newline:
  "CHR 0x0A \<notin> set s \<Longrightarrow> py_re_match r s \<longleftrightarrow> s \<in> lang r"
  by (auto simp: py_re_match_lang)

section \<open>Derived forms\<close>

text \<open>\<open>r+\<close>, \<open>r?\<close>, \<open>r{n}\<close>, \<open>r{0,n}\<close>, literals and alternatives.\<close>

definition plus :: "rx \<Rightarrow> rx" where
  "plus r = Seq r (Star r)"

definition opt :: "rx \<Rightarrow> rx" where
  "opt r = Alt Eps r"

primrec rep :: "rx \<Rightarrow> nat \<Rightarrow> rx" where
  "rep r 0 = Eps"
| "rep r (Suc n) = Seq r (rep r n)"

primrec rep_upto :: "rx \<Rightarrow> nat \<Rightarrow> rx" where
  "rep_upto r 0 = Eps"
| "rep_upto r (Suc n) = opt (Seq r (rep_upto r n))"

definition chr :: "char \<Rightarrow> rx" where
  "chr c = Cls [(c, c)]"

fun lit :: "string \<Rightarrow> rx" where
  "lit [] = Eps"
| "lit [c] = chr c"
| "lit (c # cs) = Seq (chr c) (lit cs)"

fun alts :: "rx list \<Rightarrow> rx" where
  "alts [] = Nothing"
| "alts [r] = r"
| "alts (r # rs) = Alt r (alts rs)"

lemma in_range_same [simp]: "in_range c c d \<longleftrightarrow> d = c"
  by (auto simp: in_range_def code_def)

lemma in_cls_Nil [simp]: "\<not> in_cls [] c"
  by (simp add: in_cls_def)

lemma in_cls_Cons [simp]: "in_cls ((lo, hi) # rs) c \<longleftrightarrow> in_range lo hi c \<or> in_cls rs c"
  by (simp add: in_cls_def)

lemma in_cls_append [simp]: "in_cls (xs @ ys) c \<longleftrightarrow> in_cls xs c \<or> in_cls ys c"
  by (auto simp: in_cls_def)

lemma lang_plus [simp]: "lang (plus r) = conc (lang r) (star (lang r))"
  by (simp add: plus_def)

lemma lang_opt [simp]: "lang (opt r) = insert [] (lang r)"
  by (auto simp: opt_def)

lemma lang_chr [simp]: "lang (chr c) = {[c]}"
  by (auto simp: chr_def)

lemma conc_singletons [simp]: "conc {u} {v} = {u @ v}"
  by (auto simp: conc_def)

lemma lang_lit [simp]: "lang (lit s) = {s}"
  by (induction s rule: lit.induct) simp_all

lemma lang_alts [simp]: "lang (alts rs) = (\<Union>r \<in> set rs. lang r)"
  by (induction rs rule: alts.induct) simp_all

lemma lang_rep: "w \<in> lang (rep r n) \<longleftrightarrow> (\<exists>ws. length ws = n \<and> (\<forall>u \<in> set ws. u \<in> lang r) \<and> w = concat ws)"
proof (induction n arbitrary: w)
  case 0
  then show ?case by simp
next
  case (Suc n)
  show ?case
  proof
    assume "w \<in> lang (rep r (Suc n))"
    then obtain u v where "w = u @ v" "u \<in> lang r" "v \<in> lang (rep r n)" by auto
    with Suc.IH [of v] obtain ws where "length ws = n" "\<forall>u \<in> set ws. u \<in> lang r" "v = concat ws"
      by blast
    with \<open>w = u @ v\<close> \<open>u \<in> lang r\<close> show "\<exists>ws. length ws = Suc n \<and> (\<forall>u \<in> set ws. u \<in> lang r) \<and> w = concat ws"
      by (intro exI [of _ "u # ws"]) simp
  next
    assume "\<exists>ws. length ws = Suc n \<and> (\<forall>u \<in> set ws. u \<in> lang r) \<and> w = concat ws"
    then obtain u ws where "length ws = n" "u \<in> lang r" "\<forall>u \<in> set ws. u \<in> lang r" "w = u @ concat ws"
      by (auto simp: length_Suc_conv)
    with Suc.IH [of "concat ws"] show "w \<in> lang (rep r (Suc n))" by auto
  qed
qed

text \<open>Strings all of whose characters lie in one class: \<open>[...]*\<close> and \<open>[...]+\<close>.\<close>

lemma star_cls [simp]: "star {[c] |c. in_cls rs c} = {s. \<forall>c \<in> set s. in_cls rs c}"
proof (intro set_eqI iffI)
  fix s assume "s \<in> star {[c] |c. in_cls rs c}"
  then show "s \<in> {s. \<forall>c \<in> set s. in_cls rs c}"
    by (induction rule: star.induct) auto
next
  fix s assume "s \<in> {s. \<forall>c \<in> set s. in_cls rs c}"
  then show "s \<in> star {[c] |c. in_cls rs c}"
  proof (induction s)
    case Nil
    show ?case by (rule star_nil)
  next
    case (Cons c s)
    then have "[c] \<in> {[c] |c. in_cls rs c}" and "s \<in> star {[c] |c. in_cls rs c}" by auto
    from star_app [OF this] show ?case by simp
  qed
qed

lemma plus_cls: "lang (plus (Cls rs)) = {s. s \<noteq> [] \<and> (\<forall>c \<in> set s. in_cls rs c)}"
proof (intro set_eqI iffI)
  fix s assume "s \<in> lang (plus (Cls rs))"
  then show "s \<in> {s. s \<noteq> [] \<and> (\<forall>c \<in> set s. in_cls rs c)}"
    by (auto simp: star_cls conc_iff)
next
  fix s assume "s \<in> {s. s \<noteq> [] \<and> (\<forall>c \<in> set s. in_cls rs c)}"
  then obtain c t where "s = [c] @ t" "[c] \<in> lang (Cls rs)" "t \<in> star (lang (Cls rs))"
    by (cases s) (auto simp: star_cls)
  then show "s \<in> lang (plus (Cls rs))" by (metis concI lang_plus)
qed

lemma conc_cls_star [simp]:
  "conc {[c] |c. in_cls rs c} {s. \<forall>c \<in> set s. in_cls rs c} = {s. s \<noteq> [] \<and> (\<forall>c \<in> set s. in_cls rs c)}"
  using plus_cls [of rs] by simp

lemma in_conc4:
  "s \<in> conc A (conc B (conc C D)) \<longleftrightarrow>
     (\<exists>a b c d. s = a @ b @ c @ d \<and> a \<in> A \<and> b \<in> B \<and> c \<in> C \<and> d \<in> D)"
proof
  assume "s \<in> conc A (conc B (conc C D))"
  then show "\<exists>a b c d. s = a @ b @ c @ d \<and> a \<in> A \<and> b \<in> B \<and> c \<in> C \<and> d \<in> D"
    by (blast elim!: concE)
next
  assume "\<exists>a b c d. s = a @ b @ c @ d \<and> a \<in> A \<and> b \<in> B \<and> c \<in> C \<and> d \<in> D"
  then show "s \<in> conc A (conc B (conc C D))" by blast
qed

end
