(* ===== verification/Formats.thy ===== *)
theory Formats
  imports Regex
begin

text \<open>
  The field grammars of \<open>Specfile.validate_format\<close>
  (\<open>src/package/lib/boltlinux/package/boltpack/specfile.py\<close>, lines 98--109), one
  \<open>rx\<close> per regular expression of the \<open>specification\<close> table, written
  constructor by constructor from the pattern text. The lemmas characterise the
  language each pattern accepts in plain terms, which is where the patterns and the
  grammar of the specification part ways.
\<close>

section \<open>Character classes of the patterns\<close>

definition digit_cls :: cls where               \<comment> \<open>\<open>\d\<close>\<close>
  "digit_cls = [(CHR ''0'', CHR ''9'')]"

definition alnum_cls :: cls where               \<comment> \<open>\<open>[a-zA-Z0-9]\<close>\<close>
  "alnum_cls = [(CHR ''a'', CHR ''z''), (CHR ''A'', CHR ''Z''), (CHR ''0'', CHR ''9'')]"

definition alpha_cls :: cls where               \<comment> \<open>\<open>[a-zA-Z]\<close>\<close>
  "alpha_cls = [(CHR ''a'', CHR ''z''), (CHR ''A'', CHR ''Z'')]"

definition lower_cls :: cls where               \<comment> \<open>\<open>[a-z]\<close>\<close>
  "lower_cls = [(CHR ''a'', CHR ''z'')]"

definition vchar_cls :: cls where               \<comment> \<open>\<open>[-.+~a-zA-Z0-9]\<close>\<close>
  "vchar_cls = [(CHR ''-'', CHR ''-''), (CHR ''.'', CHR ''.''), (CHR ''+'', CHR ''+''),
                (CHR ''~'', CHR ''~'')] @ alnum_cls"

definition rchar_cls :: cls where               \<comment> \<open>\<open>[.~+a-zA-Z0-9]\<close>\<close>
  "rchar_cls = [(CHR ''.'', CHR ''.''), (CHR ''~'', CHR ''~''), (CHR ''+'', CHR ''+'')] @ alnum_cls"

definition local_cls :: cls where               \<comment> \<open>\<open>[-_%.a-zA-Z0-9]\<close>\<close>
  "local_cls = [(CHR ''-'', CHR ''-''), (CHR ''_'', CHR ''_''), (CHR ''%'', CHR ''%''),
                (CHR ''.'', CHR ''.'')] @ alnum_cls"

definition domain_cls :: cls where              \<comment> \<open>\<open>[-.a-z0-9]\<close>\<close>
  "domain_cls = [(CHR ''-'', CHR ''-''), (CHR ''.'', CHR ''.''), (CHR ''a'', CHR ''z''),
                 (CHR ''0'', CHR ''9'')]"

definition space_cls :: cls where               \<comment> \<open>\<open>\s\<close>, see \<open>is_space\<close>\<close>
  "space_cls = [(CHR 0x09, CHR 0x0D), (CHR 0x1C, CHR 0x20), (CHR 0x85, CHR 0x85),
                (CHR 0xA0, CHR 0xA0)]"

abbreviation digit :: rx where "digit \<equiv> Cls digit_cls"
abbreviation space :: rx where "space \<equiv> Cls space_cls"

lemmas cls_defs = digit_cls_def alnum_cls_def alpha_cls_def lower_cls_def vchar_cls_def
  rchar_cls_def local_cls_def domain_cls_def space_cls_def

lemma in_space_cls: "in_cls space_cls c \<longleftrightarrow> is_space c"
  by (auto simp: space_cls_def in_cls_def charclass_simps)

lemma in_digit_cls: "in_cls digit_cls c \<longleftrightarrow> is_digit c"
  by (simp add: digit_cls_def in_cls_def charclass_simps)

lemma in_alnum_cls: "in_cls alnum_cls c \<longleftrightarrow> is_alnum c"
  by (auto simp: alnum_cls_def in_cls_def charclass_simps)

section \<open>The patterns\<close>

text \<open>\<open>^[1-9]\d*$\<close>: the \<open>strip\<close> attribute of patch sets and patch files.\<close>

definition strip_re :: rx where
  "strip_re = Seq (Cls [(CHR ''1'', CHR ''9'')]) (Star digit)"

text \<open>\<open>^[a-zA-Z0-9]*(?:(?:\+|-|\.)[a-zA-Z0-9]*)*$\<close>: source and package names.\<close>

definition name_re :: rx where
  "name_re = Seq (Star (Cls alnum_cls))
                 (Star (Seq (Alt (Alt (chr CHR ''+'') (chr CHR ''-'')) (chr CHR ''.''))
                            (Star (Cls alnum_cls))))"

text \<open>
  The dependency constraint without its alternative:
  \<open>(?:<<|<=|=|>=|>>)\s*(?:(\d+):)?([-.+~a-zA-Z0-9]+?)(?:-([.~+a-zA-Z0-9]+)){0,1}\<close>.
\<close>

definition rel_op_re :: rx where
  "rel_op_re = alts [lit ''<<'', lit ''<='', lit ''='', lit ''>='', lit ''>>'']"

definition constraint_re :: rx where
  "constraint_re =
     Seq rel_op_re
      (Seq (Star space)
       (Seq (opt (Seq (plus digit) (chr CHR '':'')))
        (Seq (plus (Cls vchar_cls))
             (rep_upto (Seq (chr CHR ''-'') (plus (Cls rchar_cls))) 1))))"

text \<open>\<open>//binary//package/@version\<close> also admits the literal \<open>==\<close>.\<close>

definition binary_dep_re :: rx where
  "binary_dep_re = Alt constraint_re (lit ''=='')"

definition source_dep_re :: rx where
  "source_dep_re = constraint_re"

text \<open>\<open>^\d+$\<close>: the epoch.\<close>

definition epoch_re :: rx where
  "epoch_re = plus digit"

text \<open>\<open>^([-.+~a-zA-Z0-9]+?)(?:-([.~+a-zA-Z0-9]+)){0,1}$\<close>: the release version.\<close>

definition version_re :: rx where
  "version_re = Seq (plus (Cls vchar_cls))
                    (rep_upto (Seq (chr CHR ''-'') (plus (Cls rchar_cls))) 1)"

text \<open>\<open>^[.~+a-zA-Z0-9]+$\<close>: the revision.\<close>

definition revision_re :: rx where
  "revision_re = plus (Cls rchar_cls)"

text \<open>\<open>^[-_%.a-zA-Z0-9]+@[-.a-z0-9]+\.[a-z]{2,4}$\<close>: the maintainer e-mail.\<close>

definition email_re :: rx where
  "email_re =
     Seq (plus (Cls local_cls))
      (Seq (chr CHR ''@'')
       (Seq (plus (Cls domain_cls))
        (Seq (chr CHR ''.'')
         (Seq (rep (Cls lower_cls) 2) (rep_upto (Cls lower_cls) 2)))))"

text \<open>
  \<open>^\d{4}-\d{2}-\d{2}\s+\d{2}:\d{2}:\d{2}\s*(?:((?:-|\+)\d{2}:?\d{2})|
  (?:(?:GMT|UTC)(?:(?:-|\+)\d{1,2}))|[a-zA-Z]+)$\<close>: the release date.
\<close>

definition sign_re :: rx where
  "sign_re = Alt (chr CHR ''-'') (chr CHR ''+'')"

definition zone_re :: rx where
  "zone_re =
     alts [Seq sign_re (Seq (rep digit 2) (Seq (opt (chr CHR '':'')) (rep digit 2))),
           Seq (Alt (lit ''GMT'') (lit ''UTC'')) (Seq sign_re (Seq digit (rep_upto digit 1))),
           plus (Cls alpha_cls)]"

definition date_re :: rx where
  "date_re =
     Seq (rep digit 4) (Seq (chr CHR ''-'') (Seq (rep digit 2) (Seq (chr CHR ''-'')
     (Seq (rep digit 2) (Seq (plus space)
     (Seq (rep digit 2) (Seq (chr CHR '':'') (Seq (rep digit 2) (Seq (chr CHR '':'')
     (Seq (rep digit 2) (Seq (Star space) zone_re)))))))))))"

lemmas pattern_defs = strip_re_def name_re_def rel_op_re_def constraint_re_def binary_dep_re_def
  source_dep_re_def epoch_re_def version_re_def revision_re_def email_re_def sign_re_def
  zone_re_def date_re_def

section \<open>What the patterns accept\<close>

definition name_char :: "char \<Rightarrow> bool" where
  "name_char c \<longleftrightarrow> is_alnum c \<or> c \<in> set ''+-.''"

lemma lang_rep_upto_one [simp]: "lang (rep_upto r 1) = insert [] (lang r)"
  by (simp add: One_nat_def)

lemma rchar_vchar: "in_cls rchar_cls c \<Longrightarrow> in_cls vchar_cls c"
  by (auto simp: rchar_cls_def vchar_cls_def alnum_cls_def)

lemma dash_vchar [simp]: "in_cls vchar_cls CHR ''-''"
  by (simp add: vchar_cls_def)

text \<open>The optional \<open>-revision\<close> group adds nothing to the language of the version
  body: its characters are all version characters.\<close>

lemma version_body_lang:
  "conc (lang (plus (Cls vchar_cls))) (lang (rep_upto (Seq (chr CHR ''-'') (plus (Cls rchar_cls))) 1))
     = {s. s \<noteq> [] \<and> (\<forall>c \<in> set s. in_cls vchar_cls c)}"
    (is "?L = ?R")
proof (intro set_eqI iffI)
  fix s assume "s \<in> ?L"
  then obtain u v where s: "s = u @ v" and u: "u \<in> lang (plus (Cls vchar_cls))"
    and v: "v \<in> lang (rep_upto (Seq (chr CHR ''-'') (plus (Cls rchar_cls))) 1)"
    by (rule concE)
  from v have "\<forall>c \<in> set v. in_cls vchar_cls c"
    by (auto simp del: lang_plus simp: plus_cls conc_iff dest: rchar_vchar)
  with s u show "s \<in> ?R" by (auto simp del: lang_plus simp: plus_cls)
next
  fix s assume "s \<in> ?R"
  then have "s @ [] \<in> ?L" by (intro concI) (simp_all del: lang_plus add: plus_cls)
  then show "s \<in> ?L" by simp
qed

lemma lang_version_re: "lang version_re = {s. s \<noteq> [] \<and> (\<forall>c \<in> set s. in_cls vchar_cls c)}"
  unfolding version_re_def lang.simps by (rule version_body_lang)

lemma lang_epoch_re: "lang epoch_re = {s. s \<noteq> [] \<and> (\<forall>c \<in> set s. is_digit c)}"
  by (simp add: epoch_re_def) (simp add: in_digit_cls)

lemma lang_revision_re: "lang revision_re = {s. s \<noteq> [] \<and> (\<forall>c \<in> set s. in_cls rchar_cls c)}"
  by (simp add: revision_re_def)

lemma lang_rel_op_re: "lang rel_op_re = {''<<'', ''<='', ''='', ''>='', ''>>''}"
  by (auto simp: rel_op_re_def)

text \<open>A dependency constraint is an operator, blanks, an optional \<open>epoch:\<close> and a
  non-empty run of version characters.\<close>

lemma lang_constraint_re:
  "s \<in> lang constraint_re \<longleftrightarrow>
     (\<exists>op ws e v. s = op @ ws @ e @ v \<and> op \<in> {''<<'', ''<='', ''='', ''>='', ''>>''}
        \<and> (\<forall>c \<in> set ws. is_space c)
        \<and> (e = [] \<or> (\<exists>d. e = d @ '':'' \<and> d \<in> lang epoch_re))
        \<and> v \<in> lang version_re)"
proof -
  have ws: "star {[c] |c. in_cls space_cls c} = {s. \<forall>c \<in> set s. is_space c}"
    by simp (simp add: in_space_cls)
  have ep: "lang (opt (Seq (plus digit) (chr CHR '':''))) = {e. e = [] \<or> (\<exists>d. e = d @ '':'' \<and> d \<in> lang epoch_re)}"
    by (auto simp: epoch_re_def conc_iff)
  have "lang constraint_re =
      conc {''<<'', ''<='', ''='', ''>='', ''>>''} (conc {s. \<forall>c \<in> set s. is_space c}
        (conc {e. e = [] \<or> (\<exists>d. e = d @ '':'' \<and> d \<in> lang epoch_re)} (lang version_re)))"
    unfolding constraint_re_def lang.simps ws ep version_body_lang lang_rel_op_re lang_version_re ..
  then show ?thesis
    by (simp only: in_conc4 mem_Collect_eq)
qed

text \<open>Source and package names: any string of letters, digits, \<open>+\<close>, \<open>-\<close> and
  \<open>.\<close>, the empty string included.\<close>

lemma lang_name_re: "lang name_re = {s. \<forall>c \<in> set s. name_char c}"
proof -
  let ?A = "{s. \<forall>c \<in> set s. is_alnum c}"
  let ?S = "{''.'', ''-'', ''+''}"
  have eq: "lang name_re = conc ?A (star (conc ?S ?A))"
    by (simp add: name_re_def in_alnum_cls [symmetric])
  have sep: "u \<in> ?S \<longleftrightarrow> u = [CHR ''.''] \<or> u = [CHR ''-''] \<or> u = [CHR ''+'']" for u
    by simp
  show ?thesis
  proof (intro set_eqI iffI)
    fix s assume "s \<in> lang name_re"
    then obtain a t where s: "s = a @ t" and a: "a \<in> ?A" and t: "t \<in> star (conc ?S ?A)"
      unfolding eq by (rule concE)
    from t have "\<forall>c \<in> set t. name_char c"
      by (induction rule: star.induct) (auto simp: conc_iff name_char_def sep)
    with s a show "s \<in> {s. \<forall>c \<in> set s. name_char c}"
      by (auto simp: name_char_def)
  next
    fix s assume "s \<in> {s. \<forall>c \<in> set s. name_char c}"
    then have "\<exists>a t. s = a @ t \<and> a \<in> ?A \<and> t \<in> star (conc ?S ?A)"
    proof (induction s)
      case Nil
      show ?case by (auto intro: star_nil)
    next
      case (Cons c s)
      then obtain a t where s: "s = a @ t" and a: "a \<in> ?A" and t: "t \<in> star (conc ?S ?A)"
        by auto
      show ?case
      proof (cases "is_alnum c")
        case True
        with s a t show ?thesis by (intro exI [of _ "c # a"] exI [of _ t]) simp
      next
        case False
        with Cons.prems have "[c] \<in> ?S" by (auto simp: name_char_def)
        then have "[c] @ a \<in> conc ?S ?A" using a by (rule concI)
        from star_app [OF this t] s show ?thesis
          by (intro exI [of _ "[]"] exI [of _ "c # a @ t"]) simp
      qed
    qed
    then show "s \<in> lang name_re"
      unfolding eq by (auto intro: concI)
  qed
qed


text \<open>The release version with its optional revision, split as the grammar has it.\<close>

lemma version_re_split:
  "v \<in> lang version_re \<longleftrightarrow>
     (\<exists>u r. v = u @ r \<and> u \<noteq> [] \<and> list_all (in_cls vchar_cls) u \<and>
        (r = [] \<or> (\<exists>rev. r = CHR ''-'' # rev \<and> rev \<noteq> [] \<and> list_all (in_cls rchar_cls) rev)))"
proof -
  have "lang version_re =
          conc {u. u \<noteq> [] \<and> (\<forall>c \<in> set u. in_cls vchar_cls c)}
               (insert [] (conc {[CHR ''-'']} {r. r \<noteq> [] \<and> (\<forall>c \<in> set r. in_cls rchar_cls c)}))"
    by (simp del: lang_plus add: version_re_def plus_cls)
  then show ?thesis by (auto simp: conc_iff list_all_iff)
qed

text \<open>C23: for an attribute value without a newline, the check \<open>validate_format\<close> makes
  on \<open>//source//package/@version\<close> is exactly the constraint grammar of the
  specification: an operator, blanks, an optional \<open>epoch:\<close>, a version and an optional
  \<open>-revision\<close>.\<close>

theorem source_dep_check_iff_grammar:
  assumes "CHR 0x0A \<notin> set s"
  shows "py_re_match source_dep_re s \<longleftrightarrow>
     (\<exists>op ws e u r. s = op @ ws @ e @ u @ r \<and> op \<in> set [''<<'', ''<='', ''='', ''>='', ''>>''] \<and>
        list_all is_space ws \<and> (e = [] \<or> (\<exists>d. e = d @ '':'' \<and> d \<noteq> [] \<and> list_all is_digit d)) \<and>
        u \<noteq> [] \<and> list_all (in_cls vchar_cls) u \<and>
        (r = [] \<or> (\<exists>rev. r = CHR ''-'' # rev \<and> rev \<noteq> [] \<and> list_all (in_cls rchar_cls) rev)))"
proof -
  have "py_re_match source_dep_re s \<longleftrightarrow> s \<in> lang constraint_re"
    using assms by (simp add: source_dep_re_def py_re_match_no_newline)
  also have "\<dots> \<longleftrightarrow> (\<exists>op ws e v. s = op @ ws @ e @ v \<and> op \<in> {''<<'', ''<='', ''='', ''>='', ''>>''}
        \<and> list_all is_space ws \<and> (e = [] \<or> (\<exists>d. e = d @ '':'' \<and> d \<noteq> [] \<and> list_all is_digit d))
        \<and> v \<in> lang version_re)"
    by (simp add: lang_constraint_re lang_epoch_re list_all_iff)
  also have "\<dots> \<longleftrightarrow>
     (\<exists>op ws e u r. s = op @ ws @ e @ u @ r \<and> op \<in> set [''<<'', ''<='', ''='', ''>='', ''>>''] \<and>
        list_all is_space ws \<and> (e = [] \<or> (\<exists>d. e = d @ '':'' \<and> d \<noteq> [] \<and> list_all is_digit d)) \<and>
        u \<noteq> [] \<and> list_all (in_cls vchar_cls) u \<and>
        (r = [] \<or> (\<exists>rev. r = CHR ''-'' # rev \<and> rev \<noteq> [] \<and> list_all (in_cls rchar_cls) rev)))"
    unfolding version_re_split list.set by blast
  finally show ?thesis .
qed


theorem source_dep_check_iff_grammar_witness:
  "CHR 0x0A \<notin> set ''>= 1:2.0-3'' \<and> py_re_match source_dep_re ''>= 1:2.0-3''"
proof -
  have nl: "CHR 0x0A \<notin> set ''>= 1:2.0-3''" by simp
  have "\<exists>op ws e u r. ''>= 1:2.0-3'' = op @ ws @ e @ u @ r \<and> op \<in> set [''<<'', ''<='', ''='', ''>='', ''>>''] \<and>
        list_all is_space ws \<and> (e = [] \<or> (\<exists>d. e = d @ '':'' \<and> d \<noteq> [] \<and> list_all is_digit d)) \<and>
        u \<noteq> [] \<and> list_all (in_cls vchar_cls) u \<and>
        (r = [] \<or> (\<exists>rev. r = CHR ''-'' # rev \<and> rev \<noteq> [] \<and> list_all (in_cls rchar_cls) rev))"
    by (rule exI [of _ "''>=''"], rule exI [of _ "'' ''"], rule exI [of _ "''1:''"],
        rule exI [of _ "''2.0''"], rule exI [of _ "''-3''"])
       (simp add: vchar_cls_def rchar_cls_def alnum_cls_def charclass_simps)
  with source_dep_check_iff_grammar [OF nl] nl show ?thesis by blast
qed

end
