(* ===== verification/Xml.thy ===== *)
theory Xml
  imports Prelude
begin

text \<open>
  The parsed specification document as \<open>lxml\<close> hands it to \<open>Specfile\<close>
  (\<open>src/package/lib/boltlinux/package/boltpack/specfile.py\<close>): a tree of elements
  with a tag, attributes, children and a source line, and text nodes (entities,
  CDATA sections and XInclude are resolved by the parser before the tree exists).
  The XPath expressions of the source are all of the shape
  \<open>(/|//)name[k]?(/|//)...\<close> followed by \<open>/@attr\<close> or used as a node set; they are
  modelled as a list of location steps matched against each element's chain of
  ancestors, and evaluated by filtering the elements in document order, which is the
  order in which \<open>lxml\<close> returns a node set.
\<close>

datatype xnode =
    Elem string "(string \<times> string) list" "xnode list" nat   \<comment> \<open>tag, attributes, children, source line\<close>
  | Text string

primrec tag :: "xnode \<Rightarrow> string" where
  "tag (Elem t as cs l) = t"
| "tag (Text s) = []"

primrec sourceline :: "xnode \<Rightarrow> nat" where
  "sourceline (Elem t as cs l) = l"
| "sourceline (Text s) = 0"

primrec attrib :: "xnode \<Rightarrow> string \<Rightarrow> string option" where
  "attrib (Elem t as cs l) a = map_of as a"
| "attrib (Text s) a = None"

section \<open>Document order\<close>

text \<open>
  A chain names the elements from the root element down to an element, each with its
  position among the element siblings of the same tag (XPath's \<open>name[k]\<close>, from 1).
\<close>

type_synonym chain = "(string \<times> nat) list"

fun elems :: "chain \<Rightarrow> nat \<Rightarrow> xnode \<Rightarrow> (chain \<times> xnode) list"
  and elems_list :: "chain \<Rightarrow> (string \<Rightarrow> nat) \<Rightarrow> xnode list \<Rightarrow> (chain \<times> xnode) list" where
  "elems anc k (Elem t as cs l) =
     (anc @ [(t, k)], Elem t as cs l) # elems_list (anc @ [(t, k)]) (\<lambda>_. 0) cs"
| "elems anc k (Text s) = []"
| "elems_list anc cnt [] = []"
| "elems_list anc cnt (Elem t as cs l # ns) =
     elems anc (Suc (cnt t)) (Elem t as cs l) @ elems_list anc (cnt(t := Suc (cnt t))) ns"
| "elems_list anc cnt (Text s # ns) = elems_list anc cnt ns"

text \<open>The root element is the only element child of the document node.\<close>

definition doc_elems :: "xnode \<Rightarrow> (chain \<times> xnode) list" where
  "doc_elems d = elems [] 1 d"

text \<open>XPath string-value of a node: its text and the text of all its descendants.\<close>

fun string_value :: "xnode \<Rightarrow> string" where
  "string_value (Text s) = s"
| "string_value (Elem t as cs l) = concat (map string_value cs)"

section \<open>Location paths\<close>

text \<open>
  \<open>Child ns\<close> is \<open>/n\<close> for a tag \<open>n\<close> in \<open>ns\<close> (\<open>*[name() = a or name() = b]\<close>
  is \<open>Child [a, b]\<close>), \<open>Nth n k\<close> is \<open>/n[k]\<close>, and \<open>Desc ns\<close> is \<open>//n\<close>,
  that is \<open>/descendant-or-self::node()/child::n\<close>.
\<close>

datatype step = Child "string list" | Nth string nat | Desc "string list"

fun pmatch :: "step list \<Rightarrow> chain \<Rightarrow> bool" where
  "pmatch [] ch = (ch = [])"
| "pmatch (Child ns # ps) [] = False"
| "pmatch (Child ns # ps) ((n, k) # ch) = (n \<in> set ns \<and> pmatch ps ch)"
| "pmatch (Nth m j # ps) [] = False"
| "pmatch (Nth m j # ps) ((n, k) # ch) = (n = m \<and> k = j \<and> pmatch ps ch)"
| "pmatch (Desc ns # ps) [] = False"
| "pmatch (Desc ns # ps) ((n, k) # ch) =
     ((n \<in> set ns \<and> pmatch ps ch) \<or> pmatch (Desc ns # ps) ch)"

text \<open>\<open>doc.xpath(path)\<close> for a path selecting elements: the node set in document order.\<close>

definition select :: "step list \<Rightarrow> xnode \<Rightarrow> xnode list" where
  "select ps d = map snd (filter (\<lambda>(ch, e). pmatch ps ch) (doc_elems d))"

text \<open>\<open>doc.xpath(path + "/@a")\<close>: the attribute \<open>a\<close> of each selected element that has one,
  with its parent element (\<open>attr.getparent()\<close>).\<close>

definition select_attr :: "step list \<Rightarrow> string \<Rightarrow> xnode \<Rightarrow> (xnode \<times> string) list" where
  "select_attr ps a d =
     concat (map (\<lambda>e. case attrib e a of None \<Rightarrow> [] | Some v \<Rightarrow> [(e, v)]) (select ps d))"

text \<open>\<open>doc.xpath("string(" + path + ")")\<close>: the string-value of the first selected
  node, the empty string for an empty node set.\<close>

definition xpath_string :: "step list \<Rightarrow> xnode \<Rightarrow> string" where
  "xpath_string ps d = (case select ps d of [] \<Rightarrow> [] | e # _ \<Rightarrow> string_value e)"

section \<open>Lemmas\<close>

lemma select_attr_has_attr:
  "(e, v) \<in> set (select_attr ps a d) \<Longrightarrow> attrib e a = Some v"
  by (auto simp: select_attr_def split: option.splits)

lemma select_attr_complete:
  "e \<in> set (select ps d) \<Longrightarrow> attrib e a = Some v \<Longrightarrow> (e, v) \<in> set (select_attr ps a d)"
  by (force simp: select_attr_def)

lemma select_attr_Nil_iff:
  "select_attr ps a d = [] \<longleftrightarrow> (\<forall>e \<in> set (select ps d). attrib e a = None)"
  by (auto simp: select_attr_def split: option.splits)

end
