(* ===== verification/Specfile.thy ===== *)
theory Specfile
  imports Formats Xml
begin

text \<open>
  The class \<open>Specfile\<close> of \<open>src/package/lib/boltlinux/package/boltpack/specfile.py\<close>:
  its constructor (existence check, parse, \<open>validate_structure\<close>, then
  \<open>validate_format\<close>), the two validation passes, and the read-only properties
  \<open>source_name\<close>, \<open>latest_version\<close>, \<open>binary_packages\<close>,
  \<open>upstream_version\<close> and \<open>summary\<close>. What the code delegates to \<open>lxml\<close> and
  \<open>os.path\<close> (parsing with XInclude, RELAX NG validation, file existence) is a field
  of the record \<open>spec_host\<close>, so that every lemma holds for any behaviour of it.
\<close>

section \<open>Host services\<close>

record rng_error =
  rng_file :: string
  rng_line :: nat
  rng_column :: nat
  rng_message :: string

record spec_host =
  path_exists :: "string \<Rightarrow> bool"                  \<comment> \<open>\<open>os.path.exists\<close>\<close>
  parse_xml :: "string \<Rightarrow> string + xnode"          \<comment> \<open>\<open>etree.parse\<close> and \<open>xinclude()\<close>; \<open>Inl\<close> is the exception text\<close>
  rng_errors :: "string \<Rightarrow> xnode \<Rightarrow> rng_error list"  \<comment> \<open>\<open>RelaxNG(file=p)\<close>: its \<open>error_log\<close> after \<open>validate\<close>\<close>
  module_schema :: string                         \<comment> \<open>the first entry, derived from \<open>__file__\<close>\<close>

record specfile =
  xml_doc :: xnode

section \<open>Structural validation\<close>

definition schema_search_path :: "spec_host \<Rightarrow> string list" where
  "schema_search_path h =
     [module_schema h,
      ''/usr/share/bolt-pack/relaxng/package.rng.xml'',
      ''/tools/share/bolt-pack/relaxng/package.rng.xml'']"

text \<open>\<open>os.path.basename\<close>: the part after the last slash.\<close>

definition basename :: "string \<Rightarrow> string" where
  "basename p = rev (takeWhile (\<lambda>c. c \<noteq> CHR ''/'') (rev p))"

definition rng_diag :: "rng_error \<Rightarrow> diag" where
  "rng_diag e = RngDiag (basename (rng_file e)) (rng_line e) (rng_column e) (rng_message e)"

text \<open>
  The first schema file that exists is used; none is a \<open>RuntimeError\<close>. The document
  is valid when the error log is empty; otherwise every logged error is reported.
\<close>

definition validate_structure :: "spec_host \<Rightarrow> xnode \<Rightarrow> bool result" where
  "validate_structure h d =
     (case find (path_exists h) (schema_search_path h) of
        None \<Rightarrow> Inl (RuntimeError ''RELAX NG ruleset not found.'')
      | Some p \<Rightarrow>
          (let errs = rng_errors h p d in
           if errs \<noteq> [] then Inl (MalformedSpecfile (map rng_diag errs)) else Inr True))"

section \<open>Format validation\<close>

text \<open>The \<open>specification\<close> table: location path, attribute, pattern.\<close>

definition format_spec :: "(step list \<times> string \<times> rx) list" where
  "format_spec =
     [([Desc [''patchset'']], ''strip'', strip_re),
      ([Desc [''patchset''], Child [''file'']], ''strip'', strip_re),
      ([Desc [''source'', ''package'']], ''name'', name_re),
      ([Desc [''binary''], Desc [''package'']], ''version'', binary_dep_re),
      ([Desc [''source''], Desc [''package'']], ''version'', source_dep_re),
      ([Desc [''changelog''], Child [''release'']], ''epoch'', epoch_re),
      ([Desc [''changelog''], Child [''release'']], ''version'', version_re),
      ([Desc [''changelog''], Child [''release'']], ''revision'', revision_re),
      ([Desc [''changelog''], Child [''release'']], ''email'', email_re),
      ([Desc [''changelog''], Child [''release'']], ''date'', date_re)]"

text \<open>The inner loop for one rule: one diagnostic per selected attribute that does
  not match, in document order.\<close>

definition rule_errors :: "nat \<Rightarrow> step list \<times> string \<times> rx \<Rightarrow> xnode \<Rightarrow> diag list" where
  "rule_errors i rule d =
     (case rule of (ps, a, r) \<Rightarrow>
        concat (map (\<lambda>(e, v). if py_re_match r v then []
                              else [FmtDiag (tag e @ ''/@'' @ a) (sourceline e) v i])
                    (select_attr ps a d)))"

text \<open>The outer loop: every rule of the table in order, all errors collected.\<close>

fun collect_errors :: "nat \<Rightarrow> (step list \<times> string \<times> rx) list \<Rightarrow> xnode \<Rightarrow> diag list" where
  "collect_errors i [] d = []"
| "collect_errors i (rule # rules) d = rule_errors i rule d @ collect_errors (Suc i) rules d"

definition validate_format :: "xnode \<Rightarrow> bool result" where
  "validate_format d =
     (let errs = collect_errors 0 format_spec d in
      if errs \<noteq> [] then Inl (MalformedSpecfile errs) else Inr True)"

section \<open>Construction\<close>

text \<open>\<open>Specfile.__init__\<close>.\<close>

definition specfile_init :: "spec_host \<Rightarrow> string \<Rightarrow> specfile result" where
  "specfile_init h filename =
     (if \<not> path_exists h filename
      then Inl (InvocationError (''no such file '' @ [CHR 0x27] @ filename @ [CHR 0x27] @ ''.''))
      else
        (case parse_xml h filename of
           Inl msg \<Rightarrow> Inl (MalformedSpecfile [ParseDiag msg])
         | Inr d \<Rightarrow>
             rbind (validate_structure h d) (\<lambda>_.
             rbind (validate_format d) (\<lambda>_.
             Inr \<lparr>xml_doc = d\<rparr>))))"

section \<open>Queries\<close>

text \<open>\<open>xpath(...)[0]\<close>: the first result, or \<open>IndexError\<close>.\<close>

definition first_or_index_error :: "'a list \<Rightarrow> 'a result" where
  "first_or_index_error xs = (case xs of [] \<Rightarrow> Inl IndexError | x # _ \<Rightarrow> Inr x)"

definition first_release :: "step list" where
  "first_release = [Child [''control''], Child [''changelog''], Nth ''release'' 1]"

definition source_name :: "specfile \<Rightarrow> string result" where
  "source_name sf =
     first_or_index_error (map snd (select_attr [Child [''control''], Child [''source'']] ''name'' (xml_doc sf)))"

text \<open>
  The version composition of \<open>latest_version\<close>, lines 158--161: Python's
  \<open>if epoch:\<close> and \<open>if rev:\<close> test for a non-empty string.
\<close>

definition compose_version :: "string \<Rightarrow> string \<Rightarrow> string \<Rightarrow> string" where
  "compose_version epoch version revision =
     (let v1 = (if epoch \<noteq> [] then epoch @ '':'' @ version else version)
      in if revision \<noteq> [] then v1 @ ''-'' @ revision else v1)"

text \<open>A missing \<open>epoch\<close> or \<open>revision\<close> is caught and left empty; a missing
  \<open>version\<close> raises \<open>IndexError\<close>.\<close>

definition latest_version :: "specfile \<Rightarrow> string result" where
  "latest_version sf =
     (let d = xml_doc sf;
          epoch = (case select_attr first_release ''epoch'' d of [] \<Rightarrow> [] | (e, v) # _ \<Rightarrow> v);
          revision = (case select_attr first_release ''revision'' d of [] \<Rightarrow> [] | (e, v) # _ \<Rightarrow> v)
      in rbind (first_or_index_error (map snd (select_attr first_release ''version'' d)))
           (\<lambda>version. Inr (compose_version epoch version revision)))"

text \<open>\<open>binary_packages\<close>: \<open>pkg_node.attrib["name"]\<close> of every \<open>/control/package\<close>,
  in document order; a package without a name raises \<open>KeyError\<close>.\<close>

fun names_of :: "xnode list \<Rightarrow> string list result" where
  "names_of [] = Inr []"
| "names_of (e # es) =
     (case attrib e ''name'' of
        None \<Rightarrow> Inl (KeyError ''name'')
      | Some n \<Rightarrow> rbind (names_of es) (\<lambda>ns. Inr (n # ns)))"

definition binary_packages :: "specfile \<Rightarrow> string list result" where
  "binary_packages sf = names_of (select [Child [''control''], Child [''package'']] (xml_doc sf))"

definition upstream_version :: "specfile \<Rightarrow> string option" where
  "upstream_version sf =
     (case select_attr first_release ''upstream-version'' (xml_doc sf) of
        [] \<Rightarrow> None
      | (e, v) # _ \<Rightarrow> Some v)"

text \<open>\<open>summary\<close>: XPath \<open>string()\<close> never raises, so the \<open>except IndexError\<close>
  branch of the source is unreachable and is not modelled.\<close>

definition summary :: "specfile \<Rightarrow> string" where
  "summary sf =
     xpath_string [Child [''control''], Child [''source''], Child [''description''], Child [''summary'']]
       (xml_doc sf)"

text \<open>How the specification reads a version string back (its \<open>Version Identifier\<close>,
  \<open>[epoch:]version[-revision]\<close>): an epoch before the first \<open>:\<close>, and a revision
  after the rightmost \<open>-\<close>. A part the grammar marks present is non-empty, so an
  empty epoch before \<open>:\<close>, an empty revision after \<open>-\<close> or an empty version is not
  a version identifier.\<close>

definition parse_version_rest :: "string \<Rightarrow> string \<Rightarrow> (string \<times> string \<times> string) option" where
  "parse_version_rest e rest =
     (case split_once CHR ''-'' (rev rest) of
        Some (r, v) \<Rightarrow> if r = [] \<or> v = [] then None else Some (e, rev v, rev r)
      | None \<Rightarrow> if rest = [] then None else Some (e, rest, []))"

definition parse_version :: "string \<Rightarrow> (string \<times> string \<times> string) option" where
  "parse_version s =
     (case split_once CHR '':'' s of
        Some (e, rest) \<Rightarrow> if e = [] then None else parse_version_rest e rest
      | None \<Rightarrow> parse_version_rest [] s)"

section \<open>Validation lemmas\<close>

lemma rule_errors_eq:
  "rule_errors i (ps, a, r) d =
     map (\<lambda>(e, v). FmtDiag (tag e @ ''/@'' @ a) (sourceline e) v i)
         (filter (\<lambda>(e, v). \<not> py_re_match r v) (select_attr ps a d))"
  by (simp add: rule_errors_def)

text \<open>The number of violations of one rule.\<close>

definition rule_violations :: "xnode \<Rightarrow> step list \<times> string \<times> rx \<Rightarrow> nat" where
  "rule_violations d rule =
     (case rule of (ps, a, r) \<Rightarrow> length (filter (\<lambda>(e, v). \<not> py_re_match r v) (select_attr ps a d)))"

lemma length_collect_errors:
  "length (collect_errors i rules d) = sum_list (map (rule_violations d) rules)"
  by (induction rules arbitrary: i) (auto simp: rule_errors_eq rule_violations_def)

lemma collect_errors_Nil_iff:
  "collect_errors i rules d = [] \<longleftrightarrow>
     (\<forall>(ps, a, r) \<in> set rules. \<forall>(e, v) \<in> set (select_attr ps a d). py_re_match r v)"
  by (induction rules arbitrary: i) (auto simp: rule_errors_eq filter_empty_conv)

lemma validate_format_cases:
  "validate_format d = Inr True \<or> (\<exists>errs. errs \<noteq> [] \<and> validate_format d = Inl (MalformedSpecfile errs))"
  by (simp add: validate_format_def Let_def)

lemma specfile_init_Inr:
  assumes "specfile_init h f = Inr sf"
  shows "path_exists h f \<and> parse_xml h f = Inr (xml_doc sf)
    \<and> validate_structure h (xml_doc sf) = Inr True \<and> validate_format (xml_doc sf) = Inr True"
proof -
  have vs: "validate_structure h d = Inr b \<Longrightarrow> b" for d b
    by (auto simp: validate_structure_def Let_def split: option.splits if_splits)
  have vf: "validate_format d = Inr b \<Longrightarrow> b" for d b
    by (auto simp: validate_format_def Let_def split: if_splits)
  from assms show ?thesis
    by (auto simp: specfile_init_def result_simps split: if_splits sum.splits dest: vs vf)
qed

lemma in_collect_errors:
  "x \<in> set (collect_errors i rules d) \<longleftrightarrow>
     (\<exists>j ps a r e v. j < length rules \<and> rules ! j = (ps, a, r)
        \<and> (e, v) \<in> set (select_attr ps a d) \<and> \<not> py_re_match r v
        \<and> x = FmtDiag (tag e @ ''/@'' @ a) (sourceline e) v (i + j))"
proof (induction rules arbitrary: i)
  case Nil
  then show ?case by simp
next
  case (Cons rule rules)
  obtain ps a r where rule: "rule = (ps, a, r)" by (cases rule)
  have "x \<in> set (rule_errors i rule d) \<longleftrightarrow>
      (\<exists>e v. (e, v) \<in> set (select_attr ps a d) \<and> \<not> py_re_match r v
         \<and> x = FmtDiag (tag e @ ''/@'' @ a) (sourceline e) v i)"
    by (auto simp: rule rule_errors_eq)
  moreover have "(\<exists>j ps a r e v. j < length (rule # rules) \<and> (rule # rules) ! j = (ps, a, r)
        \<and> (e, v) \<in> set (select_attr ps a d) \<and> \<not> py_re_match r v
        \<and> x = FmtDiag (tag e @ ''/@'' @ a) (sourceline e) v (i + j))
    \<longleftrightarrow> (\<exists>e v. (e, v) \<in> set (select_attr ps a d) \<and> \<not> py_re_match r v
         \<and> x = FmtDiag (tag e @ ''/@'' @ a) (sourceline e) v i)
       \<or> (\<exists>j ps a r e v. j < length rules \<and> rules ! j = (ps, a, r)
        \<and> (e, v) \<in> set (select_attr ps a d) \<and> \<not> py_re_match r v
        \<and> x = FmtDiag (tag e @ ''/@'' @ a) (sourceline e) v (Suc i + j))"
    (is "?L \<longleftrightarrow> ?A \<or> ?B")
  proof
    assume ?L
    then obtain j ps' a' r' e v where j: "j < length (rule # rules)" "(rule # rules) ! j = (ps', a', r')"
      "(e, v) \<in> set (select_attr ps' a' d)" "\<not> py_re_match r' v"
      "x = FmtDiag (tag e @ ''/@'' @ a') (sourceline e) v (i + j)" by blast
    show "?A \<or> ?B"
    proof (cases j)
      case 0
      with j rule show ?thesis by auto
    next
      case (Suc k)
      with j show ?thesis by (intro disjI2 exI [of _ k]) auto
    qed
  next
    assume "?A \<or> ?B"
    then show ?L
    proof
      assume ?A
      with rule show ?L by (intro exI [of _ 0]) auto
    next
      assume ?B
      then obtain k ps' a' r' e v where "k < length rules" "rules ! k = (ps', a', r')"
        "(e, v) \<in> set (select_attr ps' a' d)" "\<not> py_re_match r' v"
        "x = FmtDiag (tag e @ ''/@'' @ a') (sourceline e) v (Suc i + k)" by blast
      then show ?L by (intro exI [of _ "Suc k"]) auto
    qed
  qed
  ultimately show ?case using Cons.IH [of "Suc i"] by simp
qed

section \<open>Sample documents\<close>

text \<open>A minimal document that passes the format checks, and one whose only release has
  a malformed e-mail and a malformed date (section 8 of the specification).\<close>

definition demo_ok :: xnode where
  "demo_ok = Elem ''control'' [] [Elem ''source'' [(''name'', ''hello'')] [] 2] 1"

definition demo_two_bad :: xnode where
  "demo_two_bad =
     Elem ''control'' []
       [Elem ''changelog'' []
          [Elem ''release'' [(''version'', ''1.0''), (''email'', ''nobody''), (''date'', ''yesterday'')] [] 3] 2] 1"

definition demo_host :: "xnode \<Rightarrow> rng_error list \<Rightarrow> spec_host" where
  "demo_host d errs =
     \<lparr>path_exists = (\<lambda>_. True), parse_xml = (\<lambda>_. Inr d), rng_errors = (\<lambda>_ _. errs),
      module_schema = ''/usr/lib/relaxng/package.rng.xml''\<rparr>"

section \<open>Properties of the validation\<close>

text \<open>C1: \<open>validate_format\<close> collects every violation in one pass: its diagnostics are
  exactly one per (rule, selected attribute) whose value the rule's pattern rejects,
  with that attribute's element, line, value and rule, and there are as many of them
  as there are violations.\<close>

theorem validate_format_collects_all:
  "(x \<in> set (collect_errors 0 format_spec d) \<longleftrightarrow>
     (\<exists>i ps a r e v. i < length format_spec \<and> format_spec ! i = (ps, a, r)
        \<and> (e, v) \<in> set (select_attr ps a d) \<and> \<not> py_re_match r v
        \<and> x = FmtDiag (tag e @ ''/@'' @ a) (sourceline e) v i))
   \<and> length (collect_errors 0 format_spec d) = sum_list (map (rule_violations d) format_spec)"
  using in_collect_errors [of x 0 format_spec d] length_collect_errors [of 0 format_spec d]
  by simp

text \<open>C2: \<open>validate_format\<close> accepts a document exactly when every attribute that a
  rule of the table selects matches that rule's pattern.\<close>

theorem validate_format_accepts_iff:
  "validate_format d = Inr True \<longleftrightarrow>
     (\<forall>(ps, a, r) \<in> set format_spec. \<forall>(e, v) \<in> set (select_attr ps a d). py_re_match r v)"
  by (simp add: validate_format_def Let_def collect_errors_Nil_iff)

theorem validate_format_accepts_iff_witness:
  "validate_format demo_ok = Inr True \<and> py_re_match name_re ''hello''"
proof -
  have ok: "validate_format demo_ok = Inr True" by code_simp
  then have all: "\<forall>(ps, a, r) \<in> set format_spec. \<forall>(e, v) \<in> set (select_attr ps a demo_ok). py_re_match r v"
    using validate_format_accepts_iff [of demo_ok] by blast
  have "([Desc [''source'', ''package'']], ''name'', name_re) \<in> set format_spec"
    by (simp add: format_spec_def)
  moreover have "(Elem ''source'' [(''name'', ''hello'')] [] 2, ''hello'')
      \<in> set (select_attr [Desc [''source'', ''package'']] ''name'' demo_ok)"
    by code_simp
  ultimately have "py_re_match name_re ''hello''" using all by fastforce
  with ok show ?thesis by simp
qed

text \<open>C3: every \<open>Specfile\<close> the constructor returns has passed both validation
  passes on its document.\<close>

theorem specfile_init_validated:
  "specfile_init h f = Inr sf \<Longrightarrow>
     validate_structure h (xml_doc sf) = Inr True \<and> validate_format (xml_doc sf) = Inr True"
  using specfile_init_Inr by blast

theorem specfile_init_validated_witness:
  "specfile_init (demo_host demo_ok []) ''hello.xml'' = Inr \<lparr>xml_doc = demo_ok\<rparr> \<and>
   validate_structure (demo_host demo_ok []) demo_ok = Inr True \<and> validate_format demo_ok = Inr True"
proof -
  have i: "specfile_init (demo_host demo_ok []) ''hello.xml'' = Inr \<lparr>xml_doc = demo_ok\<rparr>"
    by code_simp
  from specfile_init_validated [OF i] i show ?thesis by simp
qed

text \<open>C4: structural validation runs first: when the RELAX NG pass fails, the
  constructor raises its error and the format pass is never consulted.\<close>

theorem specfile_init_structure_first:
  "path_exists h f \<Longrightarrow> parse_xml h f = Inr d \<Longrightarrow> validate_structure h d = Inl e \<Longrightarrow>
     specfile_init h f = Inl e"
  by (simp add: specfile_init_def)

theorem specfile_init_structure_first_witness:
  "specfile_init (demo_host demo_two_bad [\<lparr>rng_file = ''/tmp/x.xml'', rng_line = 3, rng_column = 1,
       rng_message = ''bad''\<rparr>]) ''x.xml''
     = Inl (MalformedSpecfile [RngDiag ''x.xml'' 3 1 ''bad''])"
proof -
  let ?h = "demo_host demo_two_bad [\<lparr>rng_file = ''/tmp/x.xml'', rng_line = 3, rng_column = 1,
       rng_message = ''bad''\<rparr>]"
  have vs: "validate_structure ?h demo_two_bad = Inl (MalformedSpecfile [RngDiag ''x.xml'' 3 1 ''bad''])"
    by code_simp
  have "path_exists ?h ''x.xml''" "parse_xml ?h ''x.xml'' = Inr demo_two_bad"
    by (simp_all add: demo_host_def)
  from specfile_init_structure_first [OF this vs] show ?thesis .
qed


section \<open>Version composition\<close>

text \<open>The characters that delimit the parts of a version occur in no part.\<close>

lemma split_once_None: "sep \<notin> set s \<Longrightarrow> split_once sep s = None"
  by (simp add: split_once_def)

lemma colon_not_vchar: "\<not> in_cls vchar_cls CHR '':''"
  by (simp add: vchar_cls_def alnum_cls_def in_range_def code_def)

lemma colon_not_rchar: "\<not> in_cls rchar_cls CHR '':''" and dash_not_rchar: "\<not> in_cls rchar_cls CHR ''-''"
  by (simp_all add: rchar_cls_def alnum_cls_def in_range_def code_def)

lemma colon_not_digit: "\<not> is_digit CHR '':''"
  by (simp add: is_digit_def in_range_def code_def)

lemma version_chars: "v \<in> lang version_re \<Longrightarrow> CHR '':'' \<notin> set v"
  using colon_not_vchar by (auto simp: lang_version_re)

lemma revision_chars: "r \<in> lang revision_re \<Longrightarrow> CHR '':'' \<notin> set r \<and> CHR ''-'' \<notin> set r"
  using colon_not_rchar dash_not_rchar by (auto simp: lang_revision_re)

lemma epoch_chars: "e \<in> lang epoch_re \<Longrightarrow> CHR '':'' \<notin> set e"
  using colon_not_digit by (auto simp: lang_epoch_re)

text \<open>C25: the version string \<open>latest_version\<close> composes (lines 158--161) reads back
  as the epoch, version and revision it was composed from, for every epoch, version
  and revision the format check accepts, provided the version has no \<open>-\<close> or a
  revision is present.\<close>

theorem compose_version_roundtrip:
  assumes "e = [] \<or> e \<in> lang epoch_re" and "v \<in> lang version_re" and "r = [] \<or> r \<in> lang revision_re"
    and "r = [] \<Longrightarrow> CHR ''-'' \<notin> set v"
  shows "parse_version (compose_version e v r) = Some (e, v, r)"
proof -
  have nc: "CHR '':'' \<notin> set v" "CHR '':'' \<notin> set r" "CHR ''-'' \<notin> set r"
    using assms(2,3) version_chars revision_chars by auto
  have ne: "CHR '':'' \<notin> set e" using assms(1) epoch_chars by auto
  have nv: "v \<noteq> []" "r = [] \<or> r \<noteq> []" "e = [] \<or> e \<noteq> []" using assms(2) by (auto simp: lang_version_re)
  show ?thesis
    using assms(4) nc ne nv
    by (cases "e = []"; cases "r = []")
       (simp_all add: compose_version_def parse_version_def parse_version_rest_def split_once_None)
qed

theorem compose_version_roundtrip_witness:
  "parse_version (compose_version ''1'' ''2.3'' ''4'') = Some (''1'', ''2.3'', ''4'')"
  by (rule compose_version_roundtrip)
     (simp_all add: lang_epoch_re lang_version_re lang_revision_re vchar_cls_def rchar_cls_def
                    alnum_cls_def charclass_simps in_range_def code_def)

lemma newline_not_vchar: "\<not> in_cls vchar_cls CHR 0x0A"
  by (simp add: vchar_cls_def alnum_cls_def in_cls_def in_range_def code_def)

text \<open>C26: without that proviso the composition is ambiguous: for every version
  \<open>u\<close> and revision \<open>w\<close> the format check accepts, it also accepts the version
  \<open>u-w\<close> without revision; \<open>latest_version\<close> composes both to the same string, and
  reading that string back gives the version \<open>u\<close> with revision \<open>w\<close>.\<close>

theorem compose_version_ambiguous:
  assumes "e = [] \<or> e \<in> lang epoch_re" and "u \<in> lang version_re" and "w \<in> lang revision_re"
  shows "py_re_match version_re (u @ ''-'' @ w) \<and>
         compose_version e (u @ ''-'' @ w) [] = compose_version e u w \<and>
         parse_version (compose_version e (u @ ''-'' @ w) []) = Some (e, u, w)"
proof -
  have vc: "\<forall>c\<in>set (u @ ''-'' @ w). in_cls vchar_cls c"
    using assms(2,3) dash_vchar rchar_vchar by (auto simp: lang_version_re lang_revision_re)
  then have m: "py_re_match version_re (u @ ''-'' @ w)"
    using newline_not_vchar by (subst py_re_match_no_newline) (auto simp: lang_version_re)
  have w: "w \<noteq> []" using assms(3) by (auto simp: lang_revision_re)
  have nc: "CHR '':'' \<notin> set u" "CHR '':'' \<notin> set w" "CHR ''-'' \<notin> set w" "u \<noteq> []"
    using assms(2,3) version_chars revision_chars by (auto simp: lang_version_re)
  have ne: "CHR '':'' \<notin> set e" using assms(1) epoch_chars by auto
  have eq: "compose_version e (u @ ''-'' @ w) [] = compose_version e u w"
    using w by (simp add: compose_version_def)
  have "parse_version (compose_version e u w) = Some (e, u, w)"
    using nc ne w by (cases "e = []") (simp_all add: compose_version_def parse_version_def parse_version_rest_def split_once_None)
  with m eq show ?thesis by simp
qed

theorem compose_version_ambiguous_witness:
  "py_re_match version_re ''1.0-1'' \<and> compose_version [] ''1.0-1'' [] = compose_version [] ''1.0'' ''1'' \<and>
   parse_version (compose_version [] ''1.0-1'' []) = Some ([], ''1.0'', ''1'')"
  by (rule compose_version_ambiguous [of "[]" "''1.0''" "''1''", unfolded append_Cons append_Nil])
     (simp_all add: lang_version_re lang_revision_re vchar_cls_def rchar_cls_def alnum_cls_def charclass_simps
                    in_range_def code_def)

end
