(* ===== verification/Image_Config.thy ===== *)
theory Image_Config
  imports Prelude
begin

text \<open>
  The state of an \<open>ImageGenerator\<close>
  (\<open>src/image-gen/lib/boltlinux/osimage/generator.py\<close>): the constructor's fields
  and the template context (lines 166--201), and the configuration-file templates of
  lines 44--161 with their rendering by \<open>str.format(**context)\<close>. Values that the
  constructor asks the host for (\<open>Platform.uname("-m")\<close>,
  \<open>Platform.target_for_machine\<close>, \<open>UserInfo.cache_dir()\<close>) come in as the fields
  of \<open>gen_host\<close>; that \<open>Platform\<close> is \<open>boltlinux.miscellaneous.platform\<close>, not
  the \<open>boltpack\<close> module of the sources.
\<close>

section \<open>The generator object\<close>

record image_generator =
  g_release :: string
  g_arch :: string
  g_libc :: string
  g_verify :: bool
  g_copy_qemu :: bool
  g_repo_base :: string
  g_cache_dir :: string
  g_context :: "(string \<times> string) list"

record gen_host =
  host_machine :: string                        \<comment> \<open>\<open>Platform.uname("-m")\<close>\<close>
  target_for_machine :: "string \<Rightarrow> string"    \<comment> \<open>\<open>Platform.target_for_machine\<close>\<close>
  user_cache_dir :: string                      \<comment> \<open>\<open>UserInfo.cache_dir()\<close>, empty for \<open>None\<close>\<close>

text \<open>Python's \<open>x or y\<close> on strings: \<open>None\<close> and the empty string are false.\<close>

definition py_or :: "string \<Rightarrow> string \<Rightarrow> string" where
  "py_or x y = (if x \<noteq> [] then x else y)"

definition default_repo_base :: string where
  "default_repo_base = ''http://archive.boltlinux.org/dists''"

text \<open>\<open>ImageGenerator.__init__(release, arch, libc, verify, copy_qemu, repo_base,
  cache_dir)\<close>; an omitted \<open>repo_base\<close> or \<open>cache_dir\<close> is the empty string.\<close>

definition image_generator_init ::
  "gen_host \<Rightarrow> string \<Rightarrow> string \<Rightarrow> string \<Rightarrow> bool \<Rightarrow> bool \<Rightarrow> string \<Rightarrow> string \<Rightarrow> image_generator result" where
  "image_generator_init h release arch libc verify copy_qemu repo_base cache_dir =
     (let repo = py_or repo_base default_repo_base;
          cache = py_or cache_dir (user_cache_dir h)
      in if cache = [] then Inl (GeneratorError ''unable to determine cache directory location.'')
         else
           (let opt_check_sig = (if verify then ''option check_signature'' else [])
            in Inr \<lparr>g_release = release, g_arch = arch, g_libc = libc, g_verify = verify,
                    g_copy_qemu = copy_qemu, g_repo_base = repo, g_cache_dir = cache,
                    g_context =
                      [(''release'', release), (''libc'', libc), (''arch'', arch),
                       (''host_arch'', host_machine h), (''machine'', arch),
                       (''target_type'', target_for_machine h arch),
                       (''opt_check_sig'', opt_check_sig), (''repo_base'', repo)]\<rparr>))"

section \<open>Templates\<close>

text \<open>A template is literal text and \<open>{name}\<close> replacement fields.\<close>

datatype seg = Lit string | Field string

fun format_template :: "seg list \<Rightarrow> (string \<times> string) list \<Rightarrow> string result" where
  "format_template [] ctx = Inr []"
| "format_template (Lit s # ts) ctx = rbind (format_template ts ctx) (\<lambda>r. Inr (s @ r))"
| "format_template (Field f # ts) ctx =
     (case map_of ctx f of
        None \<Rightarrow> Inl (KeyError f)
      | Some v \<Rightarrow> rbind (format_template ts ctx) (\<lambda>r. Inr (v @ r)))"

definition opkg_options_template :: "seg list" where
  "opkg_options_template =
     [Lit (unlines [''dest root /'', '''', ''option signature_type usign'',
                    ''option no_install_recommends'', ''option force_removal_of_dependent_packages'',
                    ''option force_postinstall'', '''']),
      Field ''opt_check_sig'', Lit ''\<newline>'']"

definition opkg_feeds_template :: "seg list" where
  "opkg_feeds_template =
     [Lit ''src/gz main '', Field ''repo_base'', Lit ''/'', Field ''release'', Lit ''/core/'',
      Field ''arch'', Lit ''/'', Field ''libc'', Lit ''/main\<newline>'']"

definition opkg_arch_template :: "seg list" where
  "opkg_arch_template = [Lit ''arch '', Field ''arch'', Lit '' 1\<newline>arch all 1\<newline>'']"

definition etc_passwd_lines :: "string list" where
  "etc_passwd_lines =
     [''root:x:0:0:root:/root:/bin/sh'',
      ''daemon:x:1:1:daemon:/usr/sbin:/usr/sbin/nologin'',
      ''bin:x:2:2:bin:/bin:/usr/sbin/nologin'',
      ''sys:x:3:3:sys:/dev:/usr/sbin/nologin'',
      ''sync:x:4:65534:sync:/bin:/bin/sync'',
      ''games:x:5:60:games:/usr/games:/usr/sbin/nologin'',
      ''man:x:6:12:man:/var/cache/man:/usr/sbin/nologin'',
      ''lp:x:7:7:lp:/var/spool/lpd:/usr/sbin/nologin'',
      ''mail:x:8:8:mail:/var/mail:/usr/sbin/nologin'',
      ''news:x:9:9:news:/var/spool/news:/usr/sbin/nologin'',
      ''uucp:x:10:10:uucp:/var/spool/uucp:/usr/sbin/nologin'',
      ''proxy:x:13:13:proxy:/bin:/usr/sbin/nologin'',
      ''www-data:x:33:33:www-data:/var/www:/usr/sbin/nologin'',
      ''backup:x:34:34:backup:/var/backups:/usr/sbin/nologin'',
      ''list:x:38:38:Mailing List Manager:/var/list:/usr/sbin/nologin'',
      ''irc:x:39:39:ircd:/var/run/ircd:/usr/sbin/nologin'',
      ''nobody:x:65534:65534:nobody:/nonexistent:/usr/sbin/nologin'']"

definition etc_group_lines :: "string list" where
  "etc_group_lines =
     [''root:x:0:'', ''daemon:x:1:'', ''bin:x:2:'', ''sys:x:3:'', ''adm:x:4:'', ''tty:x:5:'',
      ''disk:x:6:'', ''lp:x:7:'', ''mail:x:8:'', ''news:x:9:'', ''uucp:x:10:'', ''man:x:12:'',
      ''proxy:x:13:'', ''kmem:x:15:'', ''dialout:x:20:'', ''fax:x:21:'', ''voice:x:22:'',
      ''cdrom:x:24:'', ''floppy:x:25:'', ''tape:x:26:'', ''sudo:x:27:'', ''audio:x:29:'',
      ''dip:x:30:'', ''www-data:x:33:'', ''backup:x:34:'', ''operator:x:37:'', ''list:x:38:'',
      ''irc:x:39:'', ''src:x:40:'', ''shadow:x:42:'', ''utmp:x:43:'', ''video:x:44:'',
      ''sasl:x:45:'', ''plugdev:x:46:'', ''staff:x:50:'', ''games:x:60:'', ''users:x:100:'',
      ''nogroup:x:65534:'']"

definition etc_hosts_lines :: "string list" where
  "etc_hosts_lines =
     [''127.0.0.1 localhost'', '''', ''::1     localhost ip6-localhost ip6-loopback'',
      ''ff02::1 ip6-allnodes'', ''ff02::2 ip6-allrouters'']"

text \<open>The pairs of \<open>zip(conffile_list, template_list)\<close> in \<open>_write_config_files\<close>.\<close>

definition config_files :: "(string \<times> seg list) list" where
  "config_files =
     [(''/etc/opkg/arch.conf'', opkg_arch_template),
      (''/etc/opkg/options.conf'', opkg_options_template),
      (''/etc/opkg/feeds.conf'', opkg_feeds_template),
      (''/etc/passwd'', [Lit (unlines etc_passwd_lines)]),
      (''/etc/group'', [Lit (unlines etc_group_lines)]),
      (''/etc/hosts'', [Lit (unlines etc_hosts_lines)])]"

text \<open>A generator as \<open>ImageGenerator("stable", "aarch64")\<close> builds it on an
  x86\_64 host, used by the examples.\<close>

definition demo_host :: gen_host where
  "demo_host = \<lparr>host_machine = ''x86_64'', target_for_machine = (\<lambda>m. m @ ''-linux-musl''),
                 user_cache_dir = ''/root/.cache/bolt''\<rparr>"

definition demo_generator :: image_generator where
  "demo_generator =
     (case image_generator_init demo_host ''stable'' ''aarch64'' ''musl'' True False [] [] of
        Inr g \<Rightarrow> g | Inl e \<Rightarrow> undefined)"

section \<open>Lemmas\<close>

lemma format_template_Lit_only [simp]:
  "format_template [Lit s] ctx = Inr s"
  by simp

lemma image_generator_init_ok:
  assumes "image_generator_init h release arch libc verify copy_qemu repo_base cache_dir = Inr g"
  shows "g_release g = release \<and> g_arch g = arch \<and> g_libc g = libc \<and> g_cache_dir g \<noteq> []
    \<and> map_of (g_context g) ''arch'' = Some arch \<and> map_of (g_context g) ''release'' = Some release
    \<and> map_of (g_context g) ''libc'' = Some libc
    \<and> map_of (g_context g) ''repo_base'' = Some (g_repo_base g)
    \<and> map_of (g_context g) ''opt_check_sig'' = Some (if verify then ''option check_signature'' else [])"
  using assms by (auto simp: image_generator_init_def Let_def split: if_splits)


text \<open>C29: the package-manager configuration \<open>prepare\<close> writes for a constructed
  generator: the architecture line, the feed URL built from the repository base (the
  default archive when none is given), release, architecture and C library, and the
  signature check exactly when verification is on.\<close>

theorem opkg_config_rendering:
  assumes "image_generator_init h release arch libc verify copy_qemu repo_base cache_dir = Inr g"
  shows "format_template opkg_arch_template (g_context g) = Inr (''arch '' @ arch @ '' 1\<newline>arch all 1\<newline>'') \<and>
         format_template opkg_feeds_template (g_context g) =
           Inr (''src/gz main '' @ py_or repo_base default_repo_base @ ''/'' @ release @ ''/core/'' @ arch @
                ''/'' @ libc @ ''/main\<newline>'') \<and>
         format_template opkg_options_template (g_context g) =
           Inr (unlines [''dest root /'', [], ''option signature_type usign'',
                         ''option no_install_recommends'', ''option force_removal_of_dependent_packages'',
                         ''option force_postinstall'', []] @
                (if verify then ''option check_signature'' else []) @ ''\<newline>'')"
  using assms
  by (auto simp: image_generator_init_def Let_def opkg_arch_template_def opkg_feeds_template_def
                 opkg_options_template_def split: if_splits)

theorem opkg_config_rendering_witness:
  "format_template opkg_feeds_template (g_context demo_generator) =
     Inr (''src/gz main http://archive.boltlinux.org/dists/stable/core/aarch64/musl/main\<newline>'')"
proof -
  have "image_generator_init demo_host ''stable'' ''aarch64'' ''musl'' True False [] [] = Inr demo_generator"
    by (simp add: demo_generator_def image_generator_init_def Let_def py_or_def demo_host_def)
  from opkg_config_rendering [OF this] show ?thesis by (simp add: py_or_def default_repo_base_def)
qed

text \<open>C30: the constructor fails exactly when no cache directory can be determined:
  the argument is empty and the user has no cache directory either.\<close>

theorem image_generator_init_fails:
  "(\<exists>e. image_generator_init h release arch libc verify copy_qemu repo_base cache_dir = Inl e) \<longleftrightarrow>
     cache_dir = [] \<and> user_cache_dir h = []"
  by (simp add: image_generator_init_def Let_def py_or_def)

end
