(* ===== verification/Environment.thy ===== *)
theory Environment
  imports Image_Config
begin

text \<open>
  \<open>ImageGenerator._prepare_environment\<close>
  (\<open>src/image-gen/lib/boltlinux/osimage/generator.py\<close>, lines 296--321): the
  environment every directive is applied with. The process environment
  \<open>os.environ\<close> is an association list in its iteration order (a dictionary: the
  keys are distinct, and \<open>os.environ[key]\<close> is \<open>map_of\<close>); the result is a map.
\<close>

type_synonym env = "string \<rightharpoonup> string"

definition entries_to_keep :: "string list" where
  "entries_to_keep = [''DISPLAY'', ''SSH_CONNECTION'', ''SSH_CLIENT'', ''SSH_TTY'', ''USER'', ''TERM'', ''HOME'']"

text \<open>The loop's guard: \<open>key.startswith("BOLT_") or key in entries_to_keep\<close>.\<close>

definition keep_var :: "string \<Rightarrow> bool" where
  "keep_var k \<longleftrightarrow> startswith k ''BOLT_'' \<or> k \<in> set entries_to_keep"

text \<open>\<open>for key in list(os.environ.keys()): ... env[key] = os.environ[key]\<close>.\<close>

fun copy_allowed :: "(string \<times> string) list \<Rightarrow> string list \<Rightarrow> env \<Rightarrow> env" where
  "copy_allowed environ [] e = e"
| "copy_allowed environ (k # ks) e =
     copy_allowed environ ks (if \<not> keep_var k then e else e(k := map_of environ k))"

definition injected_keys :: "string list" where
  "injected_keys = [''BOLT_SYSROOT'', ''BOLT_RELEASE'', ''BOLT_ARCH'', ''BOLT_LIBC'']"

definition prepare_environment :: "image_generator \<Rightarrow> (string \<times> string) list \<Rightarrow> string \<Rightarrow> env" where
  "prepare_environment g environ sysroot =
     (copy_allowed environ (map fst environ) Map.empty)
       (''BOLT_SYSROOT'' \<mapsto> sysroot, ''BOLT_RELEASE'' \<mapsto> g_release g,
        ''BOLT_ARCH'' \<mapsto> g_arch g, ''BOLT_LIBC'' \<mapsto> g_libc g)"

section \<open>Lemmas\<close>

lemma copy_allowed_lookup:
  "copy_allowed environ ks e k =
     (if k \<in> set ks \<and> keep_var k then map_of environ k else e k)"
  by (induction ks arbitrary: e) auto

lemma copy_allowed_all_keys:
  "copy_allowed environ (map fst environ) Map.empty k = (if keep_var k then map_of environ k else None)"
  by (auto simp: copy_allowed_lookup) (metis map_of_eq_None_iff)

section \<open>Properties\<close>

text \<open>C5: the four build identity variables are always the generator's own values and
  the canonical root, whatever the ambient environment holds (\<open>BOLT_SYSROOT=/malicious\<close>
  in \<open>os.environ\<close> does not survive).\<close>

theorem prepare_environment_injected:
  "prepare_environment g environ sysroot ''BOLT_SYSROOT'' = Some sysroot \<and>
   prepare_environment g environ sysroot ''BOLT_RELEASE'' = Some (g_release g) \<and>
   prepare_environment g environ sysroot ''BOLT_ARCH'' = Some (g_arch g) \<and>
   prepare_environment g environ sysroot ''BOLT_LIBC'' = Some (g_libc g)"
  by (simp add: prepare_environment_def)

text \<open>C6: any other variable is copied from the ambient environment exactly when it is
  on the allow-list or starts with \<open>BOLT_\<close>, and is absent otherwise.\<close>

theorem prepare_environment_filter:
  "k \<notin> set injected_keys \<Longrightarrow>
     prepare_environment g environ sysroot k = (if keep_var k then map_of environ k else None)"
  by (auto simp: prepare_environment_def injected_keys_def copy_allowed_all_keys)

theorem prepare_environment_filter_witness:
  "prepare_environment demo_generator [(''HOME'', ''/root''), (''PATH'', ''/bin''), (''BOLT_SYSROOT'', ''/malicious'')] ''/srv/root'' ''HOME'' = Some ''/root'' \<and>
   prepare_environment demo_generator [(''HOME'', ''/root''), (''PATH'', ''/bin''), (''BOLT_SYSROOT'', ''/malicious'')] ''/srv/root'' ''PATH'' = None"
proof -
  have h: "''HOME'' \<notin> set injected_keys" and p: "''PATH'' \<notin> set injected_keys"
    by (simp_all add: injected_keys_def)
  show ?thesis
    using prepare_environment_filter [OF h, of demo_generator "[(''HOME'', ''/root''), (''PATH'', ''/bin''), (''BOLT_SYSROOT'', ''/malicious'')]" "''/srv/root''"]
          prepare_environment_filter [OF p, of demo_generator "[(''HOME'', ''/root''), (''PATH'', ''/bin''), (''BOLT_SYSROOT'', ''/malicious'')]" "''/srv/root''"]
    by (simp add: keep_var_def entries_to_keep_def)
qed

end
