(* ===== verification/Pipeline.thy ===== *)
theory Pipeline
  imports Environment
begin

text \<open>
  \<open>ImageGenerator.customize\<close> (\<open>src/image-gen/lib/boltlinux/osimage/generator.py\<close>,
  lines 241--268): load the directives of a specification file, compute the scoped
  environment once, then apply the directives in the loader's order, logging each
  directive's kind and line span before applying it; an exception of \<open>apply\<close> is not
  caught, so it ends the loop. The loader (\<open>SpecfileParser.load\<close>, not among the
  sources), the directives' classes and their \<open>apply\<close> methods are the fields of
  \<open>custom_host\<close>, over any type \<open>'d\<close> of directives and any type \<open>'w\<close> of world
  (the filesystem and whatever else a directive touches): the lemmas hold for every
  directive kind.
\<close>

record ('d, 'w) custom_host =
  c_isdir :: "'w \<Rightarrow> string \<Rightarrow> bool"                     \<comment> \<open>\<open>os.path.isdir\<close>\<close>
  c_realpath :: "'w \<Rightarrow> string \<Rightarrow> string"               \<comment> \<open>\<open>os.path.realpath\<close>\<close>
  c_load :: "'w \<Rightarrow> string \<Rightarrow> (nat \<times> nat \<times> 'd) list result" \<comment> \<open>\<open>open\<close> and \<open>SpecfileParser.load\<close>\<close>
  c_environ :: "(string \<times> string) list"                  \<comment> \<open>\<open>os.environ\<close>\<close>
  c_class :: "'d \<Rightarrow> string"                              \<comment> \<open>\<open>p.__class__.__name__\<close>\<close>
  c_apply :: "'d \<Rightarrow> string \<Rightarrow> env \<Rightarrow> 'w \<Rightarrow> 'w result"    \<comment> \<open>\<open>p.apply(sysroot, env=env)\<close>\<close>

section \<open>The directive's kind in the log\<close>

text \<open>\<open>re.sub(r"([a-z])([A-Z])", r"\1 \2", name)\<close>: scanning left to right, a blank
  goes between a lower-case letter and a following capital, and the scan resumes after
  the capital.\<close>

fun split_camel :: "string \<Rightarrow> string" where
  "split_camel (a # b # cs) =
     (if is_lower a \<and> is_upper b then a # CHR '' '' # b # split_camel cs
      else a # split_camel (b # cs))"
| "split_camel cs = cs"

definition directive_kind :: "string \<Rightarrow> string" where
  "directive_kind name = map py_lower_char (split_camel name)"

section \<open>The loop\<close>

type_synonym log_entry = "string \<times> nat \<times> nat"

text \<open>The log lines written so far, and the world or the exception that ended the loop.\<close>

fun run_parts ::
  "('d \<Rightarrow> string) \<Rightarrow> ('d \<Rightarrow> string \<Rightarrow> env \<Rightarrow> 'w \<Rightarrow> 'w result) \<Rightarrow> string \<Rightarrow> env \<Rightarrow>
   (nat \<times> nat \<times> 'd) list \<Rightarrow> 'w \<Rightarrow> log_entry list \<times> 'w result" where
  "run_parts cls ap root e [] w = ([], Inr w)"
| "run_parts cls ap root e ((s, t, p) # ps) w =
     (let entry = (directive_kind (cls p), s, t) in
      case ap p root e w of
        Inl err \<Rightarrow> ([entry], Inl err)
      | Inr w' \<Rightarrow> (case run_parts cls ap root e ps w' of (l, r) \<Rightarrow> (entry # l, r)))"

definition customize ::
  "image_generator \<Rightarrow> ('d, 'w) custom_host \<Rightarrow> 'w \<Rightarrow> string \<Rightarrow> string \<Rightarrow> log_entry list \<times> 'w result" where
  "customize g h w sysroot specfile =
     (if \<not> c_isdir h w sysroot
      then ([], Inl (GeneratorError (''no such directory: '' @ sysroot)))
      else
        (let root = c_realpath h w sysroot in
         case c_load h w specfile of
           Inl err \<Rightarrow> ([], Inl err)
         | Inr parts \<Rightarrow>
             (let e = prepare_environment g (c_environ h) root
              in run_parts (c_class h) (c_apply h) root e parts w)))"

section \<open>Lemmas\<close>

text \<open>Running a concatenation runs the first part, then the second from the world the
  first left, unless the first failed.\<close>

lemma run_parts_append:
  "run_parts cls ap root e (ps @ qs) w =
     (case run_parts cls ap root e ps w of
        (l, Inl err) \<Rightarrow> (l, Inl err)
      | (l, Inr w') \<Rightarrow> (case run_parts cls ap root e qs w' of (l', r) \<Rightarrow> (l @ l', r)))"
proof (induction ps arbitrary: w)
  case Nil
  then show ?case by (simp split: prod.splits)
next
  case (Cons p ps)
  obtain s t d where p: "p = (s, t, d)" by (cases p)
  show ?case
    by (simp add: p Cons.IH Let_def split: sum.splits prod.splits)
qed

text \<open>The applications a successful run performs, in order: each directive is
  applied to the world the previous one produced.\<close>

fun apply_seq :: "('d \<Rightarrow> string \<Rightarrow> env \<Rightarrow> 'w \<Rightarrow> 'w result) \<Rightarrow> string \<Rightarrow> env \<Rightarrow> 'd list \<Rightarrow> 'w \<Rightarrow> 'w result" where
  "apply_seq ap root e [] w = Inr w"
| "apply_seq ap root e (p # ps) w = rbind (ap p root e w) (apply_seq ap root e ps)"

lemma run_parts_result:
  "snd (run_parts cls ap root e ps w) = apply_seq ap root e (map (\<lambda>(s, t, p). p) ps) w"
proof (induction ps arbitrary: w)
  case Nil
  then show ?case by simp
next
  case (Cons p ps)
  obtain s t d where p: "p = (s, t, d)" by (cases p)
  show ?case
    by (auto simp: p Cons.IH [symmetric] Let_def split: sum.splits prod.splits)
qed

lemma run_parts_log_prefix:
  "\<exists>k \<le> length ps. fst (run_parts cls ap root e ps w) =
     map (\<lambda>(s, t, p). (directive_kind (cls p), s, t)) (take k ps)"
proof (induction ps arbitrary: w)
  case Nil
  then show ?case by simp
next
  case (Cons p ps)
  obtain s t d where p: "p = (s, t, d)" by (cases p)
  show ?case
  proof (cases "ap d root e w")
    case (Inl err)
    then show ?thesis by (intro exI [of _ 1]) (simp add: p)
  next
    case (Inr w')
    from Cons.IH [of w'] obtain k where "k \<le> length ps"
      "fst (run_parts cls ap root e ps w') = map (\<lambda>(s, t, p). (directive_kind (cls p), s, t)) (take k ps)"
      by blast
    with Inr show ?thesis
      by (intro exI [of _ "Suc k"]) (auto simp: p split: prod.splits)
  qed
qed

lemma run_parts_Inl:
  "run_parts cls ap root e ps w = (l, Inl err) \<Longrightarrow>
     \<exists>k w'. k < length ps \<and> l = map (\<lambda>(s, t, p). (directive_kind (cls p), s, t)) (take (Suc k) ps)
       \<and> apply_seq ap root e (map (\<lambda>(s, t, p). p) (take k ps)) w = Inr w'
       \<and> ap (snd (snd (ps ! k))) root e w' = Inl err"
proof (induction ps arbitrary: w l)
  case Nil
  then show ?case by simp
next
  case (Cons p ps)
  obtain s t d where p: "p = (s, t, d)" by (cases p)
  show ?case
  proof (cases "ap d root e w")
    case (Inl err')
    with Cons.prems show ?thesis by (intro exI [of _ 0] exI [of _ w]) (simp add: p)
  next
    case (Inr w1)
    obtain l' r where rec: "run_parts cls ap root e ps w1 = (l', r)" by fastforce
    with Cons.prems Inr p have l: "l = (directive_kind (cls d), s, t) # l'" and r: "r = Inl err"
      by auto
    from Cons.IH [of w1 l'] rec r obtain k w' where "k < length ps"
      "l' = map (\<lambda>(s, t, p). (directive_kind (cls p), s, t)) (take (Suc k) ps)"
      "apply_seq ap root e (map (\<lambda>(s, t, p). p) (take k ps)) w1 = Inr w'"
      "ap (snd (snd (ps ! k))) root e w' = Inl err" by blast
    with l Inr show ?thesis by (intro exI [of _ "Suc k"] exI [of _ w']) (simp add: p)
  qed
qed

lemma run_parts_ok:
  "apply_seq ap root e (map (\<lambda>(s, t, p). p) ps) w = Inr w' \<Longrightarrow>
     run_parts cls ap root e ps w = (map (\<lambda>(s, t, p). (directive_kind (cls p), s, t)) ps, Inr w')"
proof (induction ps arbitrary: w)
  case Nil
  then show ?case by simp
next
  case (Cons p ps)
  obtain s t d where p: "p = (s, t, d)" by (cases p)
  from Cons.prems obtain w1 where w1: "ap d root e w = Inr w1"
    and rest: "apply_seq ap root e (map (\<lambda>(s, t, p). p) ps) w1 = Inr w'"
    by (auto simp: p result_simps)
  show ?case using Cons.IH [OF rest] w1 by (simp add: p)
qed

lemma run_parts_Inr:
  "run_parts cls ap root e ps w = (l, Inr w') \<longleftrightarrow>
     apply_seq ap root e (map (\<lambda>(s, t, p). p) ps) w = Inr w'
     \<and> l = map (\<lambda>(s, t, p). (directive_kind (cls p), s, t)) ps"
proof
  assume run: "run_parts cls ap root e ps w = (l, Inr w')"
  then have seq: "apply_seq ap root e (map (\<lambda>(s, t, p). p) ps) w = Inr w'"
    using run_parts_result [of cls ap root e ps w] by simp
  with run run_parts_ok [OF seq, of cls] show "apply_seq ap root e (map (\<lambda>(s, t, p). p) ps) w = Inr w'
     \<and> l = map (\<lambda>(s, t, p). (directive_kind (cls p), s, t)) ps" by simp
next
  assume "apply_seq ap root e (map (\<lambda>(s, t, p). p) ps) w = Inr w'
     \<and> l = map (\<lambda>(s, t, p). (directive_kind (cls p), s, t)) ps"
  then show "run_parts cls ap root e ps w = (l, Inr w')" using run_parts_ok [of ap root e ps w w' cls] by simp
qed

section \<open>Sample run\<close>

text \<open>Two directives in document order, a patch set on lines 10--20 that fails and a
  user-accounts directive on lines 21--30; the world counts successful applications.\<close>

definition demo_custom_host :: "(string, nat) custom_host" where
  "demo_custom_host =
     \<lparr>c_isdir = (\<lambda>w p. p = ''/srv/root''), c_realpath = (\<lambda>w p. p),
      c_load = (\<lambda>w f. Inr [(10, 20, ''PatchSet''), (21, 30, ''UserAccounts'')]),
      c_environ = [(''BOLT_SYSROOT'', ''/malicious''), (''HOME'', ''/root'')],
      c_class = (\<lambda>p. p),
      c_apply = (\<lambda>p r e w. if p = ''PatchSet'' then Inl (DirectiveError ''patch failed'') else Inr (Suc w))\<rparr>"

section \<open>Properties\<close>

text \<open>C7: directives run strictly in document order and the first failure ends the run:
  if the run fails, there is a directive \<open>k\<close> such that the directives before it were
  applied one after the other, each to the world the previous one left, directive
  \<open>k\<close> raised the error, and the log holds exactly the directives up to \<open>k\<close>, so
  no later directive was applied.\<close>

theorem run_parts_fail_fast:
  "run_parts cls ap root e ps w = (l, Inl err) \<Longrightarrow>
     \<exists>k w'. k < length ps \<and> l = map (\<lambda>(s, t, p). (directive_kind (cls p), s, t)) (take (Suc k) ps)
       \<and> apply_seq ap root e (map (\<lambda>(s, t, p). p) (take k ps)) w = Inr w'
       \<and> ap (snd (snd (ps ! k))) root e w' = Inl err"
  by (rule run_parts_Inl)

theorem run_parts_fail_fast_witness:
  "customize demo_generator demo_custom_host 0 ''/srv/root'' ''image.xml''
     = ([(''patch set'', 10, 20)], Inl (DirectiveError ''patch failed''))"
proof -
  have run: "customize demo_generator demo_custom_host 0 ''/srv/root'' ''image.xml''
     = run_parts (\<lambda>p. p) (c_apply demo_custom_host) ''/srv/root''
         (prepare_environment demo_generator (c_environ demo_custom_host) ''/srv/root'')
         [(10, 20, ''PatchSet''), (21, 30, ''UserAccounts'')] 0"
    by (simp add: customize_def demo_custom_host_def)
  have "run_parts (\<lambda>p. p) (c_apply demo_custom_host) ''/srv/root''
         (prepare_environment demo_generator (c_environ demo_custom_host) ''/srv/root'')
         [(10, 20, ''PatchSet''), (21, 30, ''UserAccounts'')] 0
       = ([(''patch set'', 10, 20)], Inl (DirectiveError ''patch failed''))"
    by code_simp
  moreover note run_parts_fail_fast [OF this]
  ultimately show ?thesis using run by simp
qed

text \<open>C8: a run that succeeds has applied every directive, in document order, each to
  the world the previous one produced, and has logged every directive's kind and line
  span in that order; conversely, when every application succeeds the run succeeds.\<close>

theorem run_parts_success:
  "run_parts cls ap root e ps w = (l, Inr w') \<longleftrightarrow>
     apply_seq ap root e (map (\<lambda>(s, t, p). p) ps) w = Inr w'
     \<and> l = map (\<lambda>(s, t, p). (directive_kind (cls p), s, t)) ps"
  by (rule run_parts_Inr)

text \<open>C9: \<open>customize\<close> applies the loaded directives, in order, with one environment
  computed for the whole run, in which \<open>BOLT_SYSROOT\<close> is the canonical root whatever
  the ambient environment says.\<close>

theorem customize_scoped_env:
  "c_isdir h w sysroot \<Longrightarrow> c_load h w f = Inr parts \<Longrightarrow>
     \<exists>e. e ''BOLT_SYSROOT'' = Some (c_realpath h w sysroot)
       \<and> e ''BOLT_ARCH'' = Some (g_arch g)
       \<and> customize g h w sysroot f = run_parts (c_class h) (c_apply h) (c_realpath h w sysroot) e parts w"
  by (intro exI [of _ "prepare_environment g (c_environ h) (c_realpath h w sysroot)"])
     (simp add: customize_def Let_def prepare_environment_injected)

theorem customize_scoped_env_witness:
  "\<exists>e. e ''BOLT_SYSROOT'' = Some ''/srv/root''
     \<and> e ''BOLT_ARCH'' = Some (g_arch demo_generator)
     \<and> customize demo_generator demo_custom_host 0 ''/srv/root'' ''image.xml''
        = run_parts (\<lambda>p. p) (c_apply demo_custom_host) ''/srv/root'' e
            [(10, 20, ''PatchSet''), (21, 30, ''UserAccounts'')] 0"
proof -
  have d: "c_isdir demo_custom_host 0 ''/srv/root''"
    and l: "c_load demo_custom_host 0 ''image.xml'' = Inr [(10, 20, ''PatchSet''), (21, 30, ''UserAccounts'')]"
    by (simp_all add: demo_custom_host_def)
  from customize_scoped_env [OF d l, of demo_generator] show ?thesis
    by (simp add: demo_custom_host_def)
qed

end
