(* ===== verification/Fs.thy ===== *)
theory Fs
  imports Prelude "HOL-Library.AList"
begin

unbundle bit_operations_syntax

text \<open>
  The filesystem the image generator works on
  (\<open>src/image-gen/lib/boltlinux/osimage/generator.py\<close>), and the \<open>os\<close> and
  \<open>shutil\<close> calls it makes: \<open>makedirs\<close>, \<open>chmod\<close>, \<open>chown\<close>, \<open>symlink\<close>,
  \<open>lstat\<close>, \<open>unlink\<close>, \<open>shutil.rmtree\<close>, \<open>shutil.copy2\<close>, writing a file, and the
  tests \<open>os.path.exists\<close> and \<open>os.path.isdir\<close>.

  A path is the list of its components below \<open>/\<close>; the filesystem is an
  association list from paths to inodes (read with \<open>map_of\<close>, written with
  \<open>AList.update\<close> and \<open>AList.delete\<close>), the inodes being (a directory, a regular file with its content, or a symbolic link with its
  target), each with mode bits, owner and group. The process has a user, a group and a
  umask. Permissions: writing into a directory or a file needs the \<open>w\<close> bit of the
  class the process falls in (root always may); \<open>chmod\<close> needs ownership and
  \<open>chown\<close> to another owner needs root. Symbolic links are followed one level, and
  only as the last component of a path; a failed call is an \<open>OSError\<close> with its errno
  name and path, and the model does not describe the state a failed call leaves.
\<close>

type_synonym path = "string list"

record attrs =
  mode :: nat
  uid :: nat
  gid :: nat

datatype inode = Dir attrs | File attrs string | Symlink attrs string

primrec attrs_of :: "inode \<Rightarrow> attrs" where
  "attrs_of (Dir a) = a"
| "attrs_of (File a s) = a"
| "attrs_of (Symlink a t) = a"

primrec is_dir_node :: "inode \<Rightarrow> bool" where
  "is_dir_node (Dir a) = True"
| "is_dir_node (File a s) = False"
| "is_dir_node (Symlink a t) = False"

type_synonym fs = "(path \<times> inode) list"

record proc =
  p_uid :: nat
  p_gid :: nat
  p_umask :: nat

section \<open>Paths\<close>

text \<open>\<open>str.split(sep)\<close>.\<close>

fun split_on :: "char \<Rightarrow> string \<Rightarrow> string list" where
  "split_on c [] = [[]]"
| "split_on c (x # xs) =
     (if x = c then [] # split_on c xs
      else (case split_on c xs of w # ws \<Rightarrow> (x # w) # ws | [] \<Rightarrow> [[x]]))"

text \<open>The components of a path string; \<open>sysroot + "/tmp"\<close> is \<open>root @ comps ''/tmp''\<close>
  for a canonical \<open>sysroot\<close>.\<close>

definition comps :: "string \<Rightarrow> path" where
  "comps s = filter (\<lambda>w. w \<noteq> []) (split_on CHR ''/'' s)"

definition path_str :: "path \<Rightarrow> string" where
  "path_str p = concat (map (\<lambda>w. ''/'' @ w) p)"

text \<open>A path whose components are non-empty and free of \<open>/\<close> parses back from its string.\<close>

definition wf_path :: "path \<Rightarrow> bool" where
  "wf_path r \<longleftrightarrow> (\<forall>w\<in>set r. w \<noteq> [] \<and> CHR ''/'' \<notin> set w)"

text \<open>Where a symbolic link at \<open>p\<close> with target \<open>t\<close> points: an absolute target from
  \<open>/\<close>, a relative one from the link's directory, \<open>.\<close> and \<open>..\<close> resolved.\<close>

definition resolve_from :: "path \<Rightarrow> string \<Rightarrow> path" where
  "resolve_from base t =
     fold (\<lambda>w b. if w = ''.'' then b else if w = ''..'' then butlast b else b @ [w]) (comps t) base"

definition link_target :: "path \<Rightarrow> string \<Rightarrow> path" where
  "link_target p t = resolve_from (if prefix ''/'' t then [] else butlast p) t"

text \<open>The path a call that follows symbolic links operates on.\<close>

definition follow :: "fs \<Rightarrow> path \<Rightarrow> path" where
  "follow fs p = (case map_of fs p of Some (Symlink a t) \<Rightarrow> link_target p t | _ \<Rightarrow> p)"

section \<open>Path strings\<close>

text \<open>Relative paths are resolved against the working directory \<open>cwd\<close>.\<close>

definition abspath :: "string \<Rightarrow> string \<Rightarrow> string" where
  "abspath cwd s = (if startswith s ''/'' then s else cwd @ ''/'' @ s)"


text \<open>\<open>os.path.realpath\<close> on an absolute path: the canonical string of the resolved
  path.\<close>

definition realpath :: "fs \<Rightarrow> string \<Rightarrow> string" where
  "realpath fs s = (let r = follow fs (comps s) in if r = [] then ''/'' else path_str r)"

text \<open>\<open>os.path.join(a, b)\<close>, \<open>str.lstrip("/")\<close> and \<open>os.path.dirname\<close>
  (\<open>posixpath\<close>).\<close>

definition py_join :: "string \<Rightarrow> string \<Rightarrow> string" where
  "py_join a b =
     (if startswith b ''/'' then b else if a = [] \<or> last a = CHR ''/'' then a @ b else a @ ''/'' @ b)"

definition lstrip_slash :: "string \<Rightarrow> string" where
  "lstrip_slash s = dropWhile (\<lambda>c. c = CHR ''/'') s"

definition dirname :: "string \<Rightarrow> string" where
  "dirname s =
     (let head = rev (dropWhile (\<lambda>c. c \<noteq> CHR ''/'') (rev s))
      in if head \<noteq> [] \<and> (\<exists>c\<in>set head. c \<noteq> CHR ''/'')
         then rev (dropWhile (\<lambda>c. c = CHR ''/'') (rev head)) else head)"

section \<open>Queries\<close>

text \<open>\<open>os.path.exists\<close> and \<open>os.path.isdir\<close> follow a link; a dangling link does not
  exist.\<close>

definition exists :: "fs \<Rightarrow> path \<Rightarrow> bool" where
  "exists fs p \<longleftrightarrow> map_of fs (follow fs p) \<noteq> None"

definition isdir :: "fs \<Rightarrow> path \<Rightarrow> bool" where
  "isdir fs p \<longleftrightarrow> (case map_of fs (follow fs p) of Some (Dir a) \<Rightarrow> True | _ \<Rightarrow> False)"

text \<open>\<open>os.lstat\<close>: \<open>st_mode\<close> carries the file type bits (\<open>S_IFDIR\<close>, \<open>S_IFREG\<close>,
  \<open>S_IFLNK\<close>) above the permission bits.\<close>

record stat =
  st_mode :: nat
  st_uid :: nat
  st_gid :: nat

primrec type_bits :: "inode \<Rightarrow> nat" where
  "type_bits (Dir a) = 16384"
| "type_bits (File a s) = 32768"
| "type_bits (Symlink a t) = 40960"

definition lstat :: "fs \<Rightarrow> path \<Rightarrow> stat result" where
  "lstat fs p =
     (case map_of fs p of
        None \<Rightarrow> Inl (OSError ''ENOENT'' p)
      | Some n \<Rightarrow> Inr \<lparr>st_mode = type_bits n + mode (attrs_of n), st_uid = uid (attrs_of n),
                        st_gid = gid (attrs_of n)\<rparr>)"

text \<open>Reading a file (\<open>open(p, "r")\<close> and iterating it): follows a link; read
  permission is not modelled.\<close>

definition read_file :: "fs \<Rightarrow> path \<Rightarrow> string result" where
  "read_file fs p =
     (case map_of fs (follow fs p) of
        None \<Rightarrow> Inl (OSError ''ENOENT'' p)
      | Some (File a s) \<Rightarrow> Inr s
      | Some (Dir a) \<Rightarrow> Inl (OSError ''EISDIR'' p)
      | Some (Symlink a t) \<Rightarrow> Inl (OSError ''ELOOP'' p))"

section \<open>Permissions\<close>

definition has_bit :: "nat \<Rightarrow> nat \<Rightarrow> bool" where
  "has_bit m k \<longleftrightarrow> odd (m div 2 ^ k)"

definition may_write :: "proc \<Rightarrow> attrs \<Rightarrow> bool" where
  "may_write pr a \<longleftrightarrow>
     p_uid pr = 0
     \<or> (if p_uid pr = uid a then has_bit (mode a) 7
        else if p_gid pr = gid a then has_bit (mode a) 4
        else has_bit (mode a) 1)"

text \<open>The directory an entry is created in or removed from must exist, be a directory
  and be writable.\<close>

definition parent_ok :: "proc \<Rightarrow> fs \<Rightarrow> path \<Rightarrow> unit result" where
  "parent_ok pr fs p =
     (case map_of fs (butlast p) of
        None \<Rightarrow> Inl (OSError ''ENOENT'' p)
      | Some (Dir a) \<Rightarrow> (if may_write pr a then Inr () else Inl (OSError ''EACCES'' p))
      | Some _ \<Rightarrow> Inl (OSError ''ENOTDIR'' p))"

section \<open>Calls\<close>

text \<open>\<open>os.mkdir(p, m)\<close>: the new directory gets the permission and sticky bits of
  \<open>m\<close> (\<open>m & 0o1777\<close>, as Linux keeps them) without the umask bits.\<close>

definition mkdir :: "proc \<Rightarrow> path \<Rightarrow> nat \<Rightarrow> fs \<Rightarrow> fs result" where
  "mkdir pr p m fs =
     (if p = [] \<or> map_of fs p \<noteq> None then Inl (OSError ''EEXIST'' p)
      else rbind (parent_ok pr fs p) (\<lambda>_.
        Inr (AList.update p (Dir \<lparr>mode = (m AND 1023) - (m AND 1023 AND p_umask pr),
                                 uid = p_uid pr, gid = p_gid pr\<rparr>) fs)))"

text \<open>\<open>except FileExistsError: pass\<close> around the recursive call of \<open>os.makedirs\<close>.\<close>

fun ignore_exists :: "fs \<Rightarrow> fs result \<Rightarrow> fs result" where
  "ignore_exists fs (Inl (OSError e q)) = (if e = ''EEXIST'' then Inr fs else Inl (OSError e q))"
| "ignore_exists fs r = r"

text \<open>
  \<open>os.makedirs(p, exist_ok=ok)\<close> (mode 0o777), on the reversed path: a missing head is
  created first, then \<open>p\<close>; an error of the last \<open>mkdir\<close> is ignored when
  \<open>exist_ok\<close> holds and \<open>p\<close> is a directory.
\<close>

fun makedirs_rev :: "proc \<Rightarrow> bool \<Rightarrow> string list \<Rightarrow> fs \<Rightarrow> fs result" where
  "makedirs_rev pr ok [] fs = (if ok then Inr fs else Inl (OSError ''EEXIST'' []))"
| "makedirs_rev pr ok (w # rp) fs =
     rbind (if rp \<noteq> [] \<and> \<not> exists fs (rev rp) then ignore_exists fs (makedirs_rev pr ok rp fs)
            else Inr fs)
       (\<lambda>fs'. case mkdir pr (rev rp @ [w]) 511 fs' of
                Inr fs'' \<Rightarrow> Inr fs''
              | Inl e \<Rightarrow> (if ok \<and> isdir fs' (rev rp @ [w]) then Inr fs' else Inl e))"

definition makedirs :: "proc \<Rightarrow> bool \<Rightarrow> path \<Rightarrow> fs \<Rightarrow> fs result" where
  "makedirs pr ok p fs = makedirs_rev pr ok (rev p) fs"

text \<open>\<open>os.chmod(p, m)\<close> follows a link; only the owner or root may change the mode,
  and only the low twelve bits are kept.\<close>

definition chmod :: "proc \<Rightarrow> path \<Rightarrow> nat \<Rightarrow> fs \<Rightarrow> fs result" where
  "chmod pr p m fs =
     (let q = follow fs p in
      case map_of fs q of
        None \<Rightarrow> Inl (OSError ''ENOENT'' p)
      | Some n \<Rightarrow>
          (if p_uid pr = 0 \<or> p_uid pr = uid (attrs_of n) then
             Inr (AList.update q (case n of
                            Dir a \<Rightarrow> Dir (a\<lparr>mode := m mod 4096\<rparr>)
                          | File a s \<Rightarrow> File (a\<lparr>mode := m mod 4096\<rparr>) s
                          | Symlink a t \<Rightarrow> Symlink (a\<lparr>mode := m mod 4096\<rparr>) t) fs)
           else Inl (OSError ''EPERM'' p)))"

text \<open>\<open>os.chown(p, u, g)\<close> follows a link; only root may give a file away, an owner
  may change the group to its own.\<close>

definition chown :: "proc \<Rightarrow> path \<Rightarrow> nat \<Rightarrow> nat \<Rightarrow> fs \<Rightarrow> fs result" where
  "chown pr p u g fs =
     (let q = follow fs p in
      case map_of fs q of
        None \<Rightarrow> Inl (OSError ''ENOENT'' p)
      | Some n \<Rightarrow>
          (let a = attrs_of n in
           if p_uid pr = 0 \<or> (p_uid pr = uid a \<and> u = uid a \<and> (g = gid a \<or> g = p_gid pr)) then
             Inr (AList.update q (case n of
                            Dir a \<Rightarrow> Dir (a\<lparr>uid := u, gid := g\<rparr>)
                          | File a s \<Rightarrow> File (a\<lparr>uid := u, gid := g\<rparr>) s
                          | Symlink a t \<Rightarrow> Symlink (a\<lparr>uid := u, gid := g\<rparr>) t) fs)
           else Inl (OSError ''EPERM'' p)))"

text \<open>\<open>os.symlink(t, p)\<close>.\<close>

definition symlink :: "proc \<Rightarrow> string \<Rightarrow> path \<Rightarrow> fs \<Rightarrow> fs result" where
  "symlink pr t p fs =
     (if p = [] \<or> map_of fs p \<noteq> None then Inl (OSError ''EEXIST'' p)
      else rbind (parent_ok pr fs p) (\<lambda>_.
        Inr (AList.update p (Symlink \<lparr>mode = 511, uid = p_uid pr, gid = p_gid pr\<rparr> t) fs)))"

text \<open>\<open>os.unlink(p)\<close>: removes a file or a link, never a directory.\<close>

definition unlink :: "proc \<Rightarrow> path \<Rightarrow> fs \<Rightarrow> fs result" where
  "unlink pr p fs =
     (case map_of fs p of
        None \<Rightarrow> Inl (OSError ''ENOENT'' p)
      | Some (Dir a) \<Rightarrow> Inl (OSError ''EISDIR'' p)
      | Some _ \<Rightarrow> rbind (parent_ok pr fs p) (\<lambda>_. Inr (AList.delete p fs)))"

text \<open>\<open>open(p, "w+")\<close>: follows a link, truncates a writable file, and creates a
  missing one with mode 0o666 without the umask bits; the result is the path of the
  opened file. \<open>f.write(text)\<close> then appends to that file.\<close>

definition open_w :: "proc \<Rightarrow> path \<Rightarrow> fs \<Rightarrow> (path \<times> fs) result" where
  "open_w pr p fs =
     (let q = follow fs p in
      case map_of fs q of
        Some (File a s) \<Rightarrow>
          (if may_write pr a then Inr (q, AList.update q (File a []) fs) else Inl (OSError ''EACCES'' p))
      | Some (Dir a) \<Rightarrow> Inl (OSError ''EISDIR'' p)
      | Some (Symlink a t) \<Rightarrow> Inl (OSError ''ELOOP'' p)
      | None \<Rightarrow>
          (if q = [] then Inl (OSError ''EISDIR'' p)
           else rbind (parent_ok pr fs q) (\<lambda>_.
             Inr (q, AList.update q (File \<lparr>mode = 438 - (438 AND p_umask pr), uid = p_uid pr,
                                          gid = p_gid pr\<rparr> []) fs))))"

definition fwrite :: "path \<Rightarrow> string \<Rightarrow> fs \<Rightarrow> fs" where
  "fwrite q text fs = (case map_of fs q of Some (File a s) \<Rightarrow> AList.update q (File a (s @ text)) fs | _ \<Rightarrow> fs)"

definition write_file :: "proc \<Rightarrow> path \<Rightarrow> string \<Rightarrow> fs \<Rightarrow> fs result" where
  "write_file pr p text fs = rbind (open_w pr p fs) (\<lambda>(q, fs'). Inr (fwrite q text fs'))"

text \<open>
  \<open>shutil.copy2(src, dst)\<close>: into \<open>dst/basename(src)\<close> when \<open>dst\<close> is a directory;
  the content is written as by \<open>write_file\<close>, then the source's mode is copied
  (\<open>copystat\<close>).
\<close>

definition copy2 :: "proc \<Rightarrow> path \<Rightarrow> path \<Rightarrow> fs \<Rightarrow> fs result" where
  "copy2 pr src dst fs =
     (let s = follow fs src;
          d = (if isdir fs dst \<and> src \<noteq> [] then dst @ [last src] else dst)
      in case map_of fs s of
           None \<Rightarrow> Inl (OSError ''ENOENT'' src)
         | Some (Dir a) \<Rightarrow> Inl (OSError ''EISDIR'' src)
         | Some (Symlink a t) \<Rightarrow> Inl (OSError ''ELOOP'' src)
         | Some (File a text) \<Rightarrow>
             (if follow fs d = s then Inl (OSError ''SameFileError'' d)
              else rbind (write_file pr d text fs) (\<lambda>fs'. chmod pr d (mode a) fs')))"

text \<open>\<open>shutil.rmtree(p)\<close>: refuses a link, needs a directory, and removes it and
  everything below it; every directory it empties, and the one it removes \<open>p\<close> from,
  must be writable.\<close>

definition rmtree :: "proc \<Rightarrow> path \<Rightarrow> fs \<Rightarrow> fs result" where
  "rmtree pr p fs =
     (case map_of fs p of
        None \<Rightarrow> Inl (OSError ''ENOENT'' p)
      | Some (Symlink a t) \<Rightarrow> Inl (OSError ''symlink'' p)
      | Some (File a s) \<Rightarrow> Inl (OSError ''ENOTDIR'' p)
      | Some (Dir a) \<Rightarrow>
          (if list_all (\<lambda>(q, n). if prefix p q then (case n of Dir b \<Rightarrow> may_write pr b | _ \<Rightarrow> True) else True) fs
              \<and> parent_ok pr fs p = Inr ()
           then Inr (filter (\<lambda>(q, n). \<not> prefix p q) fs)
           else Inl (OSError ''EACCES'' p)))"

section \<open>Relations between states\<close>

text \<open>A call keeps the directories when every directory entry survives it unchanged,
  and a subtree has no links when no entry below its root is a symbolic link.\<close>

definition keeps_dirs :: "fs \<Rightarrow> fs \<Rightarrow> bool" where
  "keeps_dirs fs fs' \<longleftrightarrow> (\<forall>q a. map_of fs q = Some (Dir a) \<longrightarrow> map_of fs' q = Some (Dir a))"

definition same_dirs :: "fs \<Rightarrow> fs \<Rightarrow> bool" where
  "same_dirs fs fs' \<longleftrightarrow> (\<forall>q a. map_of fs' q = Some (Dir a) \<longleftrightarrow> map_of fs q = Some (Dir a))"

text \<open>A call grows the filesystem when it changes no entry and adds directories only.\<close>

definition grows :: "fs \<Rightarrow> fs \<Rightarrow> bool" where
  "grows fs fs' \<longleftrightarrow>
     (\<forall>q. map_of fs' q = map_of fs q \<or> (map_of fs q = None \<and> (\<exists>a. map_of fs' q = Some (Dir a))))"

text \<open>A call adds directories only where \<open>P\<close> holds when every directory after it
  was one before it (with any attributes) or lies where \<open>P\<close> holds.\<close>

definition adds_dirs_in :: "fs \<Rightarrow> fs \<Rightarrow> (path \<Rightarrow> bool) \<Rightarrow> bool" where
  "adds_dirs_in fs fs' P \<longleftrightarrow>
     (\<forall>q a. map_of fs' q = Some (Dir a) \<longrightarrow> (\<exists>b. map_of fs q = Some (Dir b)) \<or> P q)"

definition no_links :: "fs \<Rightarrow> path \<Rightarrow> bool" where
  "no_links fs r \<longleftrightarrow>
     list_all (\<lambda>q. if prefix r q then (case map_of fs q of Some (Symlink a t) \<Rightarrow> False | _ \<Rightarrow> True) else True)
       (map fst fs)"

definition below :: "path \<Rightarrow> path \<Rightarrow> bool" where
  "below p q \<longleftrightarrow> prefix p q \<and> q \<noteq> p"

section \<open>Lemmas\<close>

subsection \<open>Paths\<close>

lemma split_on_nonempty [simp]: "split_on c s \<noteq> []"
  by (induction s) (auto split: list.split)

lemma split_on_append: "split_on c (s @ c # t) = split_on c s @ split_on c t"
proof (induction s)
  case (Cons x s)
  then show ?case
    by (cases "split_on c s") (auto split: list.split)
qed simp

text \<open>\<open>sysroot + "/tmp"\<close> names the entry \<open>tmp\<close> in the directory \<open>sysroot\<close> names.\<close>

lemma comps_slash: "comps (s @ CHR ''/'' # t) = comps s @ comps t"
  by (simp add: comps_def split_on_append)

lemma comps_Cons_slash [simp]: "comps (CHR ''/'' # t) = comps t"
  using comps_slash [of "[]" t] by (simp add: comps_def)

lemma comps_word: "CHR ''/'' \<notin> set w \<Longrightarrow> w \<noteq> [] \<Longrightarrow> comps w = [w]"
proof -
  assume "CHR ''/'' \<notin> set w" and "w \<noteq> []"
  moreover have "CHR ''/'' \<notin> set w \<Longrightarrow> split_on CHR ''/'' w = [w]"
    by (induction w) auto
  ultimately show ?thesis by (simp add: comps_def)
qed

lemma comps_path_str: "wf_path r \<Longrightarrow> comps (path_str r) = r"
proof (induction r)
  case (Cons w r)
  then have w: "w \<noteq> []" "CHR ''/'' \<notin> set w" and r: "wf_path r" by (auto simp: wf_path_def)
  show ?case
  proof (cases r)
    case Nil
    with w show ?thesis by (simp add: path_str_def comps_word)
  next
    case (Cons v r')
    then have "path_str r = CHR ''/'' # v @ path_str r'" by (simp add: path_str_def)
    then have "comps (w @ path_str r) = comps w @ comps (v @ path_str r')"
      by (simp add: comps_slash)
    with w Cons.IH [OF r] \<open>path_str r = CHR ''/'' # v @ path_str r'\<close> show ?thesis
      by (simp add: path_str_def comps_word)
  qed
qed (simp add: path_str_def comps_def)

lemma split_on_sep_free: "\<forall>w\<in>set (split_on c s). c \<notin> set w"
proof (induction s)
  case (Cons x s)
  then show ?case by (auto split: list.split)
qed simp

lemma wf_path_comps: "wf_path (comps s)"
  using split_on_sep_free [of "CHR ''/''" s] by (auto simp: wf_path_def comps_def)

subsection \<open>Lookups\<close>

declare update_conv' [simp, fs_frame] delete_conv' [simp, fs_frame]

lemma map_of_filter_prefix [simp, fs_frame]:
  "map_of (filter (\<lambda>(q, n). \<not> prefix p q) fs) k = (if prefix p k then None else map_of fs k)"
  by (induction fs) auto

lemma follow_not_link [simp]:
  "(\<And>a t. map_of fs p \<noteq> Some (Symlink a t)) \<Longrightarrow> follow fs p = p"
  by (auto simp: follow_def split: option.split inode.split)

lemma follow_Dir [simp]: "map_of fs p = Some (Dir a) \<Longrightarrow> follow fs p = p"
  by (simp add: follow_def)

lemma isdir_Dir [simp]: "map_of fs p = Some (Dir a) \<Longrightarrow> isdir fs p"
  by (simp add: isdir_def)

lemma exists_Dir [simp]: "map_of fs p = Some (Dir a) \<Longrightarrow> exists fs p"
  by (simp add: exists_def)

lemma keeps_dirs_refl [simp]: "keeps_dirs fs fs"
  by (simp add: keeps_dirs_def)

lemma keeps_dirs_trans [trans]: "keeps_dirs fs1 fs2 \<Longrightarrow> keeps_dirs fs2 fs3 \<Longrightarrow> keeps_dirs fs1 fs3"
  by (simp add: keeps_dirs_def)

lemma keeps_dirsD: "keeps_dirs fs fs' \<Longrightarrow> map_of fs q = Some (Dir a) \<Longrightarrow> map_of fs' q = Some (Dir a)"
  by (simp add: keeps_dirs_def)

lemma keeps_dirs_update_new [intro]: "map_of fs q = None \<Longrightarrow> keeps_dirs fs (AList.update q n fs)"
  by (simp add: keeps_dirs_def)

lemma no_links_iff:
  "no_links fs r \<longleftrightarrow> (\<forall>q a t. prefix r q \<longrightarrow> map_of fs q \<noteq> Some (Symlink a t))"
proof -
  have "q \<in> set (map fst fs)" if "map_of fs q = Some n" for q n
    using that by (auto dest: map_of_SomeD intro: rev_image_eqI)
  then show ?thesis
    by (fastforce simp: no_links_def list_all_iff split: option.splits inode.splits if_splits)
qed

lemma no_links_follow: "no_links fs r \<Longrightarrow> prefix r p \<Longrightarrow> follow fs p = p"
  by (simp add: no_links_iff)

lemma mkdir_Inr:
  "mkdir pr p m fs = Inr fs' \<longleftrightarrow>
     p \<noteq> [] \<and> map_of fs p = None \<and> parent_ok pr fs p = Inr () \<and>
     fs' = AList.update p (Dir \<lparr>mode = (m AND 1023) - (m AND 1023 AND p_umask pr),
                              uid = p_uid pr, gid = p_gid pr\<rparr>) fs"
  by (auto simp: mkdir_def rbind_eq_Inr)

lemma mkdir_keeps_dirs [fs_frame]: "mkdir pr p m fs = Inr fs' \<Longrightarrow> keeps_dirs fs fs'"
  by (auto simp: mkdir_Inr)

lemma ignore_exists_Inr: "ignore_exists fs r = Inr fs' \<Longrightarrow> fs' = fs \<or> r = Inr fs'"
  by (cases "(fs, r)" rule: ignore_exists.cases) (auto split: if_splits)

lemma makedirs_isdir: "makedirs pr True p fs = Inr fs' \<Longrightarrow> p \<noteq> [] \<Longrightarrow> isdir fs' p"
proof -
  assume m: "makedirs pr True p fs = Inr fs'" and "p \<noteq> []"
  then obtain w rp where p: "rev p = w # rp" by (cases "rev p") auto
  then have pe: "rev rp @ [w] = p" by (metis rev_rev_ident rev.simps(2))
  from m obtain fs1 where
    "(case mkdir pr p 511 fs1 of Inr fs'' \<Rightarrow> Inr fs''
       | Inl e \<Rightarrow> (if True \<and> isdir fs1 p then Inr fs1 else Inl e)) = Inr fs'"
    by (auto simp only: makedirs_def p makedirs_rev.simps pe)
  then show ?thesis
    by (auto simp: mkdir_Inr isdir_def follow_def split: sum.splits if_splits)
qed

text \<open>On a path whose parent exists, \<open>os.makedirs\<close> is a single \<open>os.mkdir\<close> with
  mode 0o777, or nothing when the path is already a directory and \<open>exist_ok\<close>.\<close>

lemma makedirs_single:
  assumes "p \<noteq> []" and "butlast p = [] \<or> exists fs (butlast p)"
  shows "makedirs pr ok p fs =
           (case mkdir pr p 511 fs of Inr fs' \<Rightarrow> Inr fs'
            | Inl e \<Rightarrow> (if ok \<and> isdir fs p then Inr fs else Inl e))"
proof -
  obtain w rp where p: "rev p = w # rp" using assms(1) by (cases "rev p") auto
  then have pe: "rev rp @ [w] = p" by (metis rev_rev_ident rev.simps(2))
  then have "butlast p = rev rp" by auto
  then have c: "(rp \<noteq> [] \<and> \<not> exists fs (rev rp)) = False" using assms(2) by auto
  have "makedirs pr ok p fs = makedirs_rev pr ok (w # rp) fs" by (simp only: makedirs_def p)
  also have "\<dots> = (case mkdir pr (rev rp @ [w]) 511 fs of Inr fs' \<Rightarrow> Inr fs'
                    | Inl e \<Rightarrow> (if ok \<and> isdir fs (rev rp @ [w]) then Inr fs else Inl e))"
    by (simp only: makedirs_rev.simps c if_False rbind_Inr)
  finally show ?thesis by (simp only: pe)
qed

lemma symlink_keeps_dirs [fs_frame]: "symlink pr t p fs = Inr fs' \<Longrightarrow> keeps_dirs fs fs'"
  by (auto simp: symlink_def rbind_eq_Inr split: if_splits)

lemma unlink_keeps_dirs [fs_frame]: "unlink pr p fs = Inr fs' \<Longrightarrow> keeps_dirs fs fs'"
  by (auto simp: unlink_def keeps_dirs_def rbind_eq_Inr split: option.splits inode.splits)

lemma open_w_Inr:
  "open_w pr p fs = Inr (q, fs') \<Longrightarrow>
     q = follow fs p \<and> (\<exists>a. map_of fs' q = Some (File a [])) \<and> keeps_dirs fs fs' \<and>
     (\<forall>k. k \<noteq> q \<longrightarrow> map_of fs' k = map_of fs k)"
  by (auto simp: open_w_def keeps_dirs_def Let_def rbind_eq_Inr split: option.splits inode.splits if_splits)

lemma fwrite_File:
  "map_of fs q = Some (File a s) \<Longrightarrow> map_of (fwrite q text fs) = (map_of fs)(q \<mapsto> File a (s @ text))"
  by (simp add: fwrite_def)

lemma write_file_Inr:
  "write_file pr p text fs = Inr fs' \<Longrightarrow>
     (\<exists>a. map_of fs' (follow fs p) = Some (File a text)) \<and> keeps_dirs fs fs' \<and>
     (\<forall>k. k \<noteq> follow fs p \<longrightarrow> map_of fs' k = map_of fs k)"
  by (auto simp: write_file_def rbind_eq_Inr fwrite_File keeps_dirs_def dest!: open_w_Inr)

lemma write_file_keeps_dirs [fs_frame]: "write_file pr p text fs = Inr fs' \<Longrightarrow> keeps_dirs fs fs'"
  by (simp add: write_file_Inr)

lemma chmod_File_keeps_dirs:
  "chmod pr p m fs = Inr fs' \<Longrightarrow> map_of fs (follow fs p) = Some (File a s) \<Longrightarrow> keeps_dirs fs fs'"
  by (auto simp: chmod_def keeps_dirs_def split: if_splits)

lemma copy2_Inr:
  "copy2 pr src dst fs = Inr fs' \<Longrightarrow>
     \<exists>a text fs1. map_of fs (follow fs src) = Some (File a text) \<and>
       write_file pr (if isdir fs dst \<and> src \<noteq> [] then dst @ [last src] else dst) text fs = Inr fs1 \<and>
       chmod pr (if isdir fs dst \<and> src \<noteq> [] then dst @ [last src] else dst) (mode a) fs1 = Inr fs'"
  by (auto simp: copy2_def Let_def rbind_eq_Inr split: option.splits inode.splits if_splits)

lemma write_file_follow:
  assumes "write_file pr d text fs = Inr fs1"
  shows "follow fs1 d = follow fs d"
proof (cases "follow fs d = d")
  case True
  then show ?thesis using write_file_Inr [OF assms] by (auto simp: follow_def)
next
  case False
  then have "map_of fs1 d = map_of fs d"
    using write_file_Inr [OF assms] by auto
  then show ?thesis by (simp add: follow_def)
qed

lemma copy2_keeps_dirs [fs_frame]: "copy2 pr src dst fs = Inr fs' \<Longrightarrow> keeps_dirs fs fs'"
proof -
  assume "copy2 pr src dst fs = Inr fs'"
  then obtain a cnt fs1 d where w: "write_file pr d cnt fs = Inr fs1" and m: "chmod pr d (mode (a :: attrs)) fs1 = Inr fs'"
    by (blast dest: copy2_Inr)
  from w obtain b where f: "map_of fs1 (follow fs1 d) = Some (File b cnt)"
    by (auto simp: write_file_follow dest!: write_file_Inr)
  have "keeps_dirs fs fs1" using w by (rule write_file_keeps_dirs)
  also have "keeps_dirs fs1 fs'" using m f by (rule chmod_File_keeps_dirs)
  finally show ?thesis .
qed

subsection \<open>Growing calls\<close>

lemma grows_refl [simp]: "grows fs fs"
  by (simp add: grows_def)

lemma grows_trans [trans]: "grows fs1 fs2 \<Longrightarrow> grows fs2 fs3 \<Longrightarrow> grows fs1 fs3"
  unfolding grows_def by (metis option.distinct(1))

lemma grows_keeps_dirs: "grows fs fs' \<Longrightarrow> keeps_dirs fs fs'"
  unfolding grows_def keeps_dirs_def by (metis option.distinct(1))

lemma grows_Some: "grows fs fs' \<Longrightarrow> map_of fs q = Some n \<Longrightarrow> map_of fs' q = Some n"
  unfolding grows_def by (metis option.distinct(1))

lemma grows_no_links: "grows fs fs' \<Longrightarrow> no_links fs r \<Longrightarrow> no_links fs' r"
  unfolding no_links_iff grows_def by (metis inode.distinct(3) option.inject)

lemma mkdir_grows: "mkdir pr p m fs = Inr fs' \<Longrightarrow> grows fs fs'"
  by (auto simp: mkdir_Inr grows_def)

lemma makedirs_rev_grows: "makedirs_rev pr ok rp fs = Inr fs' \<Longrightarrow> grows fs fs'"
proof (induction rp arbitrary: fs fs')
  case Nil
  then show ?case by (simp split: if_splits)
next
  case (Cons w rp)
  from Cons.prems obtain fs1 where
    first: "(if rp \<noteq> [] \<and> \<not> exists fs (rev rp) then ignore_exists fs (makedirs_rev pr ok rp fs)
             else Inr fs) = Inr fs1" and
    last: "(case mkdir pr (rev rp @ [w]) 511 fs1 of Inr fs'' \<Rightarrow> Inr fs''
             | Inl e \<Rightarrow> (if ok \<and> isdir fs1 (rev rp @ [w]) then Inr fs1 else Inl e)) = Inr fs'"
    by (auto simp only: makedirs_rev.simps)
  have "grows fs fs1"
    using first Cons.IH by (auto split: if_splits dest!: ignore_exists_Inr)
  also have "grows fs1 fs'"
    using last by (auto split: sum.splits if_splits intro: mkdir_grows)
  finally show ?case .
qed

lemma makedirs_grows: "makedirs pr ok p fs = Inr fs' \<Longrightarrow> grows fs fs'"
  by (simp add: makedirs_def makedirs_rev_grows)

lemma makedirs_keeps_dirs [fs_frame]: "makedirs pr ok p fs = Inr fs' \<Longrightarrow> keeps_dirs fs fs'"
  by (simp add: makedirs_grows grows_keeps_dirs)

subsection \<open>Calls on a directory\<close>

lemma lstat_Dir:
  "map_of fs p = Some (Dir a) \<Longrightarrow> lstat fs p = Inr \<lparr>st_mode = 16384 + mode a, st_uid = uid a, st_gid = gid a\<rparr>"
  by (simp add: lstat_def)

lemma chmod_Dir:
  "map_of fs p = Some (Dir a) \<Longrightarrow>
     chmod pr p m fs = (if p_uid pr = 0 \<or> p_uid pr = uid a
                        then Inr (AList.update p (Dir (a\<lparr>mode := m mod 4096\<rparr>)) fs)
                        else Inl (OSError ''EPERM'' p))"
  by (simp add: chmod_def)

lemma chown_Dir:
  "map_of fs p = Some (Dir a) \<Longrightarrow>
     chown pr p u g fs = (if p_uid pr = 0 \<or> (p_uid pr = uid a \<and> u = uid a \<and> (g = gid a \<or> g = p_gid pr))
                          then Inr (AList.update p (Dir (a\<lparr>uid := u, gid := g\<rparr>)) fs)
                          else Inl (OSError ''EPERM'' p))"
  by (simp add: chown_def)

lemma rmtree_Inr:
  "rmtree pr p fs = Inr fs' \<Longrightarrow>
     (\<exists>a. map_of fs p = Some (Dir a)) \<and> parent_ok pr fs p = Inr () \<and>
     fs' = filter (\<lambda>(q, n). \<not> prefix p q) fs"
  by (auto simp: rmtree_def split: option.splits inode.splits if_splits)

lemma parent_ok_Inr: "parent_ok pr fs p = Inr () \<Longrightarrow> \<exists>b. map_of fs (butlast p) = Some (Dir b)"
  by (auto simp: parent_ok_def split: option.splits inode.splits if_splits)

lemma fwrite_keeps_dirs [fs_frame]: "keeps_dirs fs (fwrite q text fs)"
  by (auto simp: fwrite_def keeps_dirs_def split: option.splits inode.splits)

lemma unlink_Inl: "unlink pr p fs = Inl e \<Longrightarrow> \<exists>x y. e = OSError x y"
  by (auto simp: unlink_def parent_ok_def split: option.splits inode.splits if_splits)

lemma prefix_incomparable:
  "\<not> prefix x p \<Longrightarrow> \<not> prefix p x \<Longrightarrow> prefix p q \<Longrightarrow> \<not> prefix x q"
  using prefix_same_cases by blast

subsection \<open>Calls that neither add nor remove directories\<close>

lemma same_dirs_refl [simp]: "same_dirs fs fs"
  by (simp add: same_dirs_def)

lemma same_dirs_trans [trans]: "same_dirs fs1 fs2 \<Longrightarrow> same_dirs fs2 fs3 \<Longrightarrow> same_dirs fs1 fs3"
  by (simp add: same_dirs_def)

lemma same_dirs_keeps_dirs: "same_dirs fs fs' \<Longrightarrow> keeps_dirs fs fs'"
  by (simp add: same_dirs_def keeps_dirs_def)

lemma same_dirs_update_File [intro]:
  "(\<And>a. map_of fs q \<noteq> Some (Dir a)) \<Longrightarrow> same_dirs fs (AList.update q (File b s) fs)"
  by (auto simp: same_dirs_def)

lemma open_w_same_dirs: "open_w pr p fs = Inr (q, fs') \<Longrightarrow> same_dirs fs fs'"
  by (auto simp: open_w_def Let_def rbind_eq_Inr split: option.splits inode.splits if_splits)

lemma fwrite_same_dirs: "same_dirs fs (fwrite q text fs)"
  by (auto simp: fwrite_def split: option.splits inode.splits)

lemma unlink_same_dirs: "unlink pr p fs = Inr fs' \<Longrightarrow> same_dirs fs fs'"
  by (auto simp: unlink_def same_dirs_def rbind_eq_Inr split: option.splits inode.splits if_splits)

lemma isdir_no_link: "isdir fs p \<Longrightarrow> follow fs p = p \<Longrightarrow> \<exists>a. map_of fs p = Some (Dir a)"
  by (auto simp: isdir_def split: option.splits inode.splits)

lemma no_links_update_Dir: "no_links fs r \<Longrightarrow> no_links (AList.update p (Dir a) fs) r"
  by (simp add: no_links_iff)

subsection \<open>Where calls add directories\<close>

lemma adds_dirs_in_trans:
  "adds_dirs_in fs1 fs2 P \<Longrightarrow> adds_dirs_in fs2 fs3 Q \<Longrightarrow> adds_dirs_in fs1 fs3 (\<lambda>q. P q \<or> Q q)"
  unfolding adds_dirs_in_def by blast

lemma adds_dirs_in_mono:
  "adds_dirs_in fs fs' P \<Longrightarrow> (\<And>q. P q \<Longrightarrow> Q q) \<Longrightarrow> adds_dirs_in fs fs' Q"
  unfolding adds_dirs_in_def by blast

lemma same_dirs_adds_none: "same_dirs fs fs' \<Longrightarrow> adds_dirs_in fs fs' P"
  by (auto simp: same_dirs_def adds_dirs_in_def)

lemma mkdir_adds: "mkdir pr p m fs = Inr fs' \<Longrightarrow> adds_dirs_in fs fs' (\<lambda>q. q = p)"
  by (auto simp: mkdir_Inr adds_dirs_in_def)

lemma makedirs_rev_adds: "makedirs_rev pr ok rp fs = Inr fs' \<Longrightarrow> adds_dirs_in fs fs' (\<lambda>q. prefix q (rev rp))"
proof (induction rp arbitrary: fs fs')
  case Nil
  then show ?case by (auto simp: adds_dirs_in_def split: if_splits)
next
  case (Cons w rp)
  from Cons.prems obtain fs1 where
    first: "(if rp \<noteq> [] \<and> \<not> exists fs (rev rp) then ignore_exists fs (makedirs_rev pr ok rp fs)
             else Inr fs) = Inr fs1" and
    last: "(case mkdir pr (rev rp @ [w]) 511 fs1 of Inr fs'' \<Rightarrow> Inr fs''
             | Inl e \<Rightarrow> (if ok \<and> isdir fs1 (rev rp @ [w]) then Inr fs1 else Inl e)) = Inr fs'"
    by (auto simp only: makedirs_rev.simps)
  have "adds_dirs_in fs fs1 (\<lambda>q. prefix q (rev rp))"
  proof (cases "rp \<noteq> [] \<and> \<not> exists fs (rev rp)")
    case True
    with first have "ignore_exists fs (makedirs_rev pr ok rp fs) = Inr fs1" by simp
    then have "fs1 = fs \<or> makedirs_rev pr ok rp fs = Inr fs1" by (rule ignore_exists_Inr)
    then show ?thesis
    proof
      assume "fs1 = fs"
      then show ?thesis by (simp add: adds_dirs_in_def)
    next
      assume "makedirs_rev pr ok rp fs = Inr fs1"
      then show ?thesis by (rule Cons.IH)
    qed
  next
    case False
    with first show ?thesis by (simp add: adds_dirs_in_def)
  qed
  moreover have "adds_dirs_in fs1 fs' (\<lambda>q. q = rev rp @ [w])"
  proof (cases "mkdir pr (rev rp @ [w]) 511 fs1")
    case (Inl e)
    with last have "fs' = fs1" by (simp split: if_splits)
    then show ?thesis by (simp add: adds_dirs_in_def)
  next
    case (Inr f)
    with last have "mkdir pr (rev rp @ [w]) 511 fs1 = Inr fs'" by simp
    then show ?thesis by (rule mkdir_adds)
  qed
  ultimately have "adds_dirs_in fs fs' (\<lambda>q. prefix q (rev rp) \<or> q = rev rp @ [w])"
    by (rule adds_dirs_in_trans)
  then show ?case by (rule adds_dirs_in_mono) auto
qed

lemma makedirs_adds: "makedirs pr ok p fs = Inr fs' \<Longrightarrow> adds_dirs_in fs fs' (\<lambda>q. prefix q p)"
  using makedirs_rev_adds [of pr ok "rev p" fs fs'] by (simp add: makedirs_def)

lemma chmod_adds_none: "chmod pr p m fs = Inr fs' \<Longrightarrow> adds_dirs_in fs fs' P"
  by (auto simp: chmod_def adds_dirs_in_def Let_def split: option.splits inode.splits if_splits)

lemma symlink_adds_none: "symlink pr t p fs = Inr fs' \<Longrightarrow> adds_dirs_in fs fs' P"
  by (auto simp: symlink_def adds_dirs_in_def rbind_eq_Inr split: if_splits)

lemma write_file_same_dirs: "write_file pr p text fs = Inr fs' \<Longrightarrow> same_dirs fs fs'"
  by (auto simp: write_file_def elim!: rbind_InrE split: prod.splits
           intro: same_dirs_trans open_w_same_dirs fwrite_same_dirs)

lemma copy2_adds_none: "copy2 pr src dst fs = Inr fs' \<Longrightarrow> adds_dirs_in fs fs' P"
proof -
  assume "copy2 pr src dst fs = Inr fs'"
  then obtain a cnt fs1 d where w: "write_file pr d cnt fs = Inr fs1" and m: "chmod pr d (mode (a :: attrs)) fs1 = Inr fs'"
    by (blast dest: copy2_Inr)
  have "adds_dirs_in fs fs1 P" using w by (blast intro: same_dirs_adds_none write_file_same_dirs)
  moreover have "adds_dirs_in fs1 fs' P" using m by (rule chmod_adds_none)
  ultimately show ?thesis using adds_dirs_in_trans adds_dirs_in_mono by blast
qed


end
