(* ===== verification/Bootstrap.thy ===== *)
theory Bootstrap
  imports Fs Image_Config
begin

text \<open>
  \<open>ImageGenerator.prepare\<close> and \<open>ImageGenerator.cleanup\<close>
  (\<open>src/image-gen/lib/boltlinux/osimage/generator.py\<close>, lines 203--239 and
  270--292) with their helpers \<open>_copy_qemu_to_sysroot\<close> (323--371) and
  \<open>_write_config_files\<close> (373--395), on the filesystem of theory \<open>Fs\<close>. A root is
  given as the string the caller passes; \<open>os.path.realpath\<close> resolves it with
  \<open>follow\<close>, and \<open>sysroot + dirname\<close> is the string the calls parse with \<open>comps\<close>.
  \<open>Platform.find_executable\<close> and \<open>Subprocess.run\<close> (the \<open>opkg update\<close> run) are
  services of the host, fields of \<open>boot_host\<close>.
\<close>

record boot_host =
  find_executable :: "string \<Rightarrow> string option"                    \<comment> \<open>\<open>Platform.find_executable\<close>\<close>
  run_cmd :: "string \<Rightarrow> string \<Rightarrow> string list \<Rightarrow> fs \<Rightarrow> fs result"  \<comment> \<open>\<open>Subprocess.run\<close>\<close>

section \<open>Constants of the class\<close>

definition dirs_to_create :: "(nat \<times> string) list" where
  "dirs_to_create =
     [(493, ''/dev''), (493, ''/etc''), (493, ''/etc/opkg''), (493, ''/etc/opkg/usign''),
      (493, ''/proc''), (493, ''/run''), (493, ''/sys''), (1023, ''/tmp''), (493, ''/usr''),
      (493, ''/usr/bin''), (493, ''/var'')]"

definition dirs_to_clean :: "string list" where
  "dirs_to_clean = [''/tmp'', ''/var/tmp'']"

text \<open>The \<open>prefix_map\<close> of \<open>_copy_qemu_to_sysroot\<close>, in its order.\<close>

definition qemu_prefix_map :: "(string \<times> string) list" where
  "qemu_prefix_map =
     [(''aarch64'', ''qemu-aarch64-static''), (''arm'', ''qemu-arm-static''),
      (''mips64el'', ''qemu-mips64el-static''), (''mipsel'', ''qemu-mipsel-static''),
      (''powerpc64el'', ''qemu-ppc64le-static''), (''powerpc64le'', ''qemu-ppc64le-static''),
      (''ppc64le'', ''qemu-ppc64le-static''), (''powerpc'', ''qemu-ppc-static''),
      (''riscv64'', ''qemu-riscv64-static''), (''s390x'', ''qemu-s390x-static'')]"

section \<open>prepare\<close>

text \<open>One pass of the loop over \<open>DIRS_TO_CREATE\<close>: \<open>os.makedirs(full_path,
  exist_ok=True)\<close> and \<open>os.chmod(full_path, mode)\<close>.\<close>

definition create_dir :: "proc \<Rightarrow> string \<Rightarrow> nat \<times> string \<Rightarrow> fs \<Rightarrow> fs result" where
  "create_dir pr root md fs =
     (case md of (m, d) \<Rightarrow>
        rbind (makedirs pr True (comps (root @ d)) fs) (\<lambda>fs'. chmod pr (comps (root @ d)) m fs'))"

fun create_dirs :: "proc \<Rightarrow> string \<Rightarrow> (nat \<times> string) list \<Rightarrow> fs \<Rightarrow> fs result" where
  "create_dirs pr root [] fs = Inr fs"
| "create_dirs pr root (md # mds) fs = rbind (create_dir pr root md fs) (create_dirs pr root mds)"

definition var_run_link :: "proc \<Rightarrow> string \<Rightarrow> fs \<Rightarrow> fs result" where
  "var_run_link pr root fs =
     (let p = comps (root @ ''/var/run'') in
      if \<not> exists fs p then symlink pr ''../run'' p fs else Inr fs)"

text \<open>The first entry of \<open>prefix_map\<close> whose key the architecture starts with.\<close>

definition qemu_binary :: "string \<Rightarrow> string option" where
  "qemu_binary arch = map_option snd (find (\<lambda>(pfx, b). startswith arch pfx) qemu_prefix_map)"

definition copy_qemu_to_sysroot :: "image_generator \<Rightarrow> boot_host \<Rightarrow> proc \<Rightarrow> string \<Rightarrow> fs \<Rightarrow> fs result" where
  "copy_qemu_to_sysroot g bh pr root fs =
     (case qemu_binary (g_arch g) of
        None \<Rightarrow> Inr fs
      | Some b \<Rightarrow>
          (case find_executable bh b of
             None \<Rightarrow> Inl (GeneratorError (''could not find QEMU executable \"'' @ b @ ''\".''))
           | Some exe \<Rightarrow>
               (let target_dir = dirname (py_join root (lstrip_slash exe)) in
                rbind (if \<not> exists fs (comps target_dir) then makedirs pr True (comps target_dir) fs
                       else Inr fs)
                  (\<lambda>fs'. copy2 pr (comps exe) (comps target_dir) fs'))))"

text \<open>\<open>_write_config_files\<close>: each file is opened (\<open>"w+"\<close>) before its template is
  rendered, and the rendered text is written to the opened file.\<close>

fun write_config_files :: "image_generator \<Rightarrow> proc \<Rightarrow> string \<Rightarrow> (string \<times> seg list) list \<Rightarrow> fs \<Rightarrow> fs result" where
  "write_config_files g pr root [] fs = Inr fs"
| "write_config_files g pr root ((f, t) # cs) fs =
     rbind (open_w pr (comps (root @ f)) fs) (\<lambda>(q, fs').
       rbind (format_template t (g_context g)) (\<lambda>text.
         write_config_files g pr root cs (fwrite q text fs')))"

fun copy_files :: "proc \<Rightarrow> string \<Rightarrow> string list \<Rightarrow> fs \<Rightarrow> fs result" where
  "copy_files pr root [] fs = Inr fs"
| "copy_files pr root (f # files) fs = rbind (copy2 pr (comps f) (comps (root @ f)) fs) (copy_files pr root files)"

text \<open>\<open>prepare\<close> up to the package manager run, and \<open>prepare\<close> itself.\<close>

definition no_such_directory :: "string \<Rightarrow> error" where
  "no_such_directory s = GeneratorError (''no such directory: '' @ s)"

definition prepare_stage :: "image_generator \<Rightarrow> boot_host \<Rightarrow> proc \<Rightarrow> fs \<Rightarrow> string \<Rightarrow> fs result" where
  "prepare_stage g bh pr fs sysroot =
     (if \<not> isdir fs (comps sysroot) then Inl (no_such_directory sysroot)
      else
        (let root = realpath fs sysroot in
         rbind (create_dirs pr root dirs_to_create fs) (\<lambda>fs1.
         rbind (var_run_link pr root fs1) (\<lambda>fs2.
         rbind (if g_copy_qemu g then copy_qemu_to_sysroot g bh pr root fs2 else Inr fs2) (\<lambda>fs3.
         rbind (write_config_files g pr root config_files fs3) (\<lambda>fs4.
         copy_files pr root [''/etc/hosts'', ''/etc/resolv.conf''] fs4))))))"

definition opkg_update_cmd :: "string \<Rightarrow> string list" where
  "opkg_update_cmd root = [''opkg'', ''--offline-root'', root, ''update'']"

definition prepare :: "image_generator \<Rightarrow> boot_host \<Rightarrow> proc \<Rightarrow> fs \<Rightarrow> string \<Rightarrow> fs result" where
  "prepare g bh pr fs sysroot =
     rbind (prepare_stage g bh pr fs sysroot) (\<lambda>fs'.
       let root = realpath fs sysroot in run_cmd bh root ''opkg'' (opkg_update_cmd root) fs')"

section \<open>cleanup\<close>

text \<open>\<open>try: os.unlink(...) except OSError: pass\<close>.\<close>

definition try_unlink :: "proc \<Rightarrow> path \<Rightarrow> fs \<Rightarrow> fs result" where
  "try_unlink pr p fs =
     (case unlink pr p fs of
        Inl (OSError e q) \<Rightarrow> Inr fs
      | Inl e \<Rightarrow> Inl e
      | Inr fs' \<Rightarrow> Inr fs')"

text \<open>One pass of the loop over \<open>DIRS_TO_CLEAN\<close>.\<close>

definition clean_dir :: "proc \<Rightarrow> string \<Rightarrow> string \<Rightarrow> fs \<Rightarrow> fs result" where
  "clean_dir pr root d fs =
     (let p = comps (root @ d) in
      rbind (lstat fs p) (\<lambda>st.
      rbind (rmtree pr p fs) (\<lambda>fs1.
      rbind (makedirs pr False p fs1) (\<lambda>fs2.
      rbind (chown pr p (st_uid st) (st_gid st) fs2) (\<lambda>fs3.
      chmod pr p (st_mode st) fs3)))))"

fun clean_dirs :: "proc \<Rightarrow> string \<Rightarrow> string list \<Rightarrow> fs \<Rightarrow> fs result" where
  "clean_dirs pr root [] fs = Inr fs"
| "clean_dirs pr root (d # ds) fs = rbind (clean_dir pr root d fs) (clean_dirs pr root ds)"

definition cleanup :: "image_generator \<Rightarrow> proc \<Rightarrow> fs \<Rightarrow> string \<Rightarrow> fs result" where
  "cleanup g pr fs sysroot =
     (if \<not> isdir fs (comps sysroot) then Inl (no_such_directory sysroot)
      else
        (let root = realpath fs sysroot in
         rbind (write_config_files g pr root config_files fs) (\<lambda>fs1.
         rbind (try_unlink pr (comps (root @ ''/etc/resolv.conf'')) fs1) (\<lambda>fs2.
         clean_dirs pr root dirs_to_clean fs2))))"

section \<open>Examples\<close>

text \<open>A root \<open>/srv/root\<close> whose \<open>/tmp\<close> belongs to user 1000 with mode 0o1777 and
  holds a file, and has no \<open>/var/tmp\<close>; a build running as user 1000.\<close>

definition demo_fs :: fs where
  "demo_fs =
     [([], Dir \<lparr>mode = 493, uid = 0, gid = 0\<rparr>),
      ([''srv''], Dir \<lparr>mode = 493, uid = 0, gid = 0\<rparr>),
      ([''srv'', ''root''], Dir \<lparr>mode = 493, uid = 1000, gid = 1000\<rparr>),
      ([''srv'', ''root'', ''tmp''], Dir \<lparr>mode = 1023, uid = 1000, gid = 1000\<rparr>),
      ([''srv'', ''root'', ''tmp'', ''junk''], File \<lparr>mode = 420, uid = 1000, gid = 1000\<rparr> ''x'')]"

definition demo_boot :: boot_host where
  "demo_boot = \<lparr>find_executable = (\<lambda>b. None), run_cmd = (\<lambda>root prog argv fs. Inr fs)\<rparr>"

definition demo_proc :: proc where
  "demo_proc = \<lparr>p_uid = 1000, p_gid = 1000, p_umask = 18\<rparr>"

section \<open>Lemmas\<close>

lemmas demo_path_simps = realpath_def follow_def comps_def path_str_def demo_fs_def

subsection \<open>prepare\<close>

text \<open>One pass of the directory loop on a root without links: the directory exists
  with the listed mode, the other entries are kept, and no link appears.\<close>

lemma create_dir_result:
  assumes "create_dir pr root (m, d) fs = Inr fs'" and "no_links fs (comps root)"
    and "comps (root @ d) = comps root @ w" and "w \<noteq> []"
  shows "no_links fs' (comps root) \<and>
         (\<exists>a. map_of fs' (comps (root @ d)) = Some (Dir a) \<and> mode a = m mod 4096) \<and>
         (\<forall>q n. q \<noteq> comps (root @ d) \<longrightarrow> map_of fs q = Some n \<longrightarrow> map_of fs' q = Some n)"
proof -
  let ?p = "comps (root @ d)"
  from assms(1) obtain fs1 where m: "makedirs pr True ?p fs = Inr fs1" and c: "chmod pr ?p m fs1 = Inr fs'"
    by (auto simp: create_dir_def elim!: rbind_InrE)
  have g: "grows fs fs1" using m by (rule makedirs_grows)
  then have nl: "no_links fs1 (comps root)" using assms(2) by (rule grows_no_links)
  have "?p \<noteq> []" using assms(3,4) by simp
  with m have "isdir fs1 ?p" by (rule makedirs_isdir)
  moreover have "follow fs1 ?p = ?p" using nl by (rule no_links_follow) (simp add: assms(3))
  ultimately obtain a where a: "map_of fs1 ?p = Some (Dir a)" by (blast dest: isdir_no_link)
  with c have fs': "fs' = AList.update ?p (Dir (a\<lparr>mode := m mod 4096\<rparr>)) fs1"
    by (simp add: chmod_Dir split: if_splits)
  show ?thesis
    using nl g by (auto simp: fs' no_links_update_Dir dest: grows_Some)
qed

lemma create_dirs_result:
  assumes "create_dirs pr root ds fs = Inr fs'" and "no_links fs (comps root)"
    and "\<forall>(m, d)\<in>set ds. \<exists>w. comps (root @ d) = comps root @ w \<and> w \<noteq> []"
    and "distinct (map (\<lambda>(m, d). comps (root @ d)) ds)"
  shows "no_links fs' (comps root) \<and>
         (\<forall>(m, d)\<in>set ds. \<exists>a. map_of fs' (comps (root @ d)) = Some (Dir a) \<and> mode a = m mod 4096) \<and>
         (\<forall>q n. q \<notin> set (map (\<lambda>(m, d). comps (root @ d)) ds) \<longrightarrow> map_of fs q = Some n \<longrightarrow> map_of fs' q = Some n)"
  using assms
proof (induction ds arbitrary: fs)
  case Nil
  then show ?case by simp
next
  case (Cons md ds)
  obtain m d where md: "md = (m, d)" by (cases md)
  from Cons.prems(1) obtain fs1 where c1: "create_dir pr root (m, d) fs = Inr fs1"
    and cs: "create_dirs pr root ds fs1 = Inr fs'"
    by (auto simp: md elim!: rbind_InrE)
  from Cons.prems(3) obtain w where w: "comps (root @ d) = comps root @ w" "w \<noteq> []" by (auto simp: md)
  note r1 = create_dir_result [OF c1 Cons.prems(2) w]
  have IH: "no_links fs' (comps root) \<and>
         (\<forall>(m, d)\<in>set ds. \<exists>a. map_of fs' (comps (root @ d)) = Some (Dir a) \<and> mode a = m mod 4096) \<and>
         (\<forall>q n. q \<notin> set (map (\<lambda>(m, d). comps (root @ d)) ds) \<longrightarrow> map_of fs1 q = Some n \<longrightarrow> map_of fs' q = Some n)"
    using Cons.IH [OF cs] r1 Cons.prems(3,4) by simp
  have notin: "comps (root @ d) \<notin> set (map (\<lambda>(m, d). comps (root @ d)) ds)"
    using Cons.prems(4) by (simp add: md)
  from r1 IH notin show ?case by (auto simp: md)
qed

lemma var_run_link_keeps_dirs [fs_frame]: "var_run_link pr root fs = Inr fs' \<Longrightarrow> keeps_dirs fs fs'"
  by (auto simp: var_run_link_def Let_def split: if_splits intro: symlink_keeps_dirs)

lemma copy_qemu_keeps_dirs [fs_frame]: "copy_qemu_to_sysroot g bh pr root fs = Inr fs' \<Longrightarrow> keeps_dirs fs fs'"
  by (auto simp: copy_qemu_to_sysroot_def Let_def split: option.splits if_splits elim!: rbind_InrE
           intro: keeps_dirs_trans makedirs_keeps_dirs copy2_keeps_dirs)

lemma copy_files_keeps_dirs [fs_frame]: "copy_files pr root files fs = Inr fs' \<Longrightarrow> keeps_dirs fs fs'"
  by (induction files arbitrary: fs) (auto elim!: rbind_InrE intro: keeps_dirs_trans copy2_keeps_dirs)

text \<open>The directories of \<open>DIRS_TO_CREATE\<close> lie strictly below the root, at distinct
  paths.\<close>

lemma dirs_to_create_paths:
  "(\<forall>(m, d)\<in>set dirs_to_create. \<exists>w. comps (root @ d) = comps root @ w \<and> w \<noteq> []) \<and>
   distinct (map (\<lambda>(m, d). comps (root @ d)) dirs_to_create)"
  by (simp add: dirs_to_create_def comps_slash) (simp add: comps_def)

lemma dirs_to_create_modes: "(m, d) \<in> set dirs_to_create \<Longrightarrow> m mod 4096 = m"
  by (auto simp: dirs_to_create_def)

lemma create_dir_adds:
  assumes "create_dir pr root (m, d) fs = Inr fs'"
  shows "adds_dirs_in fs fs' (\<lambda>q. prefix q (comps (root @ d)))"
proof -
  from assms obtain fs1 where mk: "makedirs pr True (comps (root @ d)) fs = Inr fs1"
    and c: "chmod pr (comps (root @ d)) m fs1 = Inr fs'"
    by (auto simp: create_dir_def elim!: rbind_InrE)
  from makedirs_adds [OF mk] chmod_adds_none [OF c]
  have "adds_dirs_in fs fs' (\<lambda>q. prefix q (comps (root @ d)) \<or> False)" by (rule adds_dirs_in_trans)
  then show ?thesis by (rule adds_dirs_in_mono) simp
qed

lemma create_dirs_adds:
  "create_dirs pr root ds fs = Inr fs' \<Longrightarrow>
     adds_dirs_in fs fs' (\<lambda>q. \<exists>(m, d)\<in>set ds. prefix q (comps (root @ d)))"
proof (induction ds arbitrary: fs)
  case Nil
  then show ?case by (simp add: adds_dirs_in_def)
next
  case (Cons md ds)
  obtain m d where md: "md = (m, d)" by (cases md)
  from Cons.prems obtain fs1 where c1: "create_dir pr root (m, d) fs = Inr fs1"
    and cs: "create_dirs pr root ds fs1 = Inr fs'"
    by (auto simp: md elim!: rbind_InrE)
  from create_dir_adds [OF c1] Cons.IH [OF cs]
  have "adds_dirs_in fs fs' (\<lambda>q. prefix q (comps (root @ d)) \<or> (\<exists>(m, d)\<in>set ds. prefix q (comps (root @ d))))"
    by (rule adds_dirs_in_trans)
  then show ?case by (rule adds_dirs_in_mono) (auto simp: md)
qed

lemma var_run_link_adds_none:
  assumes "var_run_link pr root fs = Inr fs'"
  shows "adds_dirs_in fs fs' P"
proof (cases "exists fs (comps (root @ ''/var/run''))")
  case True
  with assms show ?thesis by (simp add: var_run_link_def adds_dirs_in_def)
next
  case False
  with assms have "symlink pr ''../run'' (comps (root @ ''/var/run'')) fs = Inr fs'"
    by (simp add: var_run_link_def)
  then show ?thesis by (rule symlink_adds_none)
qed

lemma copy_files_adds_none: "copy_files pr root files fs = Inr fs' \<Longrightarrow> adds_dirs_in fs fs' P"
proof (induction files arbitrary: fs)
  case Nil
  then show ?case by (simp add: adds_dirs_in_def)
next
  case (Cons f files)
  from Cons.prems obtain fs1 where c: "copy2 pr (comps f) (comps (root @ f)) fs = Inr fs1"
    and r: "copy_files pr root files fs1 = Inr fs'"
    by (auto elim!: rbind_InrE)
  from copy2_adds_none [OF c] Cons.IH [OF r] have "adds_dirs_in fs fs' (\<lambda>q. P q \<or> P q)"
    by (rule adds_dirs_in_trans)
  then show ?case by (rule adds_dirs_in_mono) simp
qed


subsection \<open>cleanup\<close>

lemma makedirs_Nil_False [simp]: "makedirs pr False [] fs = Inl (OSError ''EEXIST'' [])"
  by (simp add: makedirs_def)

lemma not_prefix_butlast: "p \<noteq> [] \<Longrightarrow> \<not> prefix p (butlast p)"
proof
  assume "p \<noteq> []" and "prefix p (butlast p)"
  then have "length p \<le> length (butlast p)" using prefix_length_le by blast
  moreover have "length (butlast p) < length p" using \<open>p \<noteq> []\<close> by simp
  ultimately show False by linarith
qed

text \<open>\<open>st_mode\<close> read back into \<open>chmod\<close>: the file type bits fall away.\<close>

lemma type_bits_mod [simp]: "(type_bits n + m) mod 4096 = m mod 4096"
proof -
  have "type_bits n = (type_bits n div 4096) * 4096" by (cases n) simp_all
  then have "type_bits n + m = m + (type_bits n div 4096) * 4096" by simp
  then show ?thesis by (simp only: mod_mult_self1)
qed

lemma attrs_mode_self [simp]: "a\<lparr>mode := mode a\<rparr> = a"
  by (cases a) simp

lemma attrs_mode_update: "a\<lparr>mode := m\<rparr> = \<lparr>mode = m, uid = uid a, gid = gid a\<rparr>"
  by (cases a) simp

text \<open>One pass of the cleaning loop leaves the directory as it was, mode bits reduced to
  the twelve \<open>chmod\<close> keeps, with nothing below it, and every entry outside it as it was.\<close>

lemma clean_dir_result:
  assumes "clean_dir pr root d fs = Inr fs'"
  shows "\<exists>a. map_of fs (comps (root @ d)) = Some (Dir a) \<and>
           map_of fs' = (\<lambda>q. if q = comps (root @ d) then Some (Dir (a\<lparr>mode := mode a mod 4096\<rparr>))
                             else if prefix (comps (root @ d)) q then None else map_of fs q)"
proof -
  define p where "p = comps (root @ d)"
  from assms obtain st fs1 fs2 fs3 where
    l: "lstat fs p = Inr st" and r: "rmtree pr p fs = Inr fs1" and m: "makedirs pr False p fs1 = Inr fs2"
    and o: "chown pr p (st_uid st) (st_gid st) fs2 = Inr fs3" and c: "chmod pr p (st_mode st) fs3 = Inr fs'"
    unfolding clean_dir_def p_def Let_def by (elim rbind_InrE) blast
  from r obtain a where a: "map_of fs p = Some (Dir a)" and par: "parent_ok pr fs p = Inr ()"
    and fs1: "fs1 = filter (\<lambda>(q, n). \<not> prefix p q) fs"
    by (blast dest: rmtree_Inr)
  from l a have st: "st = \<lparr>st_mode = 16384 + mode a, st_uid = uid a, st_gid = gid a\<rparr>"
    by (simp add: lstat_Dir)
  have "p \<noteq> []" using m by auto
  from par obtain b where "map_of fs (butlast p) = Some (Dir b)" by (blast dest: parent_ok_Inr)
  with \<open>p \<noteq> []\<close> have "map_of fs1 (butlast p) = Some (Dir b)"
    by (simp add: fs1 not_prefix_butlast)
  with \<open>p \<noteq> []\<close> m have "mkdir pr p 511 fs1 = Inr fs2"
    by (simp add: makedirs_single split: sum.splits)
  then have fs2: "fs2 = AList.update p (Dir \<lparr>mode = (511 AND 1023) - (511 AND 1023 AND p_umask pr),
                                             uid = p_uid pr, gid = p_gid pr\<rparr>) fs1"
    by (simp add: mkdir_Inr)
  from o have fs3: "fs3 = AList.update p (Dir \<lparr>mode = (511 AND 1023) - (511 AND 1023 AND p_umask pr),
                                             uid = uid a, gid = gid a\<rparr>) fs2"
    by (simp add: fs2 st chown_Dir split: if_splits)
  from c have "fs' = AList.update p (Dir \<lparr>mode = (type_bits (Dir a) + mode a) mod 4096, uid = uid a, gid = gid a\<rparr>) fs3"
    by (simp add: fs3 st chmod_Dir split: if_splits)
  then have "map_of fs' = (\<lambda>q. if q = p then Some (Dir (a\<lparr>mode := mode a mod 4096\<rparr>))
                                 else if prefix p q then None else map_of fs q)"
    by (auto simp: fs3 fs2 fs1 fun_eq_iff attrs_mode_update simp del: type_bits.simps)
  with a show ?thesis by (auto simp: p_def)
qed

lemma clean_dir_frame:
  "clean_dir pr root d fs = Inr fs' \<Longrightarrow> \<not> prefix (comps (root @ d)) q \<Longrightarrow> map_of fs' q = map_of fs q"
  by (drule clean_dir_result) auto

lemma clean_dirs_frame:
  "clean_dirs pr root ds fs = Inr fs' \<Longrightarrow> \<forall>d\<in>set ds. \<not> prefix (comps (root @ d)) q \<Longrightarrow>
     map_of fs' q = map_of fs q"
  by (induction ds arbitrary: fs) (auto elim!: rbind_InrE dest: clean_dir_frame)

text \<open>The cleaning loop on directories none of which lies below another: each of them
  ends as it was, with nothing below it.\<close>

lemma clean_dirs_result:
  assumes "clean_dirs pr root ds fs = Inr fs'"
    and "p \<in> (\<lambda>d. comps (root @ d)) ` set ds"
    and "\<forall>d\<in>set ds. comps (root @ d) = p \<or> (\<not> prefix (comps (root @ d)) p \<and> \<not> prefix p (comps (root @ d)))"
    and "map_of fs p = Some (Dir a)"
  shows "map_of fs' p = Some (Dir (a\<lparr>mode := mode a mod 4096\<rparr>)) \<and> (\<forall>q. below p q \<longrightarrow> map_of fs' q = None)"
  using assms
proof (induction ds arbitrary: fs a)
  case Nil
  then show ?case by simp
next
  case (Cons d0 ds)
  from Cons.prems(1) obtain fs1 where c0: "clean_dir pr root d0 fs = Inr fs1"
    and cs: "clean_dirs pr root ds fs1 = Inr fs'"
    by (auto elim!: rbind_InrE)
  show ?case
  proof (cases "comps (root @ d0) = p")
    case True
    with c0 Cons.prems(4) have fs1: "map_of fs1 = (\<lambda>q. if q = p then Some (Dir (a\<lparr>mode := mode a mod 4096\<rparr>))
                                                   else if prefix p q then None else map_of fs q)"
      by (auto dest!: clean_dir_result)
    show ?thesis
    proof (cases "p \<in> (\<lambda>d. comps (root @ d)) ` set ds")
      case True
      with Cons.IH [OF cs] Cons.prems(3) fs1 show ?thesis by (simp add: below_def)
    next
      case False
      have inc: "\<forall>d\<in>set ds. \<not> prefix (comps (root @ d)) p \<and> \<not> prefix p (comps (root @ d))"
      proof
        fix d assume "d \<in> set ds"
        with False have "comps (root @ d) \<noteq> p" by blast
        with \<open>d \<in> set ds\<close> Cons.prems(3) show "\<not> prefix (comps (root @ d)) p \<and> \<not> prefix p (comps (root @ d))"
          by auto
      qed
      have "map_of fs' q = map_of fs1 q" if "prefix p q" for q
        using clean_dirs_frame [OF cs] inc that prefix_incomparable by blast
      then show ?thesis using fs1 by (simp add: below_def)
    qed
  next
    case False
    with Cons.prems(3) have "\<not> prefix (comps (root @ d0)) p" by auto
    with c0 Cons.prems(4) have "map_of fs1 p = Some (Dir a)" by (simp add: clean_dir_frame)
    moreover have "p \<in> (\<lambda>d. comps (root @ d)) ` set ds" using Cons.prems(2) False by auto
    ultimately show ?thesis using Cons.IH [OF cs] Cons.prems(3) by simp
  qed
qed

lemma write_config_files_keeps_dirs [fs_frame]:
  "write_config_files g pr root cs fs = Inr fs' \<Longrightarrow> keeps_dirs fs fs'"
proof (induction cs arbitrary: fs)
  case (Cons c cs)
  obtain f t where c: "c = (f, t)" by (cases c)
  from Cons.prems obtain q fs1 str where o: "open_w pr (comps (root @ f)) fs = Inr (q, fs1)"
    and w: "write_config_files g pr root cs (fwrite q str fs1) = Inr fs'"
    by (auto simp: c elim!: rbind_InrE split: prod.splits)
  have "keeps_dirs fs fs1" using o by (blast dest: open_w_Inr)
  also have "keeps_dirs fs1 (fwrite q str fs1)" by (rule fwrite_keeps_dirs)
  also have "keeps_dirs (fwrite q str fs1) fs'" by (rule Cons.IH [OF w])
  finally show ?case .
qed simp

lemma try_unlink_Inr: "\<exists>fs'. try_unlink pr p fs = Inr fs' \<and> keeps_dirs fs fs'"
  by (auto simp: try_unlink_def dest: unlink_Inl unlink_keeps_dirs split: sum.splits error.splits)

lemma write_config_files_same_dirs:
  "write_config_files g pr root cs fs = Inr fs' \<Longrightarrow> same_dirs fs fs'"
proof (induction cs arbitrary: fs)
  case (Cons c cs)
  obtain f t where c: "c = (f, t)" by (cases c)
  from Cons.prems obtain q fs1 str where o: "open_w pr (comps (root @ f)) fs = Inr (q, fs1)"
    and w: "write_config_files g pr root cs (fwrite q str fs1) = Inr fs'"
    by (auto simp: c elim!: rbind_InrE split: prod.splits)
  have "same_dirs fs fs1" using o by (rule open_w_same_dirs)
  also have "same_dirs fs1 (fwrite q str fs1)" by (rule fwrite_same_dirs)
  also have "same_dirs (fwrite q str fs1) fs'" by (rule Cons.IH [OF w])
  finally show ?case .
qed simp

lemma try_unlink_same_dirs: "try_unlink pr p fs = Inr fs' \<Longrightarrow> same_dirs fs fs'"
  by (auto simp: try_unlink_def dest: unlink_same_dirs split: sum.splits error.splits)

lemma clean_dirs_needs_dirs:
  assumes "clean_dirs pr root ds fs = Inr fs'"
    and "p \<in> (\<lambda>d. comps (root @ d)) ` set ds"
    and "\<forall>d\<in>set ds. comps (root @ d) = p \<or> \<not> prefix (comps (root @ d)) p"
  shows "\<exists>a. map_of fs p = Some (Dir a)"
  using assms
proof (induction ds arbitrary: fs)
  case (Cons d0 ds)
  from Cons.prems(1) obtain fs1 where c0: "clean_dir pr root d0 fs = Inr fs1"
    and cs: "clean_dirs pr root ds fs1 = Inr fs'"
    by (auto elim!: rbind_InrE)
  show ?case
  proof (cases "comps (root @ d0) = p")
    case True
    with c0 show ?thesis by (auto dest!: clean_dir_result)
  next
    case False
    with Cons.prems(3) c0 have "map_of fs1 p = map_of fs p" by (simp add: clean_dir_frame)
    with Cons.IH [OF cs] Cons.prems(2,3) False show ?thesis by auto
  qed
qed simp

text \<open>The scratch directories of the root \<open>root\<close>: \<open>root/tmp\<close> and \<open>root/var/tmp\<close>;
  neither lies below the other.\<close>

lemma scratch_paths:
  "map (\<lambda>d. comps (root @ d)) dirs_to_clean = [comps root @ [''tmp''], comps root @ [''var'', ''tmp'']]"
  by (simp add: dirs_to_clean_def comps_slash) (simp add: comps_def)

lemma scratch_paths_incomparable:
  "d \<in> set dirs_to_clean \<Longrightarrow> d' \<in> set dirs_to_clean \<Longrightarrow>
     comps (root @ d') = comps (root @ d) \<or>
     (\<not> prefix (comps (root @ d')) (comps (root @ d)) \<and> \<not> prefix (comps (root @ d)) (comps (root @ d')))"
  using scratch_paths [of root] by (auto simp: dirs_to_clean_def)

section \<open>Properties\<close>

text \<open>Without QEMU staging, \<open>prepare\<close> adds directories only on the paths of
  \<open>DIRS_TO_CREATE\<close>, and a root that is a directory stays one.\<close>

lemma prepare_stage_adds:
  assumes "prepare_stage g bh pr fs sysroot = Inr fs'" and "\<not> g_copy_qemu g"
  shows "adds_dirs_in fs fs' (\<lambda>q. \<exists>(m, d)\<in>set dirs_to_create. prefix q (comps (realpath fs sysroot @ d)))"
proof -
  let ?root = "realpath fs sysroot"
  from assms obtain fs1 fs2 fs4 where c: "create_dirs pr ?root dirs_to_create fs = Inr fs1"
    and v: "var_run_link pr ?root fs1 = Inr fs2"
    and w: "write_config_files g pr ?root config_files fs2 = Inr fs4"
    and f: "copy_files pr ?root [''/etc/hosts'', ''/etc/resolv.conf''] fs4 = Inr fs'"
    unfolding prepare_stage_def Let_def by (auto elim!: rbind_InrE split: if_splits)
  let ?P = "\<lambda>q. \<exists>(m, d)\<in>set dirs_to_create. prefix q (comps (?root @ d))"
  have "adds_dirs_in fs1 fs2 ?P"
    using v by (rule var_run_link_adds_none)
  with create_dirs_adds [OF c] have "adds_dirs_in fs fs2 (\<lambda>q. ?P q \<or> ?P q)"
    by (rule adds_dirs_in_trans)
  moreover have "adds_dirs_in fs2 fs4 ?P"
    using write_config_files_same_dirs [OF w] by (rule same_dirs_adds_none)
  ultimately have "adds_dirs_in fs fs4 (\<lambda>q. (?P q \<or> ?P q) \<or> ?P q)"
    by (rule adds_dirs_in_trans)
  moreover have "adds_dirs_in fs4 fs' ?P"
    using f by (rule copy_files_adds_none)
  ultimately have "adds_dirs_in fs fs' (\<lambda>q. ((?P q \<or> ?P q) \<or> ?P q) \<or> ?P q)"
    by (rule adds_dirs_in_trans)
  then show ?thesis by (rule adds_dirs_in_mono) blast
qed

text \<open>A directory stays a directory through \<open>prepare\<close> on a root without links.\<close>

lemma prepare_stage_keeps_dir:
  assumes "prepare_stage g bh pr fs sysroot = Inr fs'" and "no_links fs (comps (realpath fs sysroot))"
    and "map_of fs q = Some (Dir a)"
  shows "\<exists>b. map_of fs' q = Some (Dir b)"
proof -
  let ?root = "realpath fs sysroot"
  from assms(1) obtain fs1 fs2 fs3 fs4 where c: "create_dirs pr ?root dirs_to_create fs = Inr fs1"
    and v: "var_run_link pr ?root fs1 = Inr fs2"
    and qm: "(if g_copy_qemu g then copy_qemu_to_sysroot g bh pr ?root fs2 else Inr fs2) = Inr fs3"
    and w: "write_config_files g pr ?root config_files fs3 = Inr fs4"
    and f: "copy_files pr ?root [''/etc/hosts'', ''/etc/resolv.conf''] fs4 = Inr fs'"
    unfolding prepare_stage_def Let_def by (auto elim!: rbind_InrE split: if_splits)
  from create_dirs_result [OF c assms(2)] dirs_to_create_paths assms(3)
  obtain b where b: "map_of fs1 q = Some (Dir b)"
    by (cases "q \<in> set (map (\<lambda>(m, d). comps (?root @ d)) dirs_to_create)") fastforce+
  have "keeps_dirs fs1 fs2" using v by (rule var_run_link_keeps_dirs)
  also have "keeps_dirs fs2 fs3" using qm by (auto split: if_splits intro: copy_qemu_keeps_dirs)
  also have "keeps_dirs fs3 fs4" using w by (rule write_config_files_keeps_dirs)
  also have "keeps_dirs fs4 fs'" using f by (rule copy_files_keeps_dirs)
  finally show ?thesis using b by (blast dest: keeps_dirsD)
qed

lemma realpath_Dir:
  "map_of fs (comps s) = Some (Dir a) \<Longrightarrow> map_of fs' (comps s) = Some (Dir b) \<Longrightarrow> realpath fs' s = realpath fs s"
  by (simp add: realpath_def)

lemma var_tmp_not_created: "\<not> (\<exists>(m, d)\<in>set dirs_to_create. prefix (comps (root @ ''/var/tmp'')) (comps (root @ d)))"
  by (simp add: dirs_to_create_def comps_slash) (simp add: comps_def)

lemma cleanup_Inr:
  "cleanup g pr fs sysroot = Inr fs' \<Longrightarrow>
     \<exists>fs1 fs2. write_config_files g pr (realpath fs sysroot) config_files fs = Inr fs1 \<and>
       try_unlink pr (comps (realpath fs sysroot @ ''/etc/resolv.conf'')) fs1 = Inr fs2 \<and>
       clean_dirs pr (realpath fs sysroot) dirs_to_clean fs2 = Inr fs'"
  unfolding cleanup_def Let_def by (auto elim!: rbind_InrE split: if_splits)

text \<open>A successful \<open>cleanup\<close> found each scratch directory a directory.\<close>

lemma cleanup_Inr_scratch_dir:
  assumes "cleanup g pr fs sysroot = Inr fs'" and "d \<in> set dirs_to_clean"
  shows "\<exists>a. map_of fs (comps (realpath fs sysroot @ d)) = Some (Dir a)"
proof -
  let ?root = "realpath fs sysroot"
  from cleanup_Inr [OF assms(1)] obtain fs1 fs2 where w: "write_config_files g pr ?root config_files fs = Inr fs1"
    and u: "try_unlink pr (comps (?root @ ''/etc/resolv.conf'')) fs1 = Inr fs2"
    and c: "clean_dirs pr ?root dirs_to_clean fs2 = Inr fs'"
    by blast
  have sd: "same_dirs fs fs2"
    using write_config_files_same_dirs [OF w] try_unlink_same_dirs [OF u] by (rule same_dirs_trans)
  have mem: "comps (?root @ d) \<in> (\<lambda>d. comps (?root @ d)) ` set dirs_to_clean" using assms(2) by blast
  have inc: "\<forall>d'\<in>set dirs_to_clean. comps (?root @ d') = comps (?root @ d) \<or> \<not> prefix (comps (?root @ d')) (comps (?root @ d))"
    using assms(2) scratch_paths_incomparable by blast
  obtain a where "map_of fs2 (comps (?root @ d)) = Some (Dir a)"
    using clean_dirs_needs_dirs [OF c mem inc] by blast
  with sd show ?thesis by (auto simp: same_dirs_def)
qed

text \<open>C11: \<open>cleanup\<close> fails on every root one of whose scratch directories is not a
  directory: nothing it does before creates one, and \<open>os.lstat\<close> or
  \<open>shutil.rmtree\<close> raises there. \<open>prepare\<close> never creates \<open>/var/tmp\<close>.\<close>

theorem cleanup_requires_scratch_dirs:
  assumes "d \<in> set dirs_to_clean"
    and "case map_of fs (comps (realpath fs sysroot @ d)) of Some (Dir a) \<Rightarrow> False | _ \<Rightarrow> True"
  shows "\<exists>e. cleanup g pr fs sysroot = Inl e"
  using assms cleanup_Inr_scratch_dir [of g pr fs sysroot _ d]
  by (cases "cleanup g pr fs sysroot") auto

theorem cleanup_requires_scratch_dirs_witness:
  "\<exists>e. cleanup demo_generator demo_proc demo_fs ''/srv/root'' = Inl e"
  by (rule cleanup_requires_scratch_dirs [of "''/var/tmp''"]) (simp_all add: dirs_to_clean_def demo_path_simps)

end
