(* ===== verification/Fs_Root.thy ===== *)
theory Fs_Root
  imports Fs
begin

text \<open>
  The filesystem calls of theory \<open>Fs\<close> made by a process of user 0: they fail only on
  the shape of the tree. Each call succeeds whenever the parent is a directory and the
  target has the right kind, and its result is given as the updated association list,
  so that a sequence of calls can be followed step by step.
\<close>

section \<open>Lemmas\<close>

subsection \<open>Calls of a root process\<close>

text \<open>A process of user 0 may write every directory, so its calls fail only on the
  shape of the tree.\<close>

lemma may_write_root [simp]: "p_uid pr = 0 \<Longrightarrow> may_write pr a"
  by (simp add: may_write_def)

lemma parent_ok_root: "p_uid pr = 0 \<Longrightarrow> map_of fs (butlast p) = Some (Dir b) \<Longrightarrow> parent_ok pr fs p = Inr ()"
  by (simp add: parent_ok_def)

lemma rmtree_root:
  "p_uid pr = 0 \<Longrightarrow> map_of fs p = Some (Dir a) \<Longrightarrow> map_of fs (butlast p) = Some (Dir b) \<Longrightarrow>
     rmtree pr p fs = Inr (filter (\<lambda>(q, n). \<not> prefix p q) fs)"
  by (simp add: rmtree_def parent_ok_root list_all_iff split: inode.split)

lemma open_w_root:
  assumes "p_uid pr = 0" and "p \<noteq> []" and "map_of fs (butlast p) = Some (Dir b)"
    and "\<And>a. map_of fs p \<noteq> Some (Dir a)" and "\<And>a t. map_of fs p \<noteq> Some (Symlink a t)"
  shows "\<exists>fs'. open_w pr p fs = Inr (p, fs')"
  using assms by (auto simp: open_w_def parent_ok_root split: option.split inode.split)

lemma no_links_update_File: "no_links fs r \<Longrightarrow> no_links (AList.update p (File a s) fs) r"
  by (simp add: no_links_iff)

lemma open_w_no_links: "open_w pr p fs = Inr (q, fs') \<Longrightarrow> no_links fs r \<Longrightarrow> no_links fs' r"
  by (auto simp: open_w_def Let_def rbind_eq_Inr no_links_update_File split: option.splits inode.splits if_splits)

lemma fwrite_no_links: "no_links fs r \<Longrightarrow> no_links (fwrite q text fs) r"
  by (simp add: fwrite_def no_links_update_File split: option.split inode.split)

lemma isdir_same_dirs:
  assumes "same_dirs fs fs'" and "follow fs p = p" and "follow fs' p = p"
  shows "isdir fs' p = isdir fs p"
proof -
  have d: "isdir x p \<longleftrightarrow> (\<exists>a. map_of x p = Some (Dir a))" if "follow x p = p" for x
    using that by (auto simp: isdir_def split: option.splits inode.splits)
  show ?thesis using assms(1) by (simp add: d assms(2,3) same_dirs_def)
qed

subsection \<open>Calls on a fresh path\<close>

lemma makedirs_fresh:
  assumes "p_uid pr = 0" and "p \<noteq> []" and "map_of fs p = None" and "map_of fs (butlast p) = Some (Dir b)"
  shows "makedirs pr ok p fs =
           Inr (AList.update p (Dir \<lparr>mode = (511 AND 1023) - (511 AND 1023 AND p_umask pr),
                                    uid = p_uid pr, gid = p_gid pr\<rparr>) fs)"
proof -
  have "mkdir pr p 511 fs = Inr (AList.update p (Dir \<lparr>mode = (511 AND 1023) - (511 AND 1023 AND p_umask pr),
                                    uid = p_uid pr, gid = p_gid pr\<rparr>) fs)"
    using assms by (simp add: mkdir_Inr parent_ok_root)
  moreover have "butlast p = [] \<or> exists fs (butlast p)" using assms(4) by simp
  ultimately show ?thesis using assms(2) by (simp add: makedirs_single)
qed

lemma chmod_Dir_root:
  "p_uid pr = 0 \<Longrightarrow> map_of fs p = Some (Dir a) \<Longrightarrow>
     chmod pr p m fs = Inr (AList.update p (Dir (a\<lparr>mode := m mod 4096\<rparr>)) fs)"
  by (simp add: chmod_Dir)

lemma symlink_fresh:
  "p_uid pr = 0 \<Longrightarrow> p \<noteq> [] \<Longrightarrow> map_of fs p = None \<Longrightarrow> map_of fs (butlast p) = Some (Dir b) \<Longrightarrow>
     symlink pr t p fs = Inr (AList.update p (Symlink \<lparr>mode = 511, uid = p_uid pr, gid = p_gid pr\<rparr> t) fs)"
  by (simp add: symlink_def parent_ok_root)

lemma open_w_fresh:
  "p_uid pr = 0 \<Longrightarrow> p \<noteq> [] \<Longrightarrow> map_of fs p = None \<Longrightarrow> map_of fs (butlast p) = Some (Dir b) \<Longrightarrow>
     open_w pr p fs =
       Inr (p, AList.update p (File \<lparr>mode = 438 - (438 AND p_umask pr), uid = p_uid pr, gid = p_gid pr\<rparr> []) fs)"
  by (simp add: open_w_def parent_ok_root)

lemma open_w_File_root:
  "p_uid pr = 0 \<Longrightarrow> map_of fs p = Some (File a s) \<Longrightarrow> open_w pr p fs = Inr (p, AList.update p (File a []) fs)"
  by (simp add: open_w_def)

lemma fwrite_File_update:
  "map_of fs q = Some (File a s) \<Longrightarrow> fwrite q text fs = AList.update q (File a (s @ text)) fs"
  by (simp add: fwrite_def)

lemma chmod_File_root:
  "p_uid pr = 0 \<Longrightarrow> map_of fs p = Some (File a s) \<Longrightarrow>
     chmod pr p m fs = Inr (AList.update p (File (a\<lparr>mode := m mod 4096\<rparr>) s) fs)"
  by (simp add: chmod_def)

end
