(* ===== verification/Bootstrap_Root.thy ===== *)
theory Bootstrap_Root
  imports Bootstrap Fs_Root
begin

text \<open>
  \<open>ImageGenerator.cleanup\<close> and \<open>prepare\<close> of theory \<open>Bootstrap\<close> seen as a whole,
  run by user 0: \<open>cleanup\<close> returns on every root of the right shape (C21), and
  \<open>prepare\<close> on every empty root (C22). On the example roots, where the calls return,
  the properties of both (C10, C17, C18).
\<close>

section \<open>Examples\<close>

text \<open>A root \<open>/srv/root\<close> with every directory \<open>cleanup\<close> needs, cleaned by a
  process of user 0.\<close>

definition full_fs :: fs where
  "full_fs =
     [([], Dir \<lparr>mode = 493, uid = 0, gid = 0\<rparr>),
      ([''srv''], Dir \<lparr>mode = 493, uid = 0, gid = 0\<rparr>),
      ([''srv'', ''root''], Dir \<lparr>mode = 493, uid = 0, gid = 0\<rparr>),
      ([''srv'', ''root'', ''etc''], Dir \<lparr>mode = 493, uid = 0, gid = 0\<rparr>),
      ([''srv'', ''root'', ''etc'', ''opkg''], Dir \<lparr>mode = 493, uid = 0, gid = 0\<rparr>),
      ([''srv'', ''root'', ''etc'', ''passwd''], File \<lparr>mode = 420, uid = 0, gid = 0\<rparr> ''root:x:0:0::/root:/bin/sh''),
      ([''srv'', ''root'', ''tmp''], Dir \<lparr>mode = 1023, uid = 0, gid = 0\<rparr>),
      ([''srv'', ''root'', ''tmp'', ''junk''], File \<lparr>mode = 420, uid = 1000, gid = 1000\<rparr> ''x''),
      ([''srv'', ''root'', ''var''], Dir \<lparr>mode = 493, uid = 0, gid = 0\<rparr>),
      ([''srv'', ''root'', ''var'', ''tmp''], Dir \<lparr>mode = 1023, uid = 0, gid = 0\<rparr>)]"

definition root_proc :: proc where
  "root_proc = \<lparr>p_uid = 0, p_gid = 0, p_umask = 18\<rparr>"

text \<open>An empty root \<open>/srv/root\<close> on a host with \<open>/etc/hosts\<close> and
  \<open>/etc/resolv.conf\<close>, and no \<open>/var/tmp\<close> anywhere.\<close>

definition empty_root_fs :: fs where
  "empty_root_fs =
     [([], Dir \<lparr>mode = 493, uid = 0, gid = 0\<rparr>),
      ([''etc''], Dir \<lparr>mode = 493, uid = 0, gid = 0\<rparr>),
      ([''etc'', ''hosts''], File \<lparr>mode = 420, uid = 0, gid = 0\<rparr> ''127.0.0.1 localhost''),
      ([''etc'', ''resolv.conf''], File \<lparr>mode = 420, uid = 0, gid = 0\<rparr> ''nameserver 10.0.0.1''),
      ([''srv''], Dir \<lparr>mode = 493, uid = 0, gid = 0\<rparr>),
      ([''srv'', ''root''], Dir \<lparr>mode = 493, uid = 0, gid = 0\<rparr>)]"

section \<open>Lemmas\<close>

subsection \<open>cleanup as user 0\<close>

text \<open>Each call of \<open>cleanup\<close> succeeds for a process of user 0 when the paths it
  works on have the right shape.\<close>

lemma prefix_butlast_self: "prefix (butlast xs) xs"
  by (simp add: butlast_conv_take take_is_prefix)

lemma realpath_comps:
  assumes "map_of fs (comps s) = Some (Dir a)"
  shows "comps (realpath fs s) = comps s"
proof (cases "comps s = []")
  case True
  have "comps [] = []" by (simp add: comps_def)
  with True assms show ?thesis by (simp add: realpath_def)
next
  case False
  with assms show ?thesis by (simp add: realpath_def comps_path_str wf_path_comps)
qed

lemma write_config_files_root:
  assumes "p_uid pr = 0" and "no_links fs r"
    and "\<forall>(f, t)\<in>set cs. prefix r (butlast (comps (root @ f))) \<and> comps (root @ f) \<noteq> [] \<and>
           isdir fs (butlast (comps (root @ f))) \<and> \<not> isdir fs (comps (root @ f)) \<and>
           (\<exists>s. format_template t (g_context g) = Inr s)"
  shows "\<exists>fs'. write_config_files g pr root cs fs = Inr fs'"
  using assms(2,3)
proof (induction cs arbitrary: fs)
  case (Cons c cs)
  obtain f t where c: "c = (f, t)" by (cases c)
  let ?p = "comps (root @ f)"
  from Cons.prems(2) c have pre: "prefix r (butlast ?p)" and ne: "?p \<noteq> []"
    and par: "isdir fs (butlast ?p)" and nd: "\<not> isdir fs ?p"
    and fmt: "\<exists>s. format_template t (g_context g) = Inr s" by auto
  have pp: "prefix r ?p" using pre prefix_butlast_self prefix_order.trans by blast
  have fb: "follow fs (butlast ?p) = butlast ?p" using Cons.prems(1) pre by (rule no_links_follow)
  obtain b where b: "map_of fs (butlast ?p) = Some (Dir b)" using isdir_no_link [OF par fb] by blast
  have nl: "\<And>a t. map_of fs ?p \<noteq> Some (Symlink a t)" using Cons.prems(1) pp by (simp add: no_links_iff)
  have ndir: "\<And>a. map_of fs ?p \<noteq> Some (Dir a)" using nd by auto
  obtain fs1 where o: "open_w pr ?p fs = Inr (?p, fs1)" using open_w_root [OF assms(1) ne b ndir nl] by blast
  obtain str where s: "format_template t (g_context g) = Inr str" using fmt by blast
  let ?fs2 = "fwrite ?p str fs1"
  have nl2: "no_links ?fs2 r" using open_w_no_links [OF o Cons.prems(1)] by (rule fwrite_no_links)
  have sd: "same_dirs fs ?fs2" using open_w_same_dirs [OF o] fwrite_same_dirs by (rule same_dirs_trans)
  have tr: "isdir ?fs2 x = isdir fs x" if "prefix r x" for x
    using isdir_same_dirs [OF sd] no_links_follow [OF Cons.prems(1) that] no_links_follow [OF nl2 that] by blast
  have "\<forall>(f, t)\<in>set cs. prefix r (butlast (comps (root @ f))) \<and> comps (root @ f) \<noteq> [] \<and>
           isdir ?fs2 (butlast (comps (root @ f))) \<and> \<not> isdir ?fs2 (comps (root @ f)) \<and>
           (\<exists>s. format_template t (g_context g) = Inr s)"
  proof (intro ballI, clarify)
    fix f' t' assume "(f', t') \<in> set cs"
    with Cons.prems(2) have h: "prefix r (butlast (comps (root @ f')))" "comps (root @ f') \<noteq> []"
      "isdir fs (butlast (comps (root @ f')))" "\<not> isdir fs (comps (root @ f'))"
      "\<exists>s. format_template t' (g_context g) = Inr s" by auto
    moreover have "prefix r (comps (root @ f'))" using h(1) prefix_butlast_self prefix_order.trans by blast
    ultimately show "prefix r (butlast (comps (root @ f'))) \<and> comps (root @ f') \<noteq> [] \<and>
           isdir ?fs2 (butlast (comps (root @ f'))) \<and> \<not> isdir ?fs2 (comps (root @ f')) \<and>
           (\<exists>s. format_template t' (g_context g) = Inr s)" by (simp add: tr)
  qed
  then obtain fs' where "write_config_files g pr root cs ?fs2 = Inr fs'" using Cons.IH [OF nl2] by blast
  then show ?case using o s by (simp add: c)
qed simp


lemma clean_dir_root:
  assumes "p_uid pr = 0" and "map_of fs (comps (root @ d)) = Some (Dir a)"
    and "map_of fs (butlast (comps (root @ d))) = Some (Dir b)" and "comps (root @ d) \<noteq> []"
  shows "\<exists>fs'. clean_dir pr root d fs = Inr fs'"
proof -
  define p where "p = comps (root @ d)"
  let ?fs1 = "filter (\<lambda>(q, n). \<not> prefix p q) fs"
  let ?A = "\<lparr>mode = (511 AND 1023) - (511 AND 1023 AND p_umask pr), uid = p_uid pr, gid = p_gid pr\<rparr>"
  have ne: "p \<noteq> []" using assms(4) by (simp add: p_def)
  have r: "rmtree pr p fs = Inr ?fs1" using assms(1-3) by (simp add: p_def rmtree_root)
  have b1: "map_of ?fs1 (butlast p) = Some (Dir b)" using assms(3) ne by (simp add: p_def not_prefix_butlast)
  have "mkdir pr p 511 ?fs1 = Inr (AList.update p (Dir ?A) ?fs1)"
    using ne b1 assms(1) by (simp add: mkdir_Inr parent_ok_root)
  then have m: "makedirs pr False p ?fs1 = Inr (AList.update p (Dir ?A) ?fs1)"
    using ne b1 by (simp add: makedirs_single)
  show ?thesis
    unfolding clean_dir_def Let_def p_def [symmetric]
    using assms(1,2) by (simp add: p_def [symmetric] lstat_Dir r m chown_Dir chmod_Dir)
qed

lemma clean_dirs_root:
  assumes "p_uid pr = 0" and rc: "\<And>t. comps (root @ CHR ''/'' # t) = r @ comps t"
    and "map_of fs r = Some (Dir a0)" and "map_of fs (r @ [''tmp'']) = Some (Dir a1)"
    and "map_of fs (r @ [''var'']) = Some (Dir a2)" and "map_of fs (r @ [''var'', ''tmp'']) = Some (Dir a3)"
  shows "\<exists>fs'. clean_dirs pr root dirs_to_clean fs = Inr fs'"
proof -
  have t: "comps (root @ ''/tmp'') = r @ [''tmp'']" and v: "comps (root @ ''/var/tmp'') = r @ [''var'', ''tmp'']"
    by (simp_all add: rc) (simp_all add: comps_def)
  obtain fs1 where c1: "clean_dir pr root ''/tmp'' fs = Inr fs1"
    using clean_dir_root [of pr fs root "''/tmp''"] assms(1,3,4) by (auto simp: t)
  have "map_of fs1 (r @ [''var'']) = Some (Dir a2)" and "map_of fs1 (r @ [''var'', ''tmp'']) = Some (Dir a3)"
    using clean_dir_frame [OF c1] assms(5,6) by (simp_all add: t)
  then obtain fs2 where c2: "clean_dir pr root ''/var/tmp'' fs1 = Inr fs2"
    using clean_dir_root [of pr fs1 root "''/var/tmp''"] assms(1) by (auto simp: v butlast_append)
  show ?thesis using c1 c2 by (simp add: dirs_to_clean_def)
qed

lemma config_templates_format:
  assumes "image_generator_init h release arch libc verify copy_qemu repo_base cache_dir = Inr g"
  shows "\<forall>(f, t)\<in>set config_files. \<exists>s. format_template t (g_context g) = Inr s"
  using image_generator_init_ok [OF assms]
  by (simp add: config_files_def opkg_arch_template_def opkg_options_template_def opkg_feeds_template_def)

lemma config_paths_comps:
  "comps ''etc/opkg/arch.conf'' = [''etc'', ''opkg'', ''arch.conf'']"
  "comps ''etc/opkg/options.conf'' = [''etc'', ''opkg'', ''options.conf'']"
  "comps ''etc/opkg/feeds.conf'' = [''etc'', ''opkg'', ''feeds.conf'']"
  "comps ''etc/passwd'' = [''etc'', ''passwd'']"
  "comps ''etc/group'' = [''etc'', ''group'']"
  "comps ''etc/hosts'' = [''etc'', ''hosts'']"
  by (simp_all add: comps_def)

lemma cleanup_root_ok:
  assumes "image_generator_init h release arch libc verify copy_qemu repo_base cache_dir = Inr g"
    and "p_uid pr = 0"
    and "map_of fs (comps sysroot) = Some (Dir a)" and "no_links fs (comps sysroot)"
    and "list_all (\<lambda>q. isdir fs (comps sysroot @ q)) [[''etc''], [''etc'', ''opkg''], [''tmp''], [''var''], [''var'', ''tmp'']]"
    and "list_all (\<lambda>(f, t). \<not> isdir fs (comps (sysroot @ f))) config_files"
  shows "\<exists>fs'. cleanup g pr fs sysroot = Inr fs'"
proof -
  let ?root = "realpath fs sysroot" and ?r = "comps sysroot"
  have rr: "comps ?root = ?r" using assms(3) by (rule realpath_comps)
  then have rc: "\<And>t. comps (?root @ CHR ''/'' # t) = ?r @ comps t" by (simp add: comps_slash)
  have dir: "\<exists>b. map_of fs (?r @ q) = Some (Dir b)" if "isdir fs (?r @ q)" for q
    using isdir_no_link [OF that no_links_follow [OF assms(4)]] by simp
  from assms(5) have e: "isdir fs (?r @ [''etc''])" and eo: "isdir fs (?r @ [''etc'', ''opkg''])"
    and tv: "isdir fs (?r @ [''tmp''])" "isdir fs (?r @ [''var''])" "isdir fs (?r @ [''var'', ''tmp''])"
    by simp_all
  have "\<forall>(f, t)\<in>set config_files. prefix ?r (butlast (comps (?root @ f))) \<and> comps (?root @ f) \<noteq> [] \<and>
           isdir fs (butlast (comps (?root @ f))) \<and> \<not> isdir fs (comps (?root @ f)) \<and>
           (\<exists>s. format_template t (g_context g) = Inr s)"
    using config_templates_format [OF assms(1)] assms(6) e eo
    by (simp add: config_files_def rr comps_slash config_paths_comps butlast_append)
  then obtain fs1 where w: "write_config_files g pr ?root config_files fs = Inr fs1"
    using write_config_files_root [OF assms(2,4)] by blast
  obtain fs2 where u: "try_unlink pr (comps (?root @ ''/etc/resolv.conf'')) fs1 = Inr fs2"
    and k2: "keeps_dirs fs1 fs2" using try_unlink_Inr by blast
  have k: "keeps_dirs fs fs2"
    using same_dirs_keeps_dirs [OF write_config_files_same_dirs [OF w]] k2 by (rule keeps_dirs_trans)
  have d2: "\<exists>b. map_of fs2 (?r @ q) = Some (Dir b)" if "isdir fs (?r @ q)" for q
    using dir [OF that] keeps_dirsD [OF k] by blast
  have "isdir fs (?r @ [])" using assms(3) by simp
  from d2 [OF this] d2 [OF tv(1)] d2 [OF tv(2)] d2 [OF tv(3)] obtain b0 b1 b2 b3
    where "map_of fs2 ?r = Some (Dir b0)" "map_of fs2 (?r @ [''tmp'']) = Some (Dir b1)"
      "map_of fs2 (?r @ [''var'']) = Some (Dir b2)" "map_of fs2 (?r @ [''var'', ''tmp'']) = Some (Dir b3)"
    by auto
  from clean_dirs_root [OF assms(2) rc this] obtain fs' where "clean_dirs pr ?root dirs_to_clean fs2 = Inr fs'"
    by blast
  then show ?thesis using assms(3) w u by (simp add: cleanup_def)
qed

text \<open>C21: \<open>cleanup\<close> run by user 0 returns on every root that is a directory without
  links below it and has \<open>/etc\<close>, \<open>/etc/opkg\<close>, \<open>/tmp\<close>, \<open>/var\<close> and \<open>/var/tmp\<close> as
  directories and none of the six configuration files as a directory, for every
  generator the constructor builds: its templates only use fields of the
  constructor's context, and the calls fail only on the shape of the tree.\<close>

theorem cleanup_root_succeeds:
  assumes "image_generator_init h release arch libc verify copy_qemu repo_base cache_dir = Inr g"
    and "p_uid pr = 0"
    and "map_of fs (comps sysroot) = Some (Dir a)" and "no_links fs (comps sysroot)"
    and "list_all (\<lambda>q. isdir fs (comps sysroot @ q)) [[''etc''], [''etc'', ''opkg''], [''tmp''], [''var''], [''var'', ''tmp'']]"
    and "list_all (\<lambda>(f, t). \<not> isdir fs (comps (sysroot @ f))) config_files"
  shows "\<exists>fs'. cleanup g pr fs sysroot = Inr fs'"
  using assms by (rule cleanup_root_ok)

theorem cleanup_root_succeeds_witness:
  "\<exists>fs'. cleanup demo_generator root_proc full_fs ''/srv/root'' = Inr fs'"
  by (rule cleanup_root_succeeds [of demo_host "''stable''" "''aarch64''" "''musl''" True False "[]" "[]"])
     (simp_all add: demo_generator_def image_generator_init_def Let_def py_or_def demo_host_def root_proc_def
                    full_fs_def config_files_def isdir_def follow_def no_links_def comps_def)

subsection \<open>prepare as user 0\<close>

text \<open>On an empty root, each call of \<open>prepare\<close> meets a fresh path whose parent the
  previous calls have made.\<close>

lemma update_twice: "AList.update k v (AList.update k v' al) = AList.update k v al"
  by (induction al) auto

lemma create_dir_fresh:
  assumes "p_uid pr = 0" and "comps (root @ d) \<noteq> []" and "map_of fs (comps (root @ d)) = None"
    and "map_of fs (butlast (comps (root @ d))) = Some (Dir b)"
  shows "create_dir pr root (m, d) fs =
           Inr (AList.update (comps (root @ d)) (Dir \<lparr>mode = m mod 4096, uid = p_uid pr, gid = p_gid pr\<rparr>) fs)"
  using assms by (simp add: create_dir_def makedirs_fresh chmod_Dir_root update_twice)

lemma var_run_link_fresh:
  assumes "p_uid pr = 0" and "comps (root @ ''/var/run'') \<noteq> []" and "map_of fs (comps (root @ ''/var/run'')) = None"
    and "map_of fs (butlast (comps (root @ ''/var/run''))) = Some (Dir b)"
  shows "var_run_link pr root fs =
           Inr (AList.update (comps (root @ ''/var/run'')) (Symlink \<lparr>mode = 511, uid = p_uid pr, gid = p_gid pr\<rparr> ''../run'') fs)"
  using assms by (simp add: var_run_link_def exists_def follow_def symlink_fresh)

lemma prepare_paths_comps:
  "comps ''dev'' = [''dev'']" "comps ''etc'' = [''etc'']" "comps ''etc/opkg'' = [''etc'', ''opkg'']"
  "comps ''etc/opkg/usign'' = [''etc'', ''opkg'', ''usign'']" "comps ''proc'' = [''proc'']"
  "comps ''run'' = [''run'']" "comps ''sys'' = [''sys'']" "comps ''tmp'' = [''tmp'']"
  "comps ''usr'' = [''usr'']" "comps ''usr/bin'' = [''usr'', ''bin'']" "comps ''var'' = [''var'']"
  "comps ''var/run'' = [''var'', ''run'']" "comps ''etc/resolv.conf'' = [''etc'', ''resolv.conf'']"
  by (simp_all add: comps_def)

lemma fwrite_update_File: "fwrite p text (AList.update p (File a s) fs) = AList.update p (File a (s @ text)) fs"
  by (simp add: fwrite_def update_conv' update_twice)

lemma copy2_fresh_root:
  assumes "p_uid pr = 0" and "map_of fs src = Some (File a t)" and "dst \<noteq> []" and "map_of fs dst = None"
    and "map_of fs (butlast dst) = Some (Dir b)"
  shows "copy2 pr src dst fs = Inr (AList.update dst (File \<lparr>mode = mode a mod 4096, uid = p_uid pr, gid = p_gid pr\<rparr> t) fs)"
proof -
  have "follow fs src = src" "follow fs dst = dst" "\<not> isdir fs dst" "dst \<noteq> src"
    using assms(2,4) by (auto simp: follow_def isdir_def)
  then show ?thesis
    using assms by (simp add: copy2_def write_file_def open_w_fresh fwrite_update_File update_conv' chmod_File_root update_twice)
qed

lemma copy2_onto_File_root:
  assumes "p_uid pr = 0" and "map_of fs src = Some (File a t)" and "dst \<noteq> src"
  shows "copy2 pr src dst (AList.update dst (File b s) fs) =
           Inr (AList.update dst (File (b\<lparr>mode := mode a mod 4096\<rparr>) t) fs)"
proof -
  let ?fs = "AList.update dst (File b s) fs"
  have "map_of ?fs src = Some (File a t)" "map_of ?fs dst = Some (File b s)"
    using assms(2,3) by (simp_all add: update_conv')
  moreover from this have "follow ?fs src = src" "follow ?fs dst = dst" "\<not> isdir ?fs dst"
    by (auto simp: follow_def isdir_def)
  ultimately show ?thesis
    using assms by (simp add: copy2_def write_file_def open_w_File_root fwrite_update_File update_conv' chmod_File_root update_twice)
qed

lemma prepare_stage_root_ok:
  assumes init: "image_generator_init h release arch libc verify False repo_base cache_dir = Inr g"
    and pr: "p_uid pr = 0" and root: "map_of fs (comps sysroot) = Some (Dir a)"
    and empty: "list_all (\<lambda>q. q = comps sysroot \<or> \<not> prefix (comps sysroot) q) (map fst fs)"
    and hosts: "map_of fs [''etc'', ''hosts''] = Some (File ah th)"
    and resolv: "map_of fs [''etc'', ''resolv.conf''] = Some (File ar tr)"
  shows "\<exists>fs'. prepare_stage g bh pr fs sysroot = Inr fs'"
proof -
  define R where "R = comps sysroot"
  have fresh: "map_of fs (R @ w) = None" if "w \<noteq> []" for w
    unfolding map_of_eq_None_iff
  proof
    assume "R @ w \<in> fst ` set fs"
    then obtain x where "x \<in> set fs" and x: "fst x = R @ w" by auto
    moreover from empty have "\<forall>q\<in>set fs. fst q = R \<or> \<not> prefix R (fst q)" by (simp add: list_all_iff R_def)
    ultimately have "fst x = R \<or> \<not> prefix R (fst x)" by blast
    with x that show False by simp
  qed
  have nh: "R @ w \<noteq> [''etc'', ''hosts'']" "R @ w \<noteq> [''etc'', ''resolv.conf'']" for w
    using fresh [of w] root hosts resolv by (cases "w = []"; force simp: R_def)+
  have Rne: "R \<noteq> []" using nh(1) [of "[''etc'', ''hosts'']"] by auto
  have ctx: "g_context g = [(''release'', release), (''libc'', libc), (''arch'', arch),
       (''host_arch'', host_machine h), (''machine'', arch), (''target_type'', target_for_machine h arch),
       (''opt_check_sig'', if verify then ''option check_signature'' else []),
       (''repo_base'', py_or repo_base default_repo_base)]" and nq: "\<not> g_copy_qemu g"
    using init by (auto simp: image_generator_init_def Let_def split: if_splits)
  have rc: "comps (realpath fs sysroot @ CHR ''/'' # t) = R @ comps t" for t
    by (simp add: comps_slash realpath_comps [OF root] R_def)
  have r: "map_of fs R = Some (Dir a)" using root by (simp add: R_def)
  show ?thesis
    unfolding prepare_stage_def Let_def
    using pr r fresh nh [symmetric] nh nq Rne
    by (simp add: root rc dirs_to_create_def prepare_paths_comps create_dir_fresh butlast_append
        var_run_link_fresh config_files_def config_paths_comps ctx opkg_arch_template_def
        opkg_options_template_def opkg_feeds_template_def open_w_fresh fwrite_update_File
        copy2_onto_File_root [where a = ah and t = th] copy2_fresh_root [where a = ar and t = tr] hosts resolv)
qed

lemma demo_generator_init:
  "image_generator_init demo_host ''stable'' ''aarch64'' ''musl'' True False [] [] = Inr demo_generator"
  by (simp add: demo_generator_def image_generator_init_def Let_def py_or_def demo_host_def)

lemmas empty_root_simps = realpath_def follow_def comps_def path_str_def empty_root_fs_def

lemma empty_root_prepare_ok:
  "\<exists>fs'. prepare_stage demo_generator demo_boot root_proc empty_root_fs ''/srv/root'' = Inr fs'"
  by (rule prepare_stage_root_ok [OF demo_generator_init])
     (simp_all add: root_proc_def empty_root_simps)

lemma full_fs_cleanup_ok: "\<exists>fs'. cleanup demo_generator root_proc full_fs ''/srv/root'' = Inr fs'"
  by (rule cleanup_root_ok [OF demo_generator_init])
     (simp_all add: root_proc_def full_fs_def config_files_def isdir_def follow_def no_links_def comps_def)

subsection \<open>Properties\<close>

text \<open>C22: \<open>prepare\<close> run by user 0 without QEMU staging returns, up to the package
  manager run, on every root that is an empty directory, when the host has
  \<open>/etc/hosts\<close> and \<open>/etc/resolv.conf\<close> as files: the loop over \<open>DIRS_TO_CREATE\<close> creates
  each directory below one it created before, the link \<open>/var/run\<close> and the six
  configuration files go into fresh paths of \<open>/var\<close> and \<open>/etc\<close>, and the two host
  files are copied over the written \<open>/etc/hosts\<close> and into a fresh
  \<open>/etc/resolv.conf\<close>.\<close>

theorem prepare_root_succeeds:
  assumes "image_generator_init h release arch libc verify False repo_base cache_dir = Inr g"
    and "p_uid pr = 0" and "map_of fs (comps sysroot) = Some (Dir a)"
    and "list_all (\<lambda>q. q = comps sysroot \<or> \<not> prefix (comps sysroot) q) (map fst fs)"
    and "map_of fs [''etc'', ''hosts''] = Some (File ah th)"
    and "map_of fs [''etc'', ''resolv.conf''] = Some (File ar tr)"
  shows "\<exists>fs'. prepare_stage g bh pr fs sysroot = Inr fs'"
  using assms by (rule prepare_stage_root_ok)

theorem prepare_root_succeeds_witness:
  "\<exists>fs'. prepare_stage demo_generator demo_boot root_proc empty_root_fs ''/srv/root'' = Inr fs'"
  by (rule prepare_root_succeeds [OF demo_generator_init]) (simp_all add: root_proc_def empty_root_simps)

text \<open>C10: \<open>cleanup\<close> keeps each scratch directory's ownership and mode exactly and
  leaves it empty: whenever it returns, \<open>/tmp\<close> and \<open>/var/tmp\<close> of the root are the
  directories they were, with nothing below them (spec: cleanup, ownership/mode
  round-trip).\<close>

theorem cleanup_restores_scratch_dirs:
  assumes "d \<in> set dirs_to_clean"
    and "map_of fs (comps (realpath fs sysroot @ d)) = Some (Dir a)" and "mode a < 4096"
  shows "case cleanup g pr fs sysroot of
           Inr fs' \<Rightarrow> map_of fs' (comps (realpath fs sysroot @ d)) = Some (Dir a) \<and>
                      (\<forall>q. below (comps (realpath fs sysroot @ d)) q \<longrightarrow> map_of fs' q = None)
         | Inl e \<Rightarrow> True"
proof (cases "cleanup g pr fs sysroot")
  case (Inr fs')
  let ?root = "realpath fs sysroot"
  from cleanup_Inr [OF Inr] obtain fs1 fs2 where w: "write_config_files g pr ?root config_files fs = Inr fs1"
    and u: "try_unlink pr (comps (?root @ ''/etc/resolv.conf'')) fs1 = Inr fs2"
    and c: "clean_dirs pr ?root dirs_to_clean fs2 = Inr fs'"
    by blast
  have "keeps_dirs fs fs2"
    using write_config_files_keeps_dirs [OF w] same_dirs_keeps_dirs [OF try_unlink_same_dirs [OF u]]
    by (rule keeps_dirs_trans)
  then have d: "map_of fs2 (comps (?root @ d)) = Some (Dir a)" using assms(2) by (rule keeps_dirsD)
  have mem: "comps (?root @ d) \<in> (\<lambda>d. comps (?root @ d)) ` set dirs_to_clean" using assms(1) by blast
  have inc: "\<forall>d'\<in>set dirs_to_clean. comps (?root @ d') = comps (?root @ d) \<or>
               (\<not> prefix (comps (?root @ d')) (comps (?root @ d)) \<and> \<not> prefix (comps (?root @ d)) (comps (?root @ d')))"
    using assms(1) scratch_paths_incomparable by blast
  have "map_of fs' (comps (?root @ d)) = Some (Dir (a\<lparr>mode := mode a mod 4096\<rparr>)) \<and>
        (\<forall>q. below (comps (?root @ d)) q \<longrightarrow> map_of fs' q = None)"
    by (rule clean_dirs_result [OF c mem inc d])
  with assms(3) show ?thesis by (simp add: Inr)
qed simp

theorem cleanup_restores_scratch_dirs_witness:
  "(\<exists>fs'. cleanup demo_generator root_proc full_fs ''/srv/root'' = Inr fs') \<and>
   (case cleanup demo_generator root_proc full_fs ''/srv/root'' of
      Inr fs' \<Rightarrow> map_of fs' (comps (realpath full_fs ''/srv/root'' @ ''/tmp'')) = Some (Dir \<lparr>mode = 1023, uid = 0, gid = 0\<rparr>)
    | Inl e \<Rightarrow> True)"
proof -
  have "case cleanup demo_generator root_proc full_fs ''/srv/root'' of
          Inr fs' \<Rightarrow> map_of fs' (comps (realpath full_fs ''/srv/root'' @ ''/tmp'')) = Some (Dir \<lparr>mode = 1023, uid = 0, gid = 0\<rparr>) \<and>
                     (\<forall>q. below (comps (realpath full_fs ''/srv/root'' @ ''/tmp'')) q \<longrightarrow> map_of fs' q = None)
        | Inl e \<Rightarrow> True"
    by (rule cleanup_restores_scratch_dirs) (simp_all add: dirs_to_clean_def realpath_def follow_def comps_def path_str_def full_fs_def)
  with full_fs_cleanup_ok show ?thesis by (auto split: sum.splits)
qed

text \<open>C17: \<open>prepare\<close> leaves every directory of \<open>DIRS_TO_CREATE\<close> with exactly its
  listed mode (0o1777 for \<open>/tmp\<close>, 0o755 for the others), whatever the umask, on a
  root without symbolic links, up to the package manager run.\<close>

theorem prepare_dir_modes:
  assumes "no_links fs (comps (realpath fs sysroot))" and "(m, d) \<in> set dirs_to_create"
  shows "case prepare_stage g bh pr fs sysroot of
           Inr fs' \<Rightarrow> \<exists>a. map_of fs' (comps (realpath fs sysroot @ d)) = Some (Dir a) \<and> mode a = m
         | Inl e \<Rightarrow> True"
proof (cases "prepare_stage g bh pr fs sysroot")
  case (Inr fs')
  let ?root = "realpath fs sysroot"
  from Inr obtain fs1 fs2 fs3 fs4 where c: "create_dirs pr ?root dirs_to_create fs = Inr fs1"
    and v: "var_run_link pr ?root fs1 = Inr fs2"
    and q: "(if g_copy_qemu g then copy_qemu_to_sysroot g bh pr ?root fs2 else Inr fs2) = Inr fs3"
    and w: "write_config_files g pr ?root config_files fs3 = Inr fs4"
    and f: "copy_files pr ?root [''/etc/hosts'', ''/etc/resolv.conf''] fs4 = Inr fs'"
    unfolding prepare_stage_def Let_def by (auto elim!: rbind_InrE split: if_splits)
  from create_dirs_result [OF c assms(1)] dirs_to_create_paths assms(2) dirs_to_create_modes [OF assms(2)]
  obtain a where a: "map_of fs1 (comps (?root @ d)) = Some (Dir a)" and "mode a = m"
    by fastforce
  have "keeps_dirs fs1 fs2" using v by (rule var_run_link_keeps_dirs)
  also have "keeps_dirs fs2 fs3" using q by (auto split: if_splits intro: copy_qemu_keeps_dirs)
  also have "keeps_dirs fs3 fs4" using w by (rule write_config_files_keeps_dirs)
  also have "keeps_dirs fs4 fs'" using f by (rule copy_files_keeps_dirs)
  finally have "map_of fs' (comps (?root @ d)) = Some (Dir a)" using a by (rule keeps_dirsD)
  with \<open>mode a = m\<close> show ?thesis by (simp add: Inr)
qed simp

theorem prepare_dir_modes_witness:
  "(\<exists>fs'. prepare_stage demo_generator demo_boot root_proc empty_root_fs ''/srv/root'' = Inr fs') \<and>
   (case prepare_stage demo_generator demo_boot root_proc empty_root_fs ''/srv/root'' of
      Inr fs' \<Rightarrow> \<exists>a. map_of fs' (comps (realpath empty_root_fs ''/srv/root'' @ ''/tmp'')) = Some (Dir a) \<and> mode a = 1023
    | Inl e \<Rightarrow> True)"
proof -
  have "case prepare_stage demo_generator demo_boot root_proc empty_root_fs ''/srv/root'' of
      Inr fs' \<Rightarrow> \<exists>a. map_of fs' (comps (realpath empty_root_fs ''/srv/root'' @ ''/tmp'')) = Some (Dir a) \<and> mode a = 1023
    | Inl e \<Rightarrow> True"
    by (rule prepare_dir_modes) (simp_all add: dirs_to_create_def empty_root_simps no_links_def)
  with empty_root_prepare_ok show ?thesis by blast
qed

text \<open>C18: \<open>cleanup\<close> right after \<open>prepare\<close> fails on every root that has no
  \<open>/var/tmp\<close> (and no links), when no QEMU binary is staged: \<open>prepare\<close> creates
  \<open>/var\<close> but never \<open>/var/tmp\<close>, which \<open>cleanup\<close> needs.\<close>

theorem cleanup_after_prepare_fails:
  assumes "\<not> g_copy_qemu g" and "no_links fs (comps (realpath fs sysroot))"
    and "case map_of fs (comps sysroot) of Some (Dir a) \<Rightarrow> True | _ \<Rightarrow> False"
    and "case map_of fs (comps (realpath fs sysroot @ ''/var/tmp'')) of Some (Dir a) \<Rightarrow> False | _ \<Rightarrow> True"
  shows "case prepare_stage g bh pr fs sysroot of
           Inr fs' \<Rightarrow> (\<exists>e. cleanup g pr fs' sysroot = Inl e)
         | Inl e \<Rightarrow> True"
proof (cases "prepare_stage g bh pr fs sysroot")
  case (Inr fs')
  let ?root = "realpath fs sysroot"
  from assms(3) obtain a0 where a0: "map_of fs (comps sysroot) = Some (Dir a0)"
    by (auto split: option.splits inode.splits)
  from prepare_stage_keeps_dir [OF Inr assms(2) a0] obtain b where "map_of fs' (comps sysroot) = Some (Dir b)"
    by blast
  with a0 have rp: "realpath fs' sysroot = ?root" by (rule realpath_Dir)
  have "\<not> (\<exists>a. map_of fs' (comps (?root @ ''/var/tmp'')) = Some (Dir a))"
  proof
    assume "\<exists>a. map_of fs' (comps (?root @ ''/var/tmp'')) = Some (Dir a)"
    with prepare_stage_adds [OF Inr assms(1)] var_tmp_not_created [of ?root]
    have "\<exists>a. map_of fs (comps (?root @ ''/var/tmp'')) = Some (Dir a)"
      by (auto simp: adds_dirs_in_def)
    with assms(4) show False by auto
  qed
  then have "\<not> (\<exists>fs''. cleanup g pr fs' sysroot = Inr fs'')"
    using cleanup_Inr_scratch_dir [of g pr fs' sysroot _ "''/var/tmp''"] rp by (auto simp: dirs_to_clean_def)
  then show ?thesis by (cases "cleanup g pr fs' sysroot") (auto simp: Inr)
qed simp

theorem cleanup_after_prepare_fails_witness:
  "(\<exists>fs'. prepare_stage demo_generator demo_boot root_proc empty_root_fs ''/srv/root'' = Inr fs') \<and>
   (case prepare_stage demo_generator demo_boot root_proc empty_root_fs ''/srv/root'' of
      Inr fs' \<Rightarrow> (\<exists>e. cleanup demo_generator root_proc fs' ''/srv/root'' = Inl e)
    | Inl e \<Rightarrow> True)"
proof -
  have "case prepare_stage demo_generator demo_boot root_proc empty_root_fs ''/srv/root'' of
      Inr fs' \<Rightarrow> (\<exists>e. cleanup demo_generator root_proc fs' ''/srv/root'' = Inl e)
    | Inl e \<Rightarrow> True"
    by (rule cleanup_after_prepare_fails)
       (simp_all add: demo_generator_def image_generator_init_def Let_def py_or_def demo_host_def
                      empty_root_simps no_links_def)
  with empty_root_prepare_ok show ?thesis by blast
qed

end
