(* ===== verification/Platform.thy ===== *)
theory Platform
  imports Fs
begin

text \<open>
  \<open>Platform\<close> (\<open>src/package/lib/boltlinux/package/boltpack/platform.py\<close>): the search
  for executables, the \<open>key=value\<close> file lookup, the machine and toolchain queries,
  and the build flags. The filesystem is the one of theory \<open>Fs\<close>
  (\<open>os.path.exists\<close>, reading \<open>/etc/target\<close> and \<open>/etc/os-release\<close>); the
  process environment's \<open>PATH\<close>, the working directory, the standard output of a
  subprocess (decoded) and \<open>PackageManager.instance().main_architecture()\<close> are the
  fields of \<open>plat_host\<close>.
\<close>

record plat_host =
  ph_path :: "string option"          \<comment> \<open>\<open>os.environ.get("PATH")\<close>\<close>
  ph_cwd :: string                    \<comment> \<open>the working directory\<close>
  ph_run :: "string list \<Rightarrow> string"   \<comment> \<open>\<open>subprocess.run(argv).stdout.decode(...)\<close>\<close>
  ph_main_arch :: "string option"     \<comment> \<open>\<open>PackageManager.instance().main_architecture()\<close>\<close>

section \<open>Python values\<close>

text \<open>The truth value of an optional string, its \<open>"{}".format\<close>, and the string an
  \<open>x or y\<close> chain sees (\<open>None\<close> and \<open>""\<close> are both false).\<close>

definition truthy :: "string option \<Rightarrow> bool" where
  "truthy r \<longleftrightarrow> (case r of Some s \<Rightarrow> s \<noteq> [] | None \<Rightarrow> False)"

definition py_format_opt :: "string option \<Rightarrow> string" where
  "py_format_opt r = (case r of Some s \<Rightarrow> s | None \<Rightarrow> ''None'')"

definition opt_str :: "string option \<Rightarrow> string" where
  "opt_str r = (case r of Some s \<Rightarrow> s | None \<Rightarrow> [])"

text \<open>\<open>s.split(sep)[0]\<close> and \<open>s.split(sep, 1)[0]\<close>: the text before the first
  separator.\<close>

definition before :: "char \<Rightarrow> string \<Rightarrow> string" where
  "before c s = takeWhile (\<lambda>x. x \<noteq> c) s"

text \<open>Text-mode reading translates \<open>\r\n\<close> and \<open>\r\<close> to \<open>\n\<close> (universal newlines);
  the flag records that the previous character was \<open>\r\<close>.\<close>

fun universal_newlines :: "bool \<Rightarrow> string \<Rightarrow> string" where
  "universal_newlines cr [] = []"
| "universal_newlines cr (c # cs) =
     (if c = CHR 0x0D then CHR 0x0A # universal_newlines True cs
      else if c = CHR 0x0A \<and> cr then universal_newlines False cs
      else c # universal_newlines False cs)"

text \<open>The lines \<open>for line in fp\<close> yields, without their line ends.\<close>

definition file_lines :: "string \<Rightarrow> string list" where
  "file_lines s = split_on CHR 0x0A (universal_newlines False s)"

text \<open>\<open>str.splitlines()\<close>: the line boundaries \<open>\n\<close>, \<open>\v\<close>, \<open>\f\<close>, \<open>\r\<close>,
  \<open>\x1c\<close>--\<open>\x1e\<close>, \<open>\x85\<close>, with \<open>\r\n\<close> one boundary and no empty last line.\<close>

definition is_line_boundary :: "char \<Rightarrow> bool" where
  "is_line_boundary c \<longleftrightarrow> code c \<in> {10, 11, 12, 13, 28, 29, 30, 133}"

fun split_where :: "(char \<Rightarrow> bool) \<Rightarrow> string \<Rightarrow> string list" where
  "split_where P [] = [[]]"
| "split_where P (x # xs) =
     (if P x then [] # split_where P xs
      else (case split_where P xs of w # ws \<Rightarrow> (x # w) # ws | [] \<Rightarrow> [[x]]))"

definition splitlines :: "string \<Rightarrow> string list" where
  "splitlines s =
     (let ps = split_where is_line_boundary (universal_newlines False s)
      in if last ps = [] then butlast ps else ps)"

section \<open>Executables and subprocesses\<close>

definition default_search_dirs :: "string list" where
  "default_search_dirs =
     [''/tools/bin'', ''/tools/sbin'', ''/usr/local/bin'', ''/usr/local/sbin'', ''/bin'', ''/sbin'',
      ''/usr/bin'', ''/usr/sbin'']"

text \<open>\<open>os.environ.get("PATH", "").split(os.pathsep)\<close> followed by the fixed
  directories.\<close>

definition search_path :: "plat_host \<Rightarrow> string list" where
  "search_path h = split_on CHR '':'' (opt_str (ph_path h)) @ default_search_dirs"

text \<open>\<open>Platform.find_executable(name, fallback)\<close>: the first \<open>os.path.join(path,
  name)\<close> that exists.\<close>

definition find_executable :: "plat_host \<Rightarrow> fs \<Rightarrow> string \<Rightarrow> string option \<Rightarrow> string option" where
  "find_executable h fs name fallback =
     (case find (\<lambda>loc. exists fs (comps (abspath (ph_cwd h) loc))) (map (\<lambda>p. py_join p name) (search_path h)) of
        Some loc \<Rightarrow> Some loc
      | None \<Rightarrow> fallback)"

text \<open>A subprocess's standard output, stripped.\<close>

definition run_strip :: "plat_host \<Rightarrow> string list \<Rightarrow> string" where
  "run_strip h argv = strip (ph_run h argv)"

definition config_guess_path :: string where
  "config_guess_path = ''/usr/share/misc/config.guess''"

definition config_guess :: "plat_host \<Rightarrow> fs \<Rightarrow> string" where
  "config_guess h fs =
     (let gcc = find_executable h fs ''gcc'' None in
      if truthy gcc then run_strip h [opt_str gcc, ''-dumpmachine'']
      else if exists fs (comps config_guess_path) then run_strip h [config_guess_path]
      else [])"

definition uname :: "plat_host \<Rightarrow> fs \<Rightarrow> string list \<Rightarrow> string" where
  "uname h fs args =
     (let u = find_executable h fs ''uname'' None in
      if \<not> truthy u then [] else run_strip h (opt_str u # args))"

definition kernel_name :: "plat_host \<Rightarrow> fs \<Rightarrow> string" where
  "kernel_name h fs = uname h fs [''-s'']"

definition machine_name :: "plat_host \<Rightarrow> fs \<Rightarrow> string" where
  "machine_name h fs = uname h fs [''-m'']"

text \<open>\<open>Platform.libc_vendor\<close> computes the vendor and drops it: the method has no
  \<open>return\<close>, so its value is \<open>None\<close>.\<close>

definition libc_vendor :: "plat_host \<Rightarrow> fs \<Rightarrow> string option" where
  "libc_vendor h fs = (let v = before CHR ''/'' (map py_lower_char (uname h fs [''-o''])) in None)"

section \<open>The key=value file lookup\<close>

text \<open>One line: \<open>k, v = [x.strip() for x in line.split("=", 1)]\<close>; a line
  without \<open>=\<close> raises \<open>ValueError\<close> and is skipped.\<close>

fun kv_scan :: "string \<Rightarrow> string list \<Rightarrow> string option" where
  "kv_scan attr [] = None"
| "kv_scan attr (l # ls) =
     (case split_once CHR ''='' l of
        None \<Rightarrow> kv_scan attr ls
      | Some (k, v) \<Rightarrow> (if strip k = attr then Some (strip v) else kv_scan attr ls))"

definition key_value_file_lookup :: "fs \<Rightarrow> string \<Rightarrow> string \<Rightarrow> string option result" where
  "key_value_file_lookup fs attr filename =
     (if exists fs (comps filename)
      then rbind (read_file fs (comps filename)) (\<lambda>text. Inr (kv_scan attr (file_lines text)))
      else Inr None)"

section \<open>Machine and toolchain\<close>

definition target_machine :: "plat_host \<Rightarrow> fs \<Rightarrow> string result" where
  "target_machine h fs =
     rbind (key_value_file_lookup fs ''TARGET_MACHINE'' ''/etc/target'') (\<lambda>r.
       Inr (if truthy r then opt_str r
            else if truthy (ph_main_arch h) then opt_str (ph_main_arch h)
            else before CHR ''-'' (config_guess h fs)))"

definition target_type :: "plat_host \<Rightarrow> fs \<Rightarrow> string result" where
  "target_type h fs =
     rbind (key_value_file_lookup fs ''TARGET_TYPE'' ''/etc/target'') (\<lambda>r.
       Inr (if truthy r then opt_str r else config_guess h fs))"

definition tools_machine :: "plat_host \<Rightarrow> fs \<Rightarrow> string result" where
  "tools_machine h fs =
     rbind (key_value_file_lookup fs ''TOOLS_TYPE'' ''/etc/target'') (\<lambda>r.
       (let r' = (if truthy r then before CHR ''-'' (opt_str r) else opt_str r) in
        Inr (if r' \<noteq> [] then r' else machine_name h fs)))"

definition tools_type :: "plat_host \<Rightarrow> fs \<Rightarrow> string result" where
  "tools_type h fs =
     rbind (key_value_file_lookup fs ''TOOLS_TYPE'' ''/etc/target'') (\<lambda>r.
       Inr (if truthy r then opt_str r
            else machine_name h fs @ ''-tools-linux-'' @ py_format_opt (libc_vendor h fs)))"

definition is_bolt :: "plat_host \<Rightarrow> fs \<Rightarrow> bool result" where
  "is_bolt h fs =
     rbind (key_value_file_lookup fs ''ID'' ''/etc/os-release'') (\<lambda>r.
       case r of
         None \<Rightarrow> Inl (AttributeError ''NoneType object has no attribute lower'')
       | Some v \<Rightarrow> Inr (map py_lower_char v = ''bolt''))"

section \<open>Build flags\<close>

text \<open>\<open>re.sub(r"\s*-fdebug-prefix-map=\S+\s*", " ", value)\<close>: a match at the
  current position is whitespace, the option, a non-empty run of non-space and
  whitespace, all taken greedily; without a match one character is copied.\<close>

definition dpm_option :: string where
  "dpm_option = ''-fdebug-prefix-map=''"

definition dpm_match :: "string \<Rightarrow> string option" where
  "dpm_match s =
     (let s1 = dropWhile is_space s in
      if startswith s1 dpm_option
      then (let s2 = drop (length dpm_option) s1 in
            if s2 \<noteq> [] \<and> \<not> is_space (hd s2)
            then Some (dropWhile is_space (dropWhile (\<lambda>c. \<not> is_space c) s2)) else None)
      else None)"

lemma dpm_match_shorter: "dpm_match s = Some r \<Longrightarrow> length r < length s"
proof -
  assume m: "dpm_match s = Some r"
  let ?s2 = "drop (length dpm_option) (dropWhile is_space s)"
  from m have r: "r = dropWhile is_space (dropWhile (\<lambda>c. \<not> is_space c) ?s2)" and ne: "?s2 \<noteq> []"
    by (auto simp: dpm_match_def Let_def split: if_splits)
  have "length r \<le> length ?s2" unfolding r by (meson le_trans length_dropWhile_le)
  moreover have "length ?s2 < length s"
    using ne length_dropWhile_le [of is_space s] by (simp add: dpm_option_def)
  ultimately show ?thesis by linarith
qed

function re_sub_dpm :: "string \<Rightarrow> string" where
  "re_sub_dpm s =
     (case dpm_match s of
        Some r \<Rightarrow> CHR '' '' # re_sub_dpm r
      | None \<Rightarrow> (case s of [] \<Rightarrow> [] | c # cs \<Rightarrow> c # re_sub_dpm cs))"
  by pat_completeness auto
termination
  by (relation "measure length") (auto dest: dpm_match_shorter)

declare re_sub_dpm.simps [simp del]

text \<open>The loop of \<open>_dpkg_build_flags\<close> over the lines of \<open>dpkg-buildflags --list\<close>;
  the dictionary keeps a key's first position when it is assigned again.\<close>

fun dpkg_flags_loop :: "plat_host \<Rightarrow> string \<Rightarrow> string list \<Rightarrow> (string \<times> string) list \<Rightarrow> (string \<times> string) list" where
  "dpkg_flags_loop h d [] acc = acc"
| "dpkg_flags_loop h d (l # ls) acc =
     (let flag = strip l in
      if flag = [] then dpkg_flags_loop h d ls acc
      else dpkg_flags_loop h d ls
             (AList.update flag (re_sub_dpm (run_strip h [d, ''--get'', flag])) acc))"

definition dpkg_build_flags :: "plat_host \<Rightarrow> fs \<Rightarrow> (string \<times> string) list" where
  "dpkg_build_flags h fs =
     (let d = find_executable h fs ''dpkg-buildflags'' None in
      if \<not> truthy d then []
      else dpkg_flags_loop h (opt_str d) (splitlines (ph_run h [opt_str d, ''--list''])) [])"

definition gcc_build_flags :: "(string \<times> string) list" where
  "gcc_build_flags =
     [(''CFLAGS'', ''-g -O2 -fstack-protector-strong -Wformat -Werror=format-security''),
      (''CXXFLAGS'', ''-g -O2 -fstack-protector-strong -Wformat -Werror=format-security''),
      (''CPPFLAGS'', ''-Wdate-time -D_FORTIFY_SOURCE=2''),
      (''LDFLAGS'', ''-Wl,-z,relro'')]"

definition build_flags :: "plat_host \<Rightarrow> fs \<Rightarrow> (string \<times> string) list" where
  "build_flags h fs =
     (if sublist ''linux'' (map py_lower_char (kernel_name h fs)) \<and> exists fs (comps ''/etc/debian_version'')
      then dpkg_build_flags h fs
      else if truthy (find_executable h fs ''gcc'' None) then gcc_build_flags
      else [])"

text \<open>What \<open>_key_value_file_lookup\<close> promises: the file read as a dictionary of its
  \<open>key=value\<close> assignments, keys and values stripped, in which the first assignment of
  a key wins; lines without \<open>=\<close> assign nothing.\<close>

definition kv_assignments :: "string list \<Rightarrow> (string \<times> string) list" where
  "kv_assignments ls = List.map_filter (\<lambda>l. map_option (\<lambda>(k, v). (strip k, strip v)) (split_once CHR ''='' l)) ls"

definition kv_dict :: "string \<Rightarrow> string \<Rightarrow> string option" where
  "kv_dict text = map_of (kv_assignments (file_lines text))"

text \<open>The \<open>key=value\<close> text of an assignment list, one assignment per line.\<close>

definition kv_render :: "(string \<times> string) list \<Rightarrow> string" where
  "kv_render kvs = concat (map (\<lambda>(k, v). k @ ''='' @ v @ [CHR 0x0A]) kvs)"

text \<open>An assignment the file format can carry: key and value without surrounding
  whitespace and line ends, the key without \<open>=\<close>.\<close>

definition kv_ok :: "string \<times> string \<Rightarrow> bool" where
  "kv_ok kv \<longleftrightarrow>
     (case kv of (k, v) \<Rightarrow> strip k = k \<and> strip v = v \<and> CHR ''='' \<notin> set k \<and>
        CHR 0x0A \<notin> set (k @ v) \<and> CHR 0x0D \<notin> set (k @ v))"


section \<open>Examples\<close>

text \<open>A host whose \<open>/etc/os-release\<close> quotes its \<open>ID\<close>, as \<open>os-release(5)\<close>
  allows, and has no \<open>/etc/target\<close>.\<close>

definition os_release_kvs :: "(string \<times> string) list" where
  "os_release_kvs = [(''NAME'', ''Bolt OS''), (''ID'', ''\"bolt\"'')]"

definition demo_host_fs :: fs where
  "demo_host_fs =
     [([], Dir \<lparr>mode = 493, uid = 0, gid = 0\<rparr>),
      ([''etc''], Dir \<lparr>mode = 493, uid = 0, gid = 0\<rparr>),
      ([''etc'', ''os-release''], File \<lparr>mode = 420, uid = 0, gid = 0\<rparr> (kv_render os_release_kvs))]"

text \<open>A build host without \<open>PATH\<close>, working in \<open>/home/u\<close>, which holds a directory
  named \<open>gcc\<close>; the real compiler is \<open>/usr/bin/gcc\<close>.\<close>

definition cwd_plat_host :: plat_host where
  "cwd_plat_host = \<lparr>ph_path = None, ph_cwd = ''/home/u'', ph_run = (\<lambda>argv. []), ph_main_arch = None\<rparr>"

definition cwd_fs :: fs where
  "cwd_fs =
     [([], Dir \<lparr>mode = 493, uid = 0, gid = 0\<rparr>),
      ([''home''], Dir \<lparr>mode = 493, uid = 0, gid = 0\<rparr>),
      ([''home'', ''u''], Dir \<lparr>mode = 493, uid = 1000, gid = 1000\<rparr>),
      ([''home'', ''u'', ''gcc''], Dir \<lparr>mode = 493, uid = 1000, gid = 1000\<rparr>),
      ([''usr''], Dir \<lparr>mode = 493, uid = 0, gid = 0\<rparr>),
      ([''usr'', ''bin''], Dir \<lparr>mode = 493, uid = 0, gid = 0\<rparr>),
      ([''usr'', ''bin'', ''gcc''], File \<lparr>mode = 493, uid = 0, gid = 0\<rparr> [])]"

definition demo_plat_host :: plat_host where
  "demo_plat_host = \<lparr>ph_path = Some ''/usr/bin'', ph_cwd = ''/'', ph_run = (\<lambda>argv. ''x86_64''),
                      ph_main_arch = None\<rparr>"

section \<open>Lemmas\<close>

subsection \<open>The option filter\<close>

lemma is_space_dash [simp]: "\<not> is_space CHR ''-''"
  by (simp add: is_space_def code_def)

lemma is_space_blank [simp]: "is_space CHR '' ''"
  by (simp add: is_space_def code_def)

lemma re_sub_dpm_Some: "dpm_match s = Some r \<Longrightarrow> re_sub_dpm s = CHR '' '' # re_sub_dpm r"
  by (subst re_sub_dpm.simps) simp

lemma re_sub_dpm_None:
  "dpm_match s = None \<Longrightarrow> re_sub_dpm s = (case s of [] \<Rightarrow> [] | c # cs \<Rightarrow> c # re_sub_dpm cs)"
  by (subst re_sub_dpm.simps) simp

text \<open>Output without whitespace is copied input: no replacement lies in it.\<close>

lemma re_sub_dpm_copied_prefix:
  "\<forall>c\<in>set w. \<not> is_space c \<Longrightarrow> prefix w (re_sub_dpm s) \<Longrightarrow> prefix w s"
proof (induction w arbitrary: s)
  case (Cons c w)
  then have nc: "\<not> is_space c" and nw: "\<forall>c\<in>set w. \<not> is_space c" by simp_all
  show ?case
  proof (cases "dpm_match s")
    case (Some r)
    then have "re_sub_dpm s = CHR '' '' # re_sub_dpm r" by (rule re_sub_dpm_Some)
    with Cons.prems(2) have "c = CHR '' ''" by simp
    with nc show ?thesis by simp
  next
    case None
    show ?thesis
    proof (cases s)
      case Nil
      with None Cons.prems(2) show ?thesis by (simp add: re_sub_dpm_None)
    next
      case (Cons d cs)
      with None have "re_sub_dpm s = d # re_sub_dpm cs" by (simp add: re_sub_dpm_None)
      with Cons.prems(2) have "c = d" and "prefix w (re_sub_dpm cs)" by simp_all
      with Cons.IH [OF nw] show ?thesis by (simp add: \<open>s = d # cs\<close>)
    qed
  qed
qed simp

lemma dpm_match_at_option:
  "\<not> is_space c \<Longrightarrow> dpm_match (dpm_option @ c # b) \<noteq> None"
  by (simp add: dpm_match_def dpm_option_def)

lemma dpm_option_nonspace: "\<forall>x\<in>set dpm_option. \<not> is_space x"
  by (simp add: dpm_option_def is_space_def code_def)

lemma re_sub_dpm_no_option_at_start:
  assumes "re_sub_dpm s = dpm_option @ c # b" and "\<not> is_space c"
  shows False
proof -
  have "\<forall>x\<in>set (dpm_option @ [c]). \<not> is_space x"
    using assms(2) dpm_option_nonspace by simp
  moreover have "prefix (dpm_option @ [c]) (re_sub_dpm s)" using assms(1) by simp
  ultimately have "prefix (dpm_option @ [c]) s" by (rule re_sub_dpm_copied_prefix)
  then obtain b' where s: "s = dpm_option @ c # b'" by (auto simp: prefix_def)
  then have "dpm_match s \<noteq> None" using assms(2) by (simp add: dpm_match_at_option)
  then obtain r where "dpm_match s = Some r" by blast
  then have "re_sub_dpm s = CHR '' '' # re_sub_dpm r" by (rule re_sub_dpm_Some)
  with assms(1) show False by (simp add: dpm_option_def)
qed


text \<open>No option with a value survives the filter.\<close>

lemma re_sub_dpm_clean:
  "\<not> (\<exists>a c b. re_sub_dpm s = a @ dpm_option @ c # b \<and> \<not> is_space c)"
proof (induction s rule: re_sub_dpm.induct)
  case (1 s)
  show ?case
  proof
    assume "\<exists>a c b. re_sub_dpm s = a @ dpm_option @ c # b \<and> \<not> is_space c"
    then obtain a c b where o: "re_sub_dpm s = a @ dpm_option @ c # b" and c: "\<not> is_space c" by blast
    show False
    proof (cases a)
      case Nil
      with o c show False by (auto intro: re_sub_dpm_no_option_at_start)
    next
      case (Cons x a')
      show False
      proof (cases "dpm_match s")
        case (Some r)
        with o Cons have "re_sub_dpm r = a' @ dpm_option @ c # b" by (simp add: re_sub_dpm_Some)
        with "1.IH"(2) [OF Some] c show False by blast
      next
        case None
        then obtain d cs where s: "s = d # cs"
          using o by (cases s) (auto simp: re_sub_dpm_None)
        with None o Cons have "re_sub_dpm cs = a' @ dpm_option @ c # b" by (simp add: re_sub_dpm_None)
        with "1.IH"(1) [OF None s] c show False by blast
      qed
    qed
  qed
qed

text \<open>C12: after the filter of \<open>_dpkg_build_flags\<close>, no \<open>-fdebug-prefix-map=\<close>
  option with a value is left in a flag, wherever it stood in the input.\<close>

theorem re_sub_dpm_removes_option:
  "\<not> (\<exists>a c b. re_sub_dpm s = a @ dpm_option @ c # b \<and> \<not> is_space c)"
  by (rule re_sub_dpm_clean)

subsection \<open>The key=value file\<close>

lemma universal_newlines_no_cr: "CHR 0x0D \<notin> set s \<Longrightarrow> universal_newlines False s = s"
  by (induction s) auto

lemma split_on_no_sep: "c \<notin> set x \<Longrightarrow> split_on c x = [x]"
  by (induction x) auto

lemma split_on_terminated:
  "\<forall>x\<in>set xs. c \<notin> set x \<Longrightarrow> split_on c (concat (map (\<lambda>x. x @ [c]) xs)) = xs @ [[]]"
  by (induction xs) (simp_all add: split_on_append split_on_no_sep)

lemma kv_render_lines: "kv_render kvs = concat (map (\<lambda>x. x @ [CHR 0x0A]) (map (\<lambda>(k, v). k @ CHR ''='' # v) kvs))"
  by (induction kvs) (auto simp: kv_render_def)

lemma split_once_Nil [simp]: "split_once c [] = None"
  by (simp add: split_once_def)

lemma kv_scan_render:
  "list_all kv_ok kvs \<Longrightarrow> kv_scan attr (map (\<lambda>(k, v). k @ CHR ''='' # v) kvs @ [[]]) = map_of kvs attr"
  by (induction kvs) (auto simp: kv_ok_def split_once_append)

lemma file_lines_render: "list_all kv_ok kvs \<Longrightarrow> file_lines (kv_render kvs) = map (\<lambda>(k, v). k @ CHR ''='' # v) kvs @ [[]]"
proof -
  assume ok: "list_all kv_ok kvs"
  then have "CHR 0x0D \<notin> set (kv_render kvs)"
    by (induction kvs) (auto simp: kv_render_def kv_ok_def)
  note cr = this
  have nl: "\<forall>x\<in>set (map (\<lambda>(k, v). k @ CHR ''='' # v) kvs). CHR 0x0A \<notin> set x"
    using ok by (auto simp: kv_ok_def list_all_iff)
  have un: "universal_newlines False (kv_render kvs) = kv_render kvs" using cr by (rule universal_newlines_no_cr)
  show ?thesis
    unfolding file_lines_def un unfolding kv_render_lines by (rule split_on_terminated [OF nl])
qed

lemma key_value_file_lookup_File:
  "map_of fs (comps filename) = Some (File a text) \<Longrightarrow>
     key_value_file_lookup fs attr filename = Inr (kv_scan attr (file_lines text))"
  by (simp add: key_value_file_lookup_def exists_def read_file_def follow_def)

text \<open>C13: reading back a \<open>key=value\<close> file written from an assignment list gives
  each key's first value, and \<open>None\<close> for an absent key.\<close>

theorem key_value_roundtrip:
  assumes "list_all kv_ok kvs" and "map_of fs (comps filename) = Some (File a (kv_render kvs))"
  shows "key_value_file_lookup fs attr filename = Inr (map_of kvs attr)"
  using assms by (simp add: key_value_file_lookup_File file_lines_render kv_scan_render)

theorem key_value_roundtrip_witness:
  "key_value_file_lookup demo_host_fs ''NAME'' ''/etc/os-release'' = Inr (Some ''Bolt OS'')"
proof -
  have "key_value_file_lookup demo_host_fs ''NAME'' ''/etc/os-release'' = Inr (map_of os_release_kvs ''NAME'')"
    by (rule key_value_roundtrip) (simp_all add: os_release_kvs_def demo_host_fs_def kv_ok_def strip_def
                                     is_space_def code_def comps_def)
  then show ?thesis by (simp add: os_release_kvs_def)
qed

text \<open>C14: without a \<open>TOOLS_TYPE\<close> entry, \<open>tools_type\<close> formats the \<open>None\<close> that
  \<open>libc_vendor\<close> returns into the triplet: \<open>machine-tools-linux-None\<close>.\<close>

theorem tools_type_none_vendor:
  "key_value_file_lookup fs ''TOOLS_TYPE'' ''/etc/target'' = Inr r \<Longrightarrow> \<not> truthy r \<Longrightarrow>
     tools_type h fs = Inr (machine_name h fs @ ''-tools-linux-None'')"
  by (simp add: tools_type_def libc_vendor_def py_format_opt_def)

lemma key_value_file_lookup_missing:
  "\<not> exists fs (comps filename) \<Longrightarrow> key_value_file_lookup fs attr filename = Inr None"
  by (simp add: key_value_file_lookup_def)

theorem tools_type_none_vendor_witness:
  "tools_type demo_plat_host [] = Inr (machine_name demo_plat_host [] @ ''-tools-linux-None'')"
  by (rule tools_type_none_vendor [of _ None]) (simp_all add: key_value_file_lookup_missing exists_def truthy_def)

text \<open>C15: \<open>is_bolt\<close> raises \<open>AttributeError\<close> (\<open>None.lower()\<close>) on a host whose
  \<open>/etc/os-release\<close> is missing or has no \<open>ID\<close> line.\<close>

theorem is_bolt_missing_id:
  "key_value_file_lookup fs ''ID'' ''/etc/os-release'' = Inr None \<Longrightarrow>
     is_bolt h fs = Inl (AttributeError ''NoneType object has no attribute lower'')"
  by (simp add: is_bolt_def)

theorem is_bolt_missing_id_witness:
  "is_bolt demo_plat_host [] = Inl (AttributeError ''NoneType object has no attribute lower'')"
  by (rule is_bolt_missing_id) (simp add: key_value_file_lookup_missing exists_def)

text \<open>C16: on an \<open>/etc/os-release\<close> of assignments, \<open>is_bolt\<close> compares the first
  \<open>ID\<close> value, lowercased, with \<open>bolt\<close>, quotes included.\<close>

theorem is_bolt_os_release:
  assumes "list_all kv_ok kvs" and "map_of fs (comps ''/etc/os-release'') = Some (File a (kv_render kvs))"
  shows "is_bolt h fs = (case map_of kvs ''ID'' of
                           None \<Rightarrow> Inl (AttributeError ''NoneType object has no attribute lower'')
                         | Some v \<Rightarrow> Inr (map py_lower_char v = ''bolt''))"
  using assms by (simp add: is_bolt_def key_value_file_lookup_File file_lines_render kv_scan_render split: option.split)


theorem is_bolt_os_release_witness: "is_bolt demo_plat_host demo_host_fs = Inr False"
proof -
  have "is_bolt demo_plat_host demo_host_fs =
          (case map_of os_release_kvs ''ID'' of
             None \<Rightarrow> Inl (AttributeError ''NoneType object has no attribute lower'')
           | Some v \<Rightarrow> Inr (map py_lower_char v = ''bolt''))"
    by (rule is_bolt_os_release) (simp_all add: os_release_kvs_def demo_host_fs_def kv_ok_def strip_def
                                   is_space_def code_def comps_def)
  then show ?thesis by (simp add: os_release_kvs_def py_lower_char_def)
qed

text \<open>The line loop is the first-match lookup in the list of assignments.\<close>

lemma kv_scan_map_of: "kv_scan attr ls = map_of (kv_assignments ls) attr"
  by (induction ls) (auto simp: kv_assignments_def map_filter_simps split: option.splits)

text \<open>C24: \<open>_key_value_file_lookup\<close> refines the dictionary reading of the file:
  whenever the file can be read, the lookup returns the dictionary's entry for the key.\<close>

theorem key_value_lookup_refines_dict:
  assumes "read_file fs (comps filename) = Inr text"
  shows "key_value_file_lookup fs attr filename = Inr (kv_dict text attr)"
proof -
  from assms have "exists fs (comps filename)"
    by (auto simp: read_file_def exists_def split: option.splits)
  with assms show ?thesis by (simp add: key_value_file_lookup_def kv_dict_def kv_scan_map_of)
qed

theorem key_value_lookup_refines_dict_witness:
  "key_value_file_lookup demo_host_fs ''ID'' ''/etc/os-release'' = Inr (kv_dict (kv_render os_release_kvs) ''ID'')"
  by (rule key_value_lookup_refines_dict) (simp add: read_file_def follow_def demo_host_fs_def comps_def)


text \<open>C27: an empty first entry of \<open>PATH\<close> (no \<open>PATH\<close> at all, or one that starts
  with \<open>:\<close>) makes \<open>find_executable\<close> look in the working directory before every
  other directory: whenever anything of that name exists there, a directory included,
  the bare relative name is returned.\<close>

theorem find_executable_cwd_first:
  assumes "hd (split_on CHR '':'' (opt_str (ph_path h))) = []"
    and "exists fs (comps (abspath (ph_cwd h) name))"
  shows "find_executable h fs name fb = Some name"
proof -
  obtain rest where "split_on CHR '':'' (opt_str (ph_path h)) = [] # rest"
    using assms(1) split_on_nonempty by (metis list.collapse)
  moreover have "py_join [] name = name" by (simp add: py_join_def)
  ultimately show ?thesis using assms(2) by (simp add: find_executable_def search_path_def)
qed

theorem find_executable_cwd_first_witness:
  "find_executable cwd_plat_host cwd_fs ''gcc'' None = Some ''gcc''"
  by (rule find_executable_cwd_first)
     (simp_all add: cwd_plat_host_def cwd_fs_def opt_str_def exists_def follow_def abspath_def
                    comps_def)


subsection \<open>The dictionary of \<open>dpkg-buildflags\<close>\<close>

lemma list_all_update:
  "list_all P al \<Longrightarrow> P (k, v) \<Longrightarrow> list_all P (AList.update k v al)"
  by (induction al) auto

text \<open>The loop keeps its dictionary free of empty keys, of repeated keys and of values
  holding an option with a value.\<close>

lemma dpkg_flags_loop_clean:
  assumes "distinct (map fst acc)"
    and "list_all (\<lambda>(k, v). k \<noteq> [] \<and> \<not> (\<exists>a c b. v = a @ dpm_option @ c # b \<and> \<not> is_space c)) acc"
  shows "distinct (map fst (dpkg_flags_loop h d ls acc)) \<and>
         list_all (\<lambda>(k, v). k \<noteq> [] \<and> \<not> (\<exists>a c b. v = a @ dpm_option @ c # b \<and> \<not> is_space c))
           (dpkg_flags_loop h d ls acc)"
  using assms
proof (induction ls arbitrary: acc)
  case (Cons l ls)
  show ?case
  proof (cases "strip l = []")
    case True
    with Cons show ?thesis by simp
  next
    case False
    let ?acc = "AList.update (strip l) (re_sub_dpm (run_strip h [d, ''--get'', strip l])) acc"
    have "distinct (map fst ?acc)" using Cons.prems(1) by (rule distinct_update)
    moreover have "list_all (\<lambda>(k, v). k \<noteq> [] \<and> \<not> (\<exists>a c b. v = a @ dpm_option @ c # b \<and> \<not> is_space c)) ?acc"
      using Cons.prems(2) False re_sub_dpm_clean by (auto intro!: list_all_update)
    ultimately show ?thesis using Cons.IH False by (simp add: Let_def)
  qed
qed simp

text \<open>C28: the build flags read from \<open>dpkg-buildflags\<close> form a dictionary: every flag
  name is non-empty and appears once, and no flag value holds a
  \<open>-fdebug-prefix-map=\<close> option with a value.\<close>

theorem dpkg_build_flags_clean:
  "distinct (map fst (dpkg_build_flags h fs)) \<and>
   list_all (\<lambda>(k, v). k \<noteq> [] \<and> \<not> (\<exists>a c b. v = a @ dpm_option @ c # b \<and> \<not> is_space c))
     (dpkg_build_flags h fs)"
proof (cases "truthy (find_executable h fs ''dpkg-buildflags'' None)")
  case True
  have "distinct (map fst ([] :: (string \<times> string) list))" by simp
  from dpkg_flags_loop_clean [OF this] True show ?thesis
    by (simp add: dpkg_build_flags_def Let_def)
qed (simp add: dpkg_build_flags_def)

end
