(* ===== verification/Packaging.thy ===== *)
theory Packaging
  imports Specfile Fs
begin

text \<open>
  The packaging metadata (\<open>src/package/setup.py\<close>): the arguments of the
  \<open>setup()\<close> call, with the version taken from the environment; where setuptools
  installs the packages' modules and data files below a site directory; and the first
  entry of \<open>Specfile.RELAXNG_SCHEMA_SEARCH_PATH\<close>
  (\<open>src/package/lib/boltlinux/package/boltpack/specfile.py\<close>, lines 36--47), which
  is computed from the module's own location.
\<close>

record setup_args =
  s_name :: string
  s_version :: string
  s_url :: string
  s_author :: string
  s_author_email :: string
  s_license :: string
  s_packages :: "string list"
  s_data_files :: "(string \<times> string list) list"
  s_package_data :: "(string \<times> string list) list"
  s_package_dir :: "(string \<times> string) list"
  s_platforms :: "string list"
  s_classifiers :: "string list"
  s_keywords :: string
  s_description :: string
  s_long_description :: string

text \<open>\<open>VERSION = os.environ.get("BOLT_DISTRO_TOOLS_VERSION", "0.0.0")\<close>.\<close>

definition setup_version :: "(string \<times> string) list \<Rightarrow> string" where
  "setup_version environ =
     (case map_of environ ''BOLT_DISTRO_TOOLS_VERSION'' of Some v \<Rightarrow> v | None \<Rightarrow> ''0.0.0'')"

definition setup_call :: "(string \<times> string) list \<Rightarrow> setup_args" where
  "setup_call environ =
     \<lparr>s_name = ''bolt-package'', s_version = setup_version environ,
      s_url = ''https://github.com/boltlinux/bolt-distro-tools'',
      s_author = ''Tobias Koch'', s_author_email = ''tobias.koch@gmail.com'', s_license = ''MIT'',
      s_packages = [''boltlinux.package'', ''boltlinux.package.boltpack'', ''boltlinux.package.deb2bolt''],
      s_data_files = [(''bin'', [''bin/bolt-pack'', ''bin/deb2bolt''])],
      s_package_data = [(''boltlinux.package.boltpack'',
                          [''helpers/python.sh'', ''helpers/arch.sh'', ''relaxng/package.rng.xml''])],
      s_package_dir = [([], ''lib'')],
      s_platforms = [''Linux''],
      s_classifiers = [''Development Status :: 5 - Production/Stable'', ''Intended Audience :: Developers'',
                       ''Topic :: Software Development :: Build Tools'', ''License :: OSI Approved :: MIT License'',
                       ''Programming Language :: Python :: 3''],
      s_keywords = ''Bolt Linux packaging development'',
      s_description = ''Bolt Linux packaging scripts and tools'',
      s_long_description = ''Bolt Linux packaging scripts and tools''\<rparr>"

section \<open>Installation layout\<close>

text \<open>setuptools installs package \<open>a.b.c\<close> into \<open>site/a/b/c\<close>, a module \<open>m\<close> of it as
  \<open>site/a/b/c/m.py\<close>, and each \<open>package_data\<close> file at its relative path inside the
  package directory.\<close>

definition package_path :: "path \<Rightarrow> string \<Rightarrow> path" where
  "package_path site pkg = site @ split_on CHR ''.'' pkg"

definition installed_package_data :: "path \<Rightarrow> setup_args \<Rightarrow> path list" where
  "installed_package_data site a =
     concat (map (\<lambda>(pkg, files). map (\<lambda>f. package_path site pkg @ comps f) files) (s_package_data a))"

definition specfile_module :: "path \<Rightarrow> path" where
  "specfile_module site = package_path site ''boltlinux.package.boltpack'' @ [''specfile.py'']"

text \<open>A filesystem holding exactly the installed package data, as regular files.\<close>

definition installed_fs :: "path \<Rightarrow> setup_args \<Rightarrow> fs" where
  "installed_fs site a = map (\<lambda>p. (p, File \<lparr>mode = 420, uid = 0, gid = 0\<rparr> [])) (installed_package_data site a)"

section \<open>The schema search path of an installed module\<close>

text \<open>\<open>os.path.normpath(os.path.join(os.path.dirname(os.path.realpath(__file__)),
  "..", "..", "..", "..", "relaxng", "package.rng.xml"))\<close> for a module file at a
  canonical path: \<open>normpath\<close> removes each \<open>..\<close> with the component before it.\<close>

definition module_schema_path :: "path \<Rightarrow> string" where
  "module_schema_path module = path_str (resolve_from (butlast module) ''../../../../relaxng/package.rng.xml'')"

text \<open>The host of \<open>Specfile\<close> when the package is installed below \<open>site\<close>: the
  first schema candidate is computed from the installed module, and
  \<open>os.path.exists\<close> asks the filesystem.\<close>

definition installed_spec_host :: "path \<Rightarrow> fs \<Rightarrow> spec_host \<Rightarrow> spec_host" where
  "installed_spec_host site fs h =
     h\<lparr>path_exists := (\<lambda>p. exists fs (comps p)), module_schema := module_schema_path (specfile_module site)\<rparr>"

section \<open>Lemmas\<close>

lemma specfile_module_dir:
  "butlast (specfile_module site) = site @ [''boltlinux'', ''package'', ''boltpack'']"
  by (simp add: specfile_module_def package_path_def butlast_append)

text \<open>The first candidate of an installed module lies beside the site directory, not
  inside the package.\<close>

lemma module_schema_installed:
  "comps (module_schema_path (specfile_module (comps site))) =
     butlast (comps site) @ [''relaxng'', ''package.rng.xml'']"
proof -
  have lit: "comps ''../../../../relaxng/package.rng.xml'' = [''..'', ''..'', ''..'', ''..'', ''relaxng'', ''package.rng.xml'']"
    by (simp add: comps_def)
  have r: "resolve_from (butlast (specfile_module (comps site))) ''../../../../relaxng/package.rng.xml'' =
             butlast (comps site) @ [''relaxng'', ''package.rng.xml'']"
    by (simp add: specfile_module_dir resolve_from_def lit butlast_append)
  have "wf_path (butlast (comps site) @ [''relaxng'', ''package.rng.xml''])"
    using wf_path_comps [of site] by (auto simp: wf_path_def dest: in_set_butlastD)
  then show ?thesis by (simp add: module_schema_path_def r comps_path_str)
qed

lemma installed_schema_file:
  "comps site @ [''boltlinux'', ''package'', ''boltpack'', ''relaxng'', ''package.rng.xml'']
     \<in> set (installed_package_data (comps site) (setup_call environ))"
  by (simp add: installed_package_data_def setup_call_def package_path_def comps_def)

lemma installed_package_data_eq:
  "installed_package_data (comps site) (setup_call environ) =
     [comps site @ [''boltlinux'', ''package'', ''boltpack'', ''helpers'', ''python.sh''],
      comps site @ [''boltlinux'', ''package'', ''boltpack'', ''helpers'', ''arch.sh''],
      comps site @ [''boltlinux'', ''package'', ''boltpack'', ''relaxng'', ''package.rng.xml'']]"
  by (simp add: installed_package_data_def setup_call_def package_path_def comps_def)

lemma map_of_const: "map_of (map (\<lambda>p. (p, v)) ps) q = (if q \<in> set ps then Some v else None)"
  by (induction ps) auto

lemma exists_installed_fs: "exists (installed_fs site a) q \<longleftrightarrow> q \<in> set (installed_package_data site a)"
  by (simp add: exists_def follow_def installed_fs_def map_of_const)

lemma search_path_not_installed:
  assumes "c \<in> set (schema_search_path (installed_spec_host (comps site) fs h))"
  shows "comps c \<notin> set (installed_package_data (comps site) (setup_call environ))"
proof -
  have lit: "comps ''usr/share/bolt-pack/relaxng/package.rng.xml'' = [''usr'', ''share'', ''bolt-pack'', ''relaxng'', ''package.rng.xml'']"
    "comps ''tools/share/bolt-pack/relaxng/package.rng.xml'' = [''tools'', ''share'', ''bolt-pack'', ''relaxng'', ''package.rng.xml'']"
    by (simp_all add: comps_def)
  have m: "comps (module_schema (installed_spec_host (comps site) fs h)) =
             butlast (comps site) @ [''relaxng'', ''package.rng.xml'']"
    by (simp add: installed_spec_host_def module_schema_installed)
  have short: "butlast (comps site) @ [''relaxng'', ''package.rng.xml''] \<noteq> comps site @ w"
    if "length w = 5" for w :: path
    using that by (auto dest: arg_cong [where f = length])
  have inst: "set (installed_package_data (comps site) (setup_call environ)) = (\<lambda>w. comps site @ w) `
      {[''boltlinux'', ''package'', ''boltpack'', ''helpers'', ''python.sh''],
       [''boltlinux'', ''package'', ''boltpack'', ''helpers'', ''arch.sh''],
       [''boltlinux'', ''package'', ''boltpack'', ''relaxng'', ''package.rng.xml'']}"
    by (simp add: installed_package_data_eq)
  from assms consider "c = module_schema (installed_spec_host (comps site) fs h)"
    | "c = ''/usr/share/bolt-pack/relaxng/package.rng.xml''"
    | "c = ''/tools/share/bolt-pack/relaxng/package.rng.xml''"
    by (auto simp: schema_search_path_def)
  then show ?thesis
  proof cases
    case 1
    show ?thesis unfolding inst
    proof
      assume "comps c \<in> (\<lambda>w. comps site @ w) ` {[''boltlinux'', ''package'', ''boltpack'', ''helpers'', ''python.sh''],
       [''boltlinux'', ''package'', ''boltpack'', ''helpers'', ''arch.sh''],
       [''boltlinux'', ''package'', ''boltpack'', ''relaxng'', ''package.rng.xml'']}"
      then obtain w where w: "w \<in> {[''boltlinux'', ''package'', ''boltpack'', ''helpers'', ''python.sh''],
       [''boltlinux'', ''package'', ''boltpack'', ''helpers'', ''arch.sh''],
       [''boltlinux'', ''package'', ''boltpack'', ''relaxng'', ''package.rng.xml'']}"
        and "comps c = comps site @ w" by blast
      moreover from w have "length w = 5" by auto
      ultimately show False using 1 m short by simp
    qed
  qed (simp_all add: lit inst append_eq_Cons_conv)
qed

end
