(* ===== verification/Spec2Isabelle.thy ===== *)
theory Spec2Isabelle
  imports Specfile Pipeline Bootstrap_Root Platform Packaging
begin

text \<open>
  A verification development for the Bolt Linux distribution tools
  (\<open>src/package/lib/boltlinux/package/boltpack/specfile.py\<close>,
  \<open>src/package/lib/boltlinux/package/boltpack/platform.py\<close>,
  \<open>src/image-gen/lib/boltlinux/osimage/generator.py\<close>).

  \<^bold>\<open>The program.\<close> \<open>Specfile\<close> loads a package specification, validates it against
  a RELAX NG schema and then against a table of field patterns, and answers queries
  on it. \<open>ImageGenerator\<close> prepares a target root (directories, configuration files,
  host files, \<open>opkg update\<close>), applies the directives of an image specification in
  order with a scoped environment, and cleans the root. \<open>Platform\<close> answers
  questions about the build host (executables, machine and toolchain names, build
  flags).

  \<^bold>\<open>Theories.\<close>
  \<^item> \<open>Prelude\<close>: the exceptions as one \<open>error\<close> datatype and the result type
    \<open>error + 'a\<close> with \<open>rbind\<close>; Python's character classes (\<open>\d\<close>, \<open>\s\<close>,
    \<open>[a-zA-Z0-9]\<close>) and \<open>str.lower\<close> on the code points U+0000..U+00FF; string
    helpers (\<open>startswith\<close>, \<open>strip\<close>, \<open>split("=", 1)\<close>).
  \<^item> \<open>Regex\<close>: regular expressions with a language semantics, a derivative matcher
    proved equal to it (\<open>rmatch_lang\<close>), and \<open>py_re_match\<close>, the truth value of
    \<open>re.match('^R$', s)\<close>, in which \<open>$\<close> also matches before a final newline.
  \<^item> \<open>Formats\<close>: the ten patterns of \<open>Specfile.validate_format\<close> (lines 98--109) and
    what each accepts.
  \<^item> \<open>Xml\<close>: the parsed document, its elements in document order, and the XPath
    fragment the code uses.
  \<^item> \<open>Specfile\<close>: \<open>Specfile.__init__\<close> (\<open>specfile_init\<close>), \<open>validate_structure\<close>,
    \<open>validate_format\<close> (\<open>format_spec\<close>, \<open>collect_errors\<close>, \<open>rule_errors\<close>) and the
    queries. Parsing, XInclude, RELAX NG and \<open>os.path.exists\<close> are the fields of
    \<open>spec_host\<close>: the lemmas hold for every behaviour of them.
  \<^item> \<open>Image_Config\<close>: \<open>ImageGenerator.__init__\<close> (\<open>image_generator_init\<close>) and
    the configuration templates with \<open>str.format\<close> (\<open>format_template\<close>).
  \<^item> \<open>Environment\<close>: \<open>_prepare_environment\<close> (\<open>prepare_environment\<close>).
  \<^item> \<open>Pipeline\<close>: \<open>customize\<close> and its directive loop \<open>run_parts\<close>; the loader, the
    directive classes and \<open>apply\<close> are the fields of \<open>custom_host\<close>.
  \<^item> \<open>Fs\<close>: the filesystem the generator and \<open>Platform\<close> work on, an association list
    from paths to directories, files and links with mode, owner and group, and the
    \<open>os\<close>/\<open>shutil\<close> calls they make (\<open>mkdir\<close>, \<open>makedirs\<close>, \<open>chmod\<close>, \<open>chown\<close>,
    \<open>symlink\<close>, \<open>unlink\<close>, \<open>open\<close>/\<open>write\<close>, \<open>copy2\<close>, \<open>rmtree\<close>, \<open>lstat\<close>,
    \<open>exists\<close>, \<open>isdir\<close>, \<open>realpath\<close>), with frame lemmas (\<open>keeps_dirs\<close>,
    \<open>same_dirs\<close>, \<open>grows\<close>). This is a model of the Python library, not of
    repository code.
  \<^item> \<open>Fs_Root\<close>: the calls of a process of user 0, which fail only on the shape of
    the tree; on a fresh path below a directory each returns the association list
    with that one entry added or replaced (\<open>makedirs_fresh\<close>, \<open>open_w_fresh\<close>,
    \<open>symlink_fresh\<close>, ...), so that a sequence of calls can be followed call by call.
  \<^item> \<open>Bootstrap\<close>: \<open>prepare\<close> (\<open>create_dirs\<close>, \<open>var_run_link\<close>,
    \<open>copy_qemu_to_sysroot\<close>, \<open>write_config_files\<close>, \<open>copy_files\<close>, then the host's
    \<open>opkg update\<close>) and \<open>cleanup\<close> (\<open>write_config_files\<close>, \<open>try_unlink\<close>,
    \<open>clean_dirs\<close>/\<open>clean_dir\<close>). A root is the string the caller passes;
    \<open>sysroot + dirname\<close> is parsed by \<open>comps\<close>.
  \<^item> \<open>Bootstrap_Root\<close>: \<open>prepare\<close> and \<open>cleanup\<close> as a whole, run by user 0:
    \<open>cleanup\<close> on a root of the right shape, \<open>prepare\<close> on an empty root, and the
    properties of both on the example roots \<open>full_fs\<close> and \<open>empty_root_fs\<close>, where
    each returns.
  \<^item> \<open>Platform\<close>: every method of \<open>Platform\<close>: \<open>find_executable\<close>,
    \<open>config_guess\<close>, \<open>uname\<close>, \<open>target_machine\<close>, \<open>target_type\<close>,
    \<open>tools_machine\<close>, \<open>tools_type\<close>, \<open>libc_vendor\<close>, \<open>is_bolt\<close>,
    \<open>key_value_file_lookup\<close> (\<open>kv_scan\<close>), \<open>build_flags\<close> and
    \<open>dpkg_build_flags\<close> with its \<open>re.sub\<close> (\<open>re_sub_dpm\<close>). \<open>PATH\<close>, the working
    directory, subprocess output and the package manager's main architecture are the
    fields of \<open>plat_host\<close>.
  \<^item> \<open>Packaging\<close>: \<open>src/package/setup.py\<close>, the arguments of its \<open>setup()\<close> call
    (\<open>setup_call\<close>, with \<open>setup_version\<close> from the environment); where setuptools
    puts the package data and the \<open>specfile\<close> module below a site directory
    (\<open>installed_package_data\<close>, \<open>specfile_module\<close>); and the first entry of
    \<open>RELAXNG_SCHEMA_SEARCH_PATH\<close>, computed from the module's location
    (\<open>module_schema_path\<close>). \<open>installed_spec_host\<close> is the \<open>Specfile\<close> host of
    an installed package, whose \<open>os.path.exists\<close> asks an \<open>Fs\<close> filesystem.

  \<^bold>\<open>What is shown.\<close>
  \<^item> Validation: the format pass collects all violations, one diagnostic each (C1);
    it accepts exactly the documents whose selected attributes all match (C2);
    the constructor only returns validated documents, and a structural failure is
    reported before any format check (C3, C4). On newline-free values the
    dependency-version pattern accepts exactly the grammar
    \<open>OP [EPOCH:] VERSION [-REVISION]\<close> of the specification (C23). The version
    \<open>latest_version\<close> composes reads back as exactly its parts (\<open>parse_version\<close>,
    the specification's reading: epoch before the first \<open>:\<close>, revision after the
    rightmost \<open>-\<close>, no part that is marked present empty) when the version has no
    \<open>-\<close> or a revision is present (C25); otherwise it is ambiguous: for every version
    \<open>u\<close> and revision \<open>w\<close> the format check accepts, the version \<open>u-w\<close> without
    revision composes to the same string as \<open>u\<close> with revision \<open>w\<close> (C26).
  \<^item> Configuration: the constructor's context renders the three package-manager
    files (architecture, feed URL with the default archive, signature option) (C29),
    and the constructor fails exactly when no cache directory is known (C30).
  \<^item> Environment and pipeline: the four identity variables are always the computed
    ones (C5); other variables are copied exactly when allowed (C6); the directive
    loop halts at the first failure and logs each directive it started (C7), succeeds
    exactly when every directive does (C8), and runs with one scoped environment
    (C9).
  \<^item> Root bootstrapping: whenever \<open>cleanup\<close> returns, each scratch directory has its
    owner, group and mode and nothing below it, for any process identity (C10);
    \<open>cleanup\<close> fails on a root lacking one (C11); \<open>prepare\<close> leaves each directory of
    \<open>DIRS_TO_CREATE\<close> with exactly its listed mode, whatever the umask (C17); and,
    since \<open>prepare\<close> never creates \<open>/var/tmp\<close>, \<open>cleanup\<close> right after
    \<open>prepare\<close> fails on every root without one (C18); conversely, run by user 0,
    \<open>cleanup\<close> always returns on a root that has its five directories (C21), and
    \<open>prepare\<close> without QEMU staging returns on every empty root of a host that has
    \<open>/etc/hosts\<close> and \<open>/etc/resolv.conf\<close> (C22). The examples of C10, C17 and C18
    are roots on which the call returns.
  \<^item> Platform: the \<open>-fdebug-prefix-map\<close> filter removes every such option (C12); the \<open>key=value\<close> lookup reads back
    what a file of assignments says (C13); \<open>tools_type\<close> returns
    \<open>...-linux-None\<close> (C14); \<open>is_bolt\<close> raises on a missing \<open>ID\<close> (C15) and compares
    the quoted value (C16); the lookup refines the dictionary of the file's
    assignments in which the first assignment of a key wins (\<open>kv_dict\<close>, C24); without \<open>PATH\<close>,
    \<open>find_executable\<close> returns whatever of that name the working directory holds (C27); the
    flags read from \<open>dpkg-buildflags\<close> form a dictionary with no prefix-map option left
    (C28).
  \<^item> Across components: the schema \<open>setup.py\<close> installs is not on
    \<open>Specfile\<close>'s search path (C19), so on a filesystem holding only the installed
    package data \<open>validate_structure\<close> always raises \<open>RELAX NG ruleset not found.\<close>
    (C20).

  \<^bold>\<open>Bounds and fuel.\<close> No loop needs fuel: the loops of the sources run over finite
  lists and are structural recursions; the \<open>re.sub\<close> scan is a \<open>function\<close> whose
  termination is proved with the length of the remaining input. File modes are
  natural numbers with \<open>chmod\<close> keeping the low twelve bits and \<open>mkdir\<close> the
  permission and sticky bits (\<open>AND 1023\<close>) without the umask.

  \<^bold>\<open>Not modelled.\<close> \<open>Specfile.serialize\<close> and
  \<open>SpecfileParser\<close> (their modules are not among the sources); the bodies of
  \<open>lxml\<close>'s parser and RELAX NG validator, the directive classes, \<open>opkg\<close> and other
  subprocesses, which are host services; setuptools itself, of which only the
  installation layout is described. In the filesystem, links are followed one
  level and only as the last component, read permission and character decoding are
  not modelled, and the state a failed call leaves is not described.
\<close>

section \<open>Properties across components\<close>

text \<open>C19: the schema \<open>setup.py\<close> installs (as \<open>package_data\<close> of
  \<open>boltlinux.package.boltpack\<close>) is none of the paths \<open>Specfile.validate_structure\<close>
  searches when the package is installed below a site directory: the first candidate,
  four levels above the module, lies beside the site directory, and the other two
  are outside it.\<close>

theorem installed_schema_not_searched:
  "comps site @ [''boltlinux'', ''package'', ''boltpack'', ''relaxng'', ''package.rng.xml'']
     \<in> set (installed_package_data (comps site) (setup_call environ)) \<and>
   comps site @ [''boltlinux'', ''package'', ''boltpack'', ''relaxng'', ''package.rng.xml'']
     \<notin> comps ` set (schema_search_path (installed_spec_host (comps site) fs h))"
proof -
  let ?inst = "comps site @ [''boltlinux'', ''package'', ''boltpack'', ''relaxng'', ''package.rng.xml'']"
  have m: "comps (module_schema (installed_spec_host (comps site) fs h)) =
             butlast (comps site) @ [''relaxng'', ''package.rng.xml'']"
    by (simp add: installed_spec_host_def module_schema_installed)
  have "length ?inst \<noteq> length (butlast (comps site) @ [''relaxng'', ''package.rng.xml''])" by simp
  then have "?inst \<noteq> butlast (comps site) @ [''relaxng'', ''package.rng.xml'']" by metis
  moreover have "?inst \<noteq> comps ''/usr/share/bolt-pack/relaxng/package.rng.xml''"
    and "?inst \<noteq> comps ''/tools/share/bolt-pack/relaxng/package.rng.xml''"
    by (simp_all add: comps_def append_eq_Cons_conv)
  ultimately show ?thesis
    using installed_schema_file [of site environ] m by (auto simp: schema_search_path_def)
qed

text \<open>C20: so an installed package cannot validate any specification: on a filesystem
  holding exactly the \<open>package_data\<close> files \<open>setup.py\<close> installs, \<open>validate_structure\<close> fails with
  \<open>RELAX NG ruleset not found.\<close>, whatever the site directory, the environment, the
  host's parser and the document.\<close>

theorem installed_validate_structure_fails:
  "validate_structure (installed_spec_host (comps site) (installed_fs (comps site) (setup_call environ)) h) d =
     Inl (RuntimeError ''RELAX NG ruleset not found.'')"
proof -
  let ?h = "installed_spec_host (comps site) (installed_fs (comps site) (setup_call environ)) h"
  have "\<not> path_exists ?h c" if "c \<in> set (schema_search_path ?h)" for c
    using search_path_not_installed [OF that]
    by (simp add: installed_spec_host_def exists_installed_fs)
  then have "find (path_exists ?h) (schema_search_path ?h) = None" by (simp add: find_None_iff)
  then show ?thesis by (simp add: validate_structure_def)
qed

end
